theory Spec2Isabelle
  imports Main
begin

section \<open>JavaScript values\<close>

text \<open>
  The values the console handles are what \<^verbatim>\<open>JSON.parse\<close> produces, plus \<^verbatim>\<open>undefined\<close>
  for a missing property. Numbers are restricted to integers, strings are lists of
  8-bit code units, and an object is the list of its own properties in insertion order.
\<close>

datatype jsval =
    JUndef
  | JNull
  | JBool bool
  | JNum int
  | JStr string
  | JArr "jsval list"
  | JObj "(string \<times> jsval) list"

text \<open>Truthiness, as tested by \<^verbatim>\<open>!v\<close>, \<^verbatim>\<open>a || b\<close>, \<^verbatim>\<open>a && b\<close> and \<^verbatim>\<open>c ? x : y\<close>.\<close>

fun truthy :: "jsval \<Rightarrow> bool" where
  "truthy JUndef = False"
| "truthy JNull = False"
| "truthy (JBool b) = b"
| "truthy (JNum n) = (n \<noteq> 0)"
| "truthy (JStr s) = (s \<noteq> [])"
| "truthy (JArr xs) = True"
| "truthy (JObj kvs) = True"

definition js_or :: "jsval \<Rightarrow> jsval \<Rightarrow> jsval" where
  "js_or a b = (if truthy a then a else b)"

definition js_and :: "jsval \<Rightarrow> jsval \<Rightarrow> jsval" where
  "js_and a b = (if truthy a then b else a)"

fun isArray :: "jsval \<Rightarrow> bool" where
  "isArray (JArr xs) = True"
| "isArray v = False"

fun isString :: "jsval \<Rightarrow> bool" where
  "isString (JStr s) = True"
| "isString v = False"

text \<open>\<^verbatim>\<open>typeof v === "object"\<close>: objects, arrays and \<^verbatim>\<open>null\<close>.\<close>

fun isObjectType :: "jsval \<Rightarrow> bool" where
  "isObjectType (JObj kvs) = True"
| "isObjectType (JArr xs) = True"
| "isObjectType JNull = True"
| "isObjectType v = False"

text \<open>
  Property read \<^verbatim>\<open>v.k\<close> for the property names the console reads (\<^verbatim>\<open>items\<close>, \<^verbatim>\<open>data\<close>,
  \<^verbatim>\<open>detail\<close>, \<^verbatim>\<open>message\<close>, \<^verbatim>\<open>error\<close>, \<^verbatim>\<open>access_token\<close>, \<^verbatim>\<open>token\<close>, \<^verbatim>\<open>jwt\<close>, \<^verbatim>\<open>id\<close>):
  none of them is inherited, so an array, a string, a number or a boolean yields
  \<^verbatim>\<open>undefined\<close>. On \<^verbatim>\<open>null\<close> and \<^verbatim>\<open>undefined\<close> JavaScript raises a TypeError; the result
  \<open>None\<close> stands for that exception.
\<close>

fun getProp :: "jsval \<Rightarrow> string \<Rightarrow> jsval option" where
  "getProp JUndef k = None"
| "getProp JNull k = None"
| "getProp (JObj kvs) k = Some (case map_of kvs k of Some v \<Rightarrow> v | None \<Rightarrow> JUndef)"
| "getProp v k = Some JUndef"

text \<open>
  The same read where the source has already tested the receiver for truthiness (or uses
  \<^verbatim>\<open>?.\<close>), so that the TypeError cannot occur.
\<close>

definition getField :: "jsval \<Rightarrow> string \<Rightarrow> jsval" where
  "getField v k = (case getProp v k of Some x \<Rightarrow> x | None \<Rightarrow> JUndef)"

text \<open>Decimal rendering of a natural number, as in a template literal.\<close>

fun decimal :: "nat \<Rightarrow> string" where
  "decimal n =
     (if n < 10 then [''0123456789'' ! n]
      else decimal (n div 10) @ [''0123456789'' ! (n mod 10)])"

declare decimal.simps [simp del]

fun join_comma :: "string list \<Rightarrow> string" where
  "join_comma [] = []"
| "join_comma [s] = s"
| "join_comma (s # t # ss) = s @ CHR '','' # join_comma (t # ss)"

text \<open>
  String conversion, as applied by template literals and by \<^verbatim>\<open>new Error(message)\<close>.
  Integers print in decimal (the exponent form JavaScript uses from \<open>10\<^sup>2\<^sup>1\<close> on is not
  modelled).
\<close>

fun toString :: "jsval \<Rightarrow> string" where
  "toString JUndef = ''undefined''"
| "toString JNull = ''null''"
| "toString (JBool b) = (if b then ''true'' else ''false'')"
| "toString (JNum n) = (if n < 0 then CHR ''-'' # decimal (nat (- n)) else decimal (nat n))"
| "toString (JStr s) = s"
| "toString (JArr xs) =
     join_comma (map (\<lambda>x. if x = JNull \<or> x = JUndef then [] else toString x) xs)"
| "toString (JObj kvs) = ''[object Object]''"

section \<open>List-response normalization (ProjectsPage, UsersPage, RolesPage)\<close>

text \<open>
  \<^verbatim>\<open>normalizeList(data)\<close>, defined identically in the three feature views. The two property
  reads come after \<^verbatim>\<open>if (!data) return []\<close>, so the receiver is never null or undefined.
\<close>

definition normalizeList :: "jsval \<Rightarrow> jsval" where
  "normalizeList d =
     (if \<not> truthy d then JArr []
      else if isArray d then d
      else if isArray (getField d ''items'') then getField d ''items''
      else if isArray (getField d ''data'') then getField d ''data''
      else JArr [])"

section \<open>Strings\<close>

text \<open>
  White space and line terminators of JavaScript among the 8-bit code units: TAB, LF, VT,
  FF, CR, SP and NBSP. \<^verbatim>\<open>String.prototype.trim\<close> removes them at both ends and the
  regular-expression class \<^verbatim>\<open>\S\<close> excludes them.
\<close>

definition js_space :: "char \<Rightarrow> bool" where
  "js_space c = (of_char c \<in> {9, 10, 11, 12, 13, 32, 160 :: nat})"

definition trim :: "string \<Rightarrow> string" where
  "trim s = rev (dropWhile js_space (rev (dropWhile js_space s)))"

section \<open>Errors\<close>

text \<open>
  A thrown \<^verbatim>\<open>Error\<close>: its message and the two properties \<^verbatim>\<open>request\<close> attaches
  (\<^verbatim>\<open>status\<close> absent and \<^verbatim>\<open>data\<close> undefined on every other error).
\<close>

record js_error =
  err_message :: string
  err_status :: "nat option"
  err_data :: jsval

definition newError :: "string \<Rightarrow> js_error" where
  "newError msg = \<lparr>err_message = msg, err_status = None, err_data = JUndef\<rparr>"

section \<open>The API client (api/client.js)\<close>

datatype http_method = GET | POST | PUT | PATCH | DELETE

record http_request =
  req_method :: http_method
  req_url :: string
  req_headers :: "(string \<times> string) list"
  req_body :: "string option"

text \<open>
  What \<^verbatim>\<open>await fetch(...)\<close> followed by \<^verbatim>\<open>await res.text()\<close> gives: a rejection (of either
  promise), or a status code with the body text.
\<close>

datatype fetch_outcome = Rejected js_error | Responded nat string

text \<open>The observable actions of the client: calls of the loading hook and fetches.\<close>

datatype event = Loading bool | Fetch http_request

fun requests :: "event list \<Rightarrow> http_request list" where
  "requests [] = []"
| "requests (Loading b # evs) = requests evs"
| "requests (Fetch r # evs) = r # requests evs"

text \<open>
  The surroundings of the program: the build-time constant \<^verbatim>\<open>REACT_APP_API_BASE\<close>, the
  built-ins \<^verbatim>\<open>JSON.parse\<close> (\<open>None\<close> for a SyntaxError) and \<^verbatim>\<open>JSON.stringify\<close>, whether
  \<^verbatim>\<open>localStorage\<close> accepts writes, and the backend, which answers a request knowing the
  requests it has received before.
\<close>

record env =
  API_BASE :: "string option"
  JSON_parse :: "string \<Rightarrow> jsval option"
  JSON_stringify :: "jsval \<Rightarrow> string"
  storage_writable :: bool
  backend :: "http_request list \<Rightarrow> http_request \<Rightarrow> fetch_outcome"

text \<open>\<^verbatim>\<open>joinUrl(base, path)\<close>.\<close>

definition joinUrl :: "string \<Rightarrow> string \<Rightarrow> string" where
  "joinUrl base path =
     (if base = [] then path
      else let b = (if last base = CHR ''/'' then butlast base else base);
               p = (if take 1 path = ''/'' then path else CHR ''/'' # path)
           in b @ p)"

text \<open>\<^verbatim>\<open>safeJsonParse(text)\<close>: null for an empty text, the text itself when parsing throws.\<close>

definition safeJsonParse :: "env \<Rightarrow> string \<Rightarrow> jsval" where
  "safeJsonParse E text =
     (if text = [] then JNull
      else case JSON_parse E text of Some v \<Rightarrow> v | None \<Rightarrow> JStr text)"

text \<open>\<^verbatim>\<open>res.ok\<close>.\<close>

definition res_ok :: "nat \<Rightarrow> bool" where
  "res_ok st = (200 \<le> st \<and> st \<le> 299)"

text \<open>
  The options of \<^verbatim>\<open>createApiClient\<close>: what \<^verbatim>\<open>getToken()\<close> returns (\<open>None\<close> when no
  \<^verbatim>\<open>getToken\<close> was given) and whether an \<^verbatim>\<open>onLoading\<close> hook was given.
\<close>

record client =
  cl_getToken :: "jsval option"
  cl_onLoading :: bool

text \<open>
  The third argument of \<^verbatim>\<open>request\<close>: \<^verbatim>\<open>body\<close> (\<open>JUndef\<close> when absent) and \<^verbatim>\<open>headers\<close>.
  No caller passes \<^verbatim>\<open>signal\<close>.
\<close>

record opts =
  opt_body :: jsval
  opt_headers :: "(string \<times> string) list option"

definition no_opts :: opts where
  "no_opts = \<lparr>opt_body = JUndef, opt_headers = None\<rparr>"

definition with_body :: "jsval \<Rightarrow> opts" where
  "with_body b = \<lparr>opt_body = b, opt_headers = None\<rparr>"

text \<open>Object spread \<^verbatim>\<open>{...a, ...b}\<close> on string-valued objects.\<close>

fun assign :: "string \<Rightarrow> string \<Rightarrow> (string \<times> string) list \<Rightarrow> (string \<times> string) list" where
  "assign k v [] = [(k, v)]"
| "assign k v ((k', v') # kvs) = (if k = k' then (k, v) # kvs else (k', v') # assign k v kvs)"

definition spread :: "(string \<times> string) list \<Rightarrow> (string \<times> string) list \<Rightarrow> (string \<times> string) list" where
  "spread a b = fold (\<lambda>(k, v). assign k v) b a"

text \<open>\<^verbatim>\<open>onLoading?.(isLoading)\<close>.\<close>

definition onLoading :: "client \<Rightarrow> bool \<Rightarrow> event list" where
  "onLoading cl isLoading = (if cl_onLoading cl then [Loading isLoading] else [])"

text \<open>
  The message of the error thrown for a response that is not ok:
  \<^verbatim>\<open>(data && (data.detail || data.message || data.error)) || (typeof data === "string" ? data : null) || `Request failed (${res.status})`\<close>,
  converted to a string by \<^verbatim>\<open>new Error\<close>.
\<close>

definition errorMessage :: "jsval \<Rightarrow> nat \<Rightarrow> string" where
  "errorMessage d st =
     toString
       (js_or
          (js_or
             (js_and d (js_or (js_or (getField d ''detail'') (getField d ''message''))
                              (getField d ''error'')))
             (if isString d then d else JNull))
          (JStr (''Request failed ('' @ decimal st @ '')'')))"

text \<open>
  \<^verbatim>\<open>request(method, path, {body, headers})\<close>, started after the events \<open>log\<close>: the
  result (\<open>Inl\<close> for a rejection) and the extended log. The \<^verbatim>\<open>finally\<close> block runs on
  every way out of the \<^verbatim>\<open>try\<close>.
\<close>

definition request ::
  "env \<Rightarrow> client \<Rightarrow> http_method \<Rightarrow> string \<Rightarrow> opts \<Rightarrow> event list \<Rightarrow> (js_error + jsval) \<times> event list" where
  "request E cl m path os log =
     (let url = joinUrl (case API_BASE E of Some b \<Rightarrow> b | None \<Rightarrow> []) path;
          token = (case cl_getToken cl of Some t \<Rightarrow> t | None \<Rightarrow> JNull);
          body = opt_body os;
          mergedHeaders =
            spread
              (spread (if truthy body then [(''Content-Type'', ''application/json'')] else [])
                      (if truthy token then [(''Authorization'', ''Bearer '' @ toString token)] else []))
              (case opt_headers os of Some h \<Rightarrow> h | None \<Rightarrow> []);
          log1 = log @ onLoading cl True;
          req = \<lparr>req_method = m, req_url = url, req_headers = mergedHeaders,
                 req_body = (if truthy body then Some (JSON_stringify E body) else None)\<rparr>;
          result =
            (case backend E (requests log1) req of
               Rejected e \<Rightarrow> Inl e
             | Responded st text \<Rightarrow>
                 (let d = safeJsonParse E text
                  in if \<not> res_ok st
                     then Inl \<lparr>err_message = errorMessage d st, err_status = Some st, err_data = d\<rparr>
                     else Inr d))
      in (result, log1 @ [Fetch req] @ onLoading cl False))"

section \<open>Notifications and the loading indicator (context/UIContext.js)\<close>

record toast =
  toast_id :: nat
  toast_type :: string
  toast_title :: string
  toast_description :: string
  toast_timeoutMs :: nat

text \<open>The argument of \<^verbatim>\<open>pushToast\<close>; \<open>None\<close> is an absent property.\<close>

record toast_args =
  arg_type :: "string option"
  arg_title :: "string option"
  arg_description :: "string option"
  arg_timeoutMs :: "nat option"

definition notice :: "string \<Rightarrow> string \<Rightarrow> toast_args" where
  "notice ty title =
     \<lparr>arg_type = Some ty, arg_title = Some title, arg_description = None, arg_timeoutMs = None\<rparr>"

definition notice_with :: "string \<Rightarrow> string \<Rightarrow> string \<Rightarrow> toast_args" where
  "notice_with ty title descr =
     \<lparr>arg_type = Some ty, arg_title = Some title, arg_description = Some descr,
      arg_timeoutMs = None\<rparr>"

text \<open>\<^verbatim>\<open>s || d\<close> on an optional string: absent and empty are falsy.\<close>

definition str_or :: "string option \<Rightarrow> string \<Rightarrow> string" where
  "str_or s d = (case s of None \<Rightarrow> d | Some x \<Rightarrow> if x = [] then d else x)"

text \<open>
  The state every view shares: the toasts with the module-level counter \<^verbatim>\<open>toastId\<close>, and
  the log of client events. The views extend it with their own state.
\<close>

record app =
  toasts :: "toast list"
  toastId :: nat
  log :: "event list"

text \<open>
  \<^verbatim>\<open>pushToast(t)\<close>. The timer that removes the toast after \<^verbatim>\<open>timeoutMs\<close> runs later and
  is not part of the call.
\<close>

definition pushToast :: "toast_args \<Rightarrow> 'a app_scheme \<Rightarrow> 'a app_scheme" where
  "pushToast t s =
     (let i = toastId s + 1;
          new = \<lparr>toast_id = i,
                 toast_type = str_or (arg_type t) ''info'',
                 toast_title = str_or (arg_title t)
                                 (if arg_type t = Some ''error'' then ''Error'' else ''Notice''),
                 toast_description = str_or (arg_description t) [],
                 toast_timeoutMs = (case arg_timeoutMs t of None \<Rightarrow> 4500 | Some ms \<Rightarrow> ms)\<rparr>
      in s\<lparr>toastId := i, toasts := new # toasts s\<rparr>)"

text \<open>A call of the client on behalf of a view: the events go to the view's log.\<close>

definition api ::
  "env \<Rightarrow> client \<Rightarrow> http_method \<Rightarrow> string \<Rightarrow> opts \<Rightarrow> 'a app_scheme \<Rightarrow> (js_error + jsval) \<times> 'a app_scheme" where
  "api E cl m path os s = (case request E cl m path os (log s) of (r, l) \<Rightarrow> (r, s\<lparr>log := l\<rparr>))"








section \<open>The projects view (ProjectsPage)\<close>

datatype page_mode = ModeNone | ModeCreate | ModeEdit

record project_form =
  form_name :: string
  form_description :: string
  form_status :: string

definition form_json :: "project_form \<Rightarrow> jsval" where
  "form_json f =
     JObj [(''name'', JStr (form_name f)), (''description'', JStr (form_description f)),
           (''status'', JStr (form_status f))]"

text \<open>\<^verbatim>\<open>validateProject({name})\<close>: the object of field errors, as a list of its properties.\<close>

definition validateProject :: "project_form \<Rightarrow> (string \<times> string) list" where
  "validateProject f =
     (if form_name f = [] \<or> length (trim (form_name f)) < 2
      then [(''name'', ''Name must be at least 2 characters.'')] else [])"

text \<open>
  The state of the view. Its lists hold the elements as the table renders them; the
  render reads \<^verbatim>\<open>p.id\<close> of every element, so an action reached from a rendered row finds no
  null or undefined element.
\<close>

record projects_page = app +
  projects :: "jsval list"
  selected :: jsval
  mode :: page_mode
  form :: project_form
  errors :: "(string \<times> string) list"

fun elems :: "jsval \<Rightarrow> jsval list" where
  "elems (JArr xs) = xs"
| "elems v = []"

text \<open>
  \<^verbatim>\<open>a === b\<close> on identifiers. Numbers, strings, booleans, null and undefined compare by
  value; arrays and objects compare by identity in JavaScript, which appears here as
  equality of values.
\<close>

definition strict_eq :: "jsval \<Rightarrow> jsval \<Rightarrow> bool" where
  "strict_eq a b = (a = b)"

text \<open>\<^verbatim>\<open>v != null\<close>.\<close>

definition not_nullish :: "jsval \<Rightarrow> bool" where
  "not_nullish v = (v \<noteq> JNull \<and> v \<noteq> JUndef)"

text \<open>
  The loop of \<^verbatim>\<open>load()\<close> over its candidates, with \<^verbatim>\<open>lastErr\<close>; \<open>Inl\<close> is the error
  thrown after the loop.
\<close>

fun load_loop ::
  "env \<Rightarrow> client \<Rightarrow> string list \<Rightarrow> js_error option \<Rightarrow> projects_page \<Rightarrow> (js_error + unit) \<times> projects_page" where
  "load_loop E cl [] lastErr s =
     (Inl (case lastErr of Some e \<Rightarrow> e | None \<Rightarrow> newError ''Unable to load projects.''), s)"
| "load_loop E cl (path # rest) lastErr s =
     (case api E cl GET path no_opts s of
        (Inr d, s') \<Rightarrow> (Inr (), s'\<lparr>projects := elems (normalizeList d)\<rparr>)
      | (Inl e, s') \<Rightarrow> load_loop E cl rest (Some e) s')"

definition load :: "env \<Rightarrow> client \<Rightarrow> projects_page \<Rightarrow> (js_error + unit) \<times> projects_page" where
  "load E cl s = load_loop E cl [''/projects'', ''/api/projects''] None s"

text \<open>The effect on mount: \<^verbatim>\<open>load().catch(e => pushToast(...))\<close>.\<close>

definition load_on_mount :: "env \<Rightarrow> client \<Rightarrow> projects_page \<Rightarrow> projects_page" where
  "load_on_mount E cl s =
     (case load E cl s of
        (Inr u, s') \<Rightarrow> s'
      | (Inl e, s') \<Rightarrow> pushToast (notice_with ''error'' ''Failed to load projects'' (err_message e)) s')"

text \<open>\<^verbatim>\<open>save()\<close>.\<close>

definition save :: "env \<Rightarrow> client \<Rightarrow> projects_page \<Rightarrow> projects_page" where
  "save E cl s =
     (let v = validateProject (form s);
          s1 = s\<lparr>errors := v\<rparr>
      in if v \<noteq> [] then s1
         else if mode s = ModeCreate then
           (case api E cl POST ''/projects'' (with_body (form_json (form s))) s1 of
              (Inr created, s2) \<Rightarrow>
                (pushToast (notice ''success'' ''Project created'') s2)
                  \<lparr>projects := filter truthy (created # projects s2), mode := ModeNone\<rparr>
            | (Inl e, s2) \<Rightarrow> pushToast (notice_with ''error'' ''Save failed'' (err_message e)) s2)
         else if mode s = ModeEdit \<and> not_nullish (getField (selected s) ''id'') then
           (case api E cl PUT (''/projects/'' @ toString (getField (selected s) ''id''))
                   (with_body (form_json (form s))) s1 of
              (Inr updated, s2) \<Rightarrow>
                (pushToast (notice ''success'' ''Project updated'') s2)
                  \<lparr>projects :=
                     map (\<lambda>p. if strict_eq (getField p ''id'') (getField (selected s) ''id'')
                              then updated else p) (projects s2),
                   selected := updated, mode := ModeNone\<rparr>
            | (Inl e, s2) \<Rightarrow> pushToast (notice_with ''error'' ''Save failed'' (err_message e)) s2)
         else s1)"

text \<open>\<^verbatim>\<open>{ ...x, status: "archived" }\<close> on an element of the list.\<close>

fun set_prop :: "string \<Rightarrow> jsval \<Rightarrow> (string \<times> jsval) list \<Rightarrow> (string \<times> jsval) list" where
  "set_prop k v [] = [(k, v)]"
| "set_prop k v ((k', v') # kvs) =
     (if k = k' then (k, v) # kvs else (k', v') # set_prop k v kvs)"

fun with_status_archived :: "jsval \<Rightarrow> jsval" where
  "with_status_archived (JObj kvs) = JObj (set_prop ''status'' (JStr ''archived'') kvs)"
| "with_status_archived (JArr xs) =
     JObj (zip (map decimal [0 ..< length xs]) xs @ [(''status'', JStr ''archived'')])"
| "with_status_archived (JStr cs) =
     JObj (zip (map decimal [0 ..< length cs]) (map (\<lambda>c. JStr [c]) cs)
           @ [(''status'', JStr ''archived'')])"
| "with_status_archived v = JObj [(''status'', JStr ''archived'')]"

text \<open>\<^verbatim>\<open>archiveOrDelete(p)\<close>.\<close>

definition archiveOrDelete :: "env \<Rightarrow> client \<Rightarrow> jsval \<Rightarrow> projects_page \<Rightarrow> projects_page" where
  "archiveOrDelete E cl p s =
     (case api E cl PATCH (''/projects/'' @ toString (getField p ''id''))
             (with_body (JObj [(''status'', JStr ''archived'')])) s of
        (Inr d, s1) \<Rightarrow>
          (pushToast (notice ''success'' ''Project archived'') s1)
            \<lparr>projects :=
               map (\<lambda>x. if strict_eq (getField x ''id'') (getField p ''id'')
                        then with_status_archived x else x) (projects s1)\<rparr>
      | (Inl e1, s1) \<Rightarrow>
          (case api E cl DELETE (''/projects/'' @ toString (getField p ''id'')) no_opts s1 of
             (Inr d, s2) \<Rightarrow>
               (let s3 = (pushToast (notice ''success'' ''Project deleted'') s2)
                           \<lparr>projects :=
                              filter (\<lambda>x. \<not> strict_eq (getField x ''id'') (getField p ''id''))
                                (projects s2)\<rparr>
                in if strict_eq (getField (selected s) ''id'') (getField p ''id'')
                   then s3\<lparr>selected := JNull\<rparr> else s3)
           | (Inl e, s2) \<Rightarrow>
               pushToast (notice_with ''error'' ''Action failed'' (err_message e)) s2))"

section \<open>The users view (UsersPage)\<close>

text \<open>
  Regular expressions, as far as \<^verbatim>\<open>/\S+@\S+\.\S+/\<close> needs them, matched by derivatives.
\<close>

datatype rx = Void | Eps | Sym "char \<Rightarrow> bool" | Cat rx rx | Alt rx rx | Star rx

fun nullable :: "rx \<Rightarrow> bool" where
  "nullable Void = False"
| "nullable Eps = True"
| "nullable (Sym P) = False"
| "nullable (Cat r q) = (nullable r \<and> nullable q)"
| "nullable (Alt r q) = (nullable r \<or> nullable q)"
| "nullable (Star r) = True"

fun deriv :: "char \<Rightarrow> rx \<Rightarrow> rx" where
  "deriv c Void = Void"
| "deriv c Eps = Void"
| "deriv c (Sym P) = (if P c then Eps else Void)"
| "deriv c (Cat r q) =
     (if nullable r then Alt (Cat (deriv c r) q) (deriv c q) else Cat (deriv c r) q)"
| "deriv c (Alt r q) = Alt (deriv c r) (deriv c q)"
| "deriv c (Star r) = Cat (deriv c r) (Star r)"

fun matches :: "rx \<Rightarrow> string \<Rightarrow> bool" where
  "matches r [] = nullable r"
| "matches r (c # cs) = matches (deriv c r) cs"

definition Plus :: "rx \<Rightarrow> rx" where
  "Plus r = Cat r (Star r)"

text \<open>\<^verbatim>\<open>re.test(s)\<close> without anchors: some substring matches.\<close>

definition regex_test :: "rx \<Rightarrow> string \<Rightarrow> bool" where
  "regex_test r s = matches (Cat (Star (Sym (\<lambda>c. True))) (Cat r (Star (Sym (\<lambda>c. True))))) s"

definition non_space :: rx where
  "non_space = Sym (\<lambda>c. \<not> js_space c)"

definition email_regex :: rx where
  "email_regex =
     Cat (Plus non_space) (Cat (Sym (\<lambda>c. c = CHR ''@''))
       (Cat (Plus non_space) (Cat (Sym (\<lambda>c. c = CHR ''.'')) (Plus non_space))))"

record invite_form =
  inv_email :: string
  inv_name :: string
  inv_roleId :: string

definition invite_json :: "invite_form \<Rightarrow> jsval" where
  "invite_json f =
     JObj [(''email'', JStr (inv_email f)), (''name'', JStr (inv_name f)),
           (''roleId'', JStr (inv_roleId f))]"

text \<open>\<^verbatim>\<open>validateUser({email})\<close>.\<close>

definition validateUser :: "invite_form \<Rightarrow> (string \<times> string) list" where
  "validateUser f =
     (if inv_email f = [] \<or> \<not> regex_test email_regex (inv_email f)
      then [(''email'', ''Valid email required.'')] else [])"

record users_page = app +
  users :: "jsval list"
  roles :: "jsval list"
  inviteOpen :: bool
  inviteForm :: invite_form
  user_errors :: "(string \<times> string) list"

text \<open>
  The candidate loop shared by \<^verbatim>\<open>submitInvite\<close> and \<^verbatim>\<open>updateUserRole\<close>: the variable
  assigned in the \<^verbatim>\<open>try\<close> (\<^verbatim>\<open>created\<close>, \<^verbatim>\<open>updated\<close>) and \<^verbatim>\<open>lastErr\<close>, with \<^verbatim>\<open>break\<close> after
  the first call that does not throw.
\<close>

fun write_loop ::
  "env \<Rightarrow> client \<Rightarrow> (http_method \<times> string \<times> jsval) list \<Rightarrow> jsval \<Rightarrow> js_error option \<Rightarrow>
   users_page \<Rightarrow> (jsval \<times> js_error option) \<times> users_page" where
  "write_loop E cl [] result lastErr s = ((result, lastErr), s)"
| "write_loop E cl ((m, path, body) # rest) result lastErr s =
     (case api E cl m path (with_body body) s of
        (Inr d, s') \<Rightarrow> ((d, lastErr), s')
      | (Inl e, s') \<Rightarrow> write_loop E cl rest result (Some e) s')"

definition invite_candidates :: "invite_form \<Rightarrow> (http_method \<times> string \<times> jsval) list" where
  "invite_candidates f =
     [(POST, ''/users/invite'', invite_json f), (POST, ''/invite'', invite_json f),
      (POST, ''/users'', invite_json f)]"

text \<open>
  What follows the loop of \<^verbatim>\<open>submitInvite\<close>, inside its outer \<^verbatim>\<open>try\<close>:
  \<^verbatim>\<open>if (!created) throw lastErr || new Error("Invite failed.")\<close>, caught by the outer
  \<^verbatim>\<open>catch\<close>, or the success notification and the new list.
\<close>

definition invite_finish :: "jsval \<times> js_error option \<Rightarrow> users_page \<Rightarrow> users_page" where
  "invite_finish r s =
     (case r of (created, lastErr) \<Rightarrow>
        if \<not> truthy created then
          pushToast (notice_with ''error'' ''Invite failed''
            (err_message (case lastErr of Some e \<Rightarrow> e | None \<Rightarrow> newError ''Invite failed.''))) s
        else (pushToast (notice ''success'' ''User invited/created'') s)
               \<lparr>users := filter truthy (created # users s), inviteOpen := False\<rparr>)"

definition submitInvite_from ::
  "env \<Rightarrow> client \<Rightarrow> (http_method \<times> string \<times> jsval) list \<Rightarrow> users_page \<Rightarrow> users_page" where
  "submitInvite_from E cl candidates s =
     (let v = validateUser (inviteForm s);
          s1 = s\<lparr>user_errors := v\<rparr>
      in if v \<noteq> [] then s1
         else case write_loop E cl candidates JNull None s1 of (r, s2) \<Rightarrow> invite_finish r s2)"

text \<open>\<^verbatim>\<open>submitInvite()\<close>.\<close>

definition submitInvite :: "env \<Rightarrow> client \<Rightarrow> users_page \<Rightarrow> users_page" where
  "submitInvite E cl s = submitInvite_from E cl (invite_candidates (inviteForm s)) s"

definition role_candidates :: "jsval \<Rightarrow> string \<Rightarrow> (http_method \<times> string \<times> jsval) list" where
  "role_candidates userId roleId =
     [(PUT, ''/users/'' @ toString userId @ ''/role'', JObj [(''roleId'', JStr roleId)]),
      (PATCH, ''/users/'' @ toString userId, JObj [(''roleId'', JStr roleId)]),
      (POST, ''/users/'' @ toString userId @ ''/roles'', JObj [(''roleId'', JStr roleId)])]"

definition role_finish :: "jsval \<Rightarrow> jsval \<times> js_error option \<Rightarrow> users_page \<Rightarrow> users_page" where
  "role_finish userId r s =
     (case r of (updated, lastErr) \<Rightarrow>
        if \<not> truthy updated then
          pushToast (notice_with ''error'' ''Update failed''
            (err_message (case lastErr of Some e \<Rightarrow> e | None \<Rightarrow> newError ''Role update failed.''))) s
        else (pushToast (notice ''success'' ''Role updated'') s)
               \<lparr>users := map (\<lambda>u. if strict_eq (getField u ''id'') userId then updated else u)
                                (users s)\<rparr>)"

definition updateUserRole_from ::
  "env \<Rightarrow> client \<Rightarrow> (http_method \<times> string \<times> jsval) list \<Rightarrow> jsval \<Rightarrow> users_page \<Rightarrow> users_page" where
  "updateUserRole_from E cl candidates userId s =
     (case write_loop E cl candidates JNull None s of (r, s1) \<Rightarrow> role_finish userId r s1)"

text \<open>\<^verbatim>\<open>updateUserRole(userId, roleId)\<close>.\<close>

definition updateUserRole :: "env \<Rightarrow> client \<Rightarrow> jsval \<Rightarrow> string \<Rightarrow> users_page \<Rightarrow> users_page" where
  "updateUserRole E cl userId roleId s =
     updateUserRole_from E cl (role_candidates userId roleId) userId s"

section \<open>The session (context/AuthContext.js, auth/tokenStorage.js)\<close>

text \<open>\<^verbatim>\<open>normalizeAuthResponse(data)\<close>.\<close>

definition normalizeAuthResponse :: "jsval \<Rightarrow> jsval" where
  "normalizeAuthResponse d =
     (if truthy d \<and> isObjectType d then
        (if truthy (getField d ''access_token'') then getField d ''access_token''
         else if truthy (getField d ''token'') then getField d ''token''
         else if truthy (getField d ''jwt'') then getField d ''jwt''
         else JNull)
      else JNull)"

text \<open>
  The loop of \<^verbatim>\<open>bestEffortGetMe(api)\<close>: the first truthy answer, null when the candidates
  are used up. Errors are ignored.
\<close>

fun getMe_loop :: "env \<Rightarrow> client \<Rightarrow> string list \<Rightarrow> event list \<Rightarrow> jsval \<times> event list" where
  "getMe_loop E cl [] l = (JNull, l)"
| "getMe_loop E cl (path # rest) l =
     (case request E cl GET path no_opts l of
        (Inr me, l') \<Rightarrow> if truthy me then (me, l') else getMe_loop E cl rest l'
      | (Inl e, l') \<Rightarrow> getMe_loop E cl rest l')"

definition bestEffortGetMe :: "env \<Rightarrow> client \<Rightarrow> event list \<Rightarrow> jsval \<times> event list" where
  "bestEffortGetMe E cl l = getMe_loop E cl [''/auth/me'', ''/me'', ''/users/me'', ''/api/me''] l"

text \<open>
  The state of \<^verbatim>\<open>AuthProvider\<close> with the entry \<^verbatim>\<open>epm.jwt\<close> of \<^verbatim>\<open>localStorage\<close> and the log
  of client events.
\<close>

record session =
  token :: jsval
  user :: jsval
  initializing :: bool
  stored :: "string option"
  auth_log :: "event list"

definition isAuthenticated :: "session \<Rightarrow> bool" where
  "isAuthenticated s = truthy (token s)"

text \<open>\<^verbatim>\<open>setToken(token)\<close> of the token storage: a failing write is ignored.\<close>

definition setToken :: "env \<Rightarrow> jsval \<Rightarrow> session \<Rightarrow> session" where
  "setToken E t s = (if storage_writable E then s\<lparr>stored := Some (toString t)\<rparr> else s)"

definition login_candidates :: "string \<Rightarrow> string \<Rightarrow> (string \<times> jsval) list" where
  "login_candidates email password =
     [(''/auth/login'', JObj [(''email'', JStr email), (''password'', JStr password)]),
      (''/login'', JObj [(''email'', JStr email), (''password'', JStr password)]),
      (''/token'', JObj [(''username'', JStr email), (''password'', JStr password)])]"

text \<open>
  The loop of \<^verbatim>\<open>login\<close>; \<open>Inr (jwt, me)\<close> is the returned \<^verbatim>\<open>{ token: jwt, user: me }\<close> and
  \<open>Inl\<close> the error thrown after the loop. The profile is fetched with a fresh client that
  carries the new token and has no loading hook.
\<close>

fun login_loop ::
  "env \<Rightarrow> client \<Rightarrow> (string \<times> jsval) list \<Rightarrow> js_error option \<Rightarrow> session \<Rightarrow>
   (js_error + jsval \<times> jsval) \<times> session" where
  "login_loop E cl [] lastErr s =
     (Inl (case lastErr of Some e \<Rightarrow> e | None \<Rightarrow> newError ''Login failed.''), s)"
| "login_loop E cl ((path, body) # rest) lastErr s =
     (case request E cl POST path (with_body body) (auth_log s) of
        (Inl e, l1) \<Rightarrow> login_loop E cl rest (Some e) (s\<lparr>auth_log := l1\<rparr>)
      | (Inr d, l1) \<Rightarrow>
          (let jwt = normalizeAuthResponse d
           in if \<not> truthy jwt
              then login_loop E cl rest
                     (Some (newError ''Login response did not include a token.''))
                     (s\<lparr>auth_log := l1\<rparr>)
              else (case bestEffortGetMe E \<lparr>cl_getToken = Some jwt, cl_onLoading = False\<rparr> l1 of
                      (me, l2) \<Rightarrow>
                        (Inr (jwt, me),
                         (setToken E jwt (s\<lparr>auth_log := l1\<rparr>))
                           \<lparr>token := jwt, user := me, auth_log := l2\<rparr>))))"

text \<open>\<^verbatim>\<open>login({email, password})\<close>.\<close>

definition login ::
  "env \<Rightarrow> client \<Rightarrow> string \<Rightarrow> string \<Rightarrow> session \<Rightarrow> (js_error + jsval \<times> jsval) \<times> session" where
  "login E cl email password s = login_loop E cl (login_candidates email password) None s"

section \<open>The remaining candidate loops\<close>

subsection \<open>Reading a list (UsersPage, RolesPage)\<close>

text \<open>
  The loop that \<^verbatim>\<open>loadUsers\<close> and \<^verbatim>\<open>loadRoles\<close> of both views run over their paths: the
  answer of the first call that does not throw, or \<^verbatim>\<open>lastErr\<close> when the paths are used up.
  The setter of the view follows the call inside the \<^verbatim>\<open>try\<close> and cannot throw.
\<close>

fun read_loop ::
  "env \<Rightarrow> client \<Rightarrow> string list \<Rightarrow> js_error option \<Rightarrow> 'a app_scheme \<Rightarrow>
   (js_error option + jsval) \<times> 'a app_scheme" where
  "read_loop E cl [] lastErr s = (Inl lastErr, s)"
| "read_loop E cl (path # rest) lastErr s =
     (case api E cl GET path no_opts s of
        (Inr d, s') \<Rightarrow> (Inr d, s')
      | (Inl e, s') \<Rightarrow> read_loop E cl rest (Some e) s')"

text \<open>\<^verbatim>\<open>loadUsers()\<close> of the users view: \<^verbatim>\<open>throw lastErr || new Error("Unable to load users.")\<close>.\<close>

definition users_loadUsers_from ::
  "env \<Rightarrow> client \<Rightarrow> string list \<Rightarrow> users_page \<Rightarrow> (js_error + unit) \<times> users_page" where
  "users_loadUsers_from E cl candidates s =
     (case read_loop E cl candidates None s of
        (Inr d, s') \<Rightarrow> (Inr (), s'\<lparr>users := elems (normalizeList d)\<rparr>)
      | (Inl lastErr, s') \<Rightarrow>
          (Inl (case lastErr of Some e \<Rightarrow> e | None \<Rightarrow> newError ''Unable to load users.''), s'))"

definition users_loadUsers :: "env \<Rightarrow> client \<Rightarrow> users_page \<Rightarrow> (js_error + unit) \<times> users_page" where
  "users_loadUsers E cl s = users_loadUsers_from E cl [''/users'', ''/api/users''] s"

text \<open>
  \<^verbatim>\<open>loadRoles()\<close> of the users view: its \<^verbatim>\<open>catch\<close> is empty and nothing is thrown after the
  loop.
\<close>

definition users_loadRoles_from :: "env \<Rightarrow> client \<Rightarrow> string list \<Rightarrow> users_page \<Rightarrow> users_page" where
  "users_loadRoles_from E cl candidates s =
     (case read_loop E cl candidates None s of
        (Inr d, s') \<Rightarrow> s'\<lparr>roles := elems (normalizeList d)\<rparr>
      | (Inl lastErr, s') \<Rightarrow> s')"

definition users_loadRoles :: "env \<Rightarrow> client \<Rightarrow> users_page \<Rightarrow> users_page" where
  "users_loadRoles E cl s = users_loadRoles_from E cl [''/roles'', ''/api/roles''] s"

subsection \<open>The roles view (RolesPage)\<close>

text \<open>
  The state of the view. \<^verbatim>\<open>rolePerms\<close> is an object from permission keys to booleans, kept
  as the list of its properties in the order \<^verbatim>\<open>Object.entries\<close> gives them. The render
  reads \<^verbatim>\<open>r.id\<close> of every role, so a role that can be selected is not null or undefined.
\<close>

record roles_page = app +
  rp_roles :: "jsval list"
  rp_users :: "jsval list"
  selectedRole :: jsval
  rolePerms :: "(string \<times> bool) list"
  assignUserId :: string

text \<open>\<^verbatim>\<open>loadRoles()\<close> of the roles view.\<close>

definition roles_loadRoles_from ::
  "env \<Rightarrow> client \<Rightarrow> string list \<Rightarrow> roles_page \<Rightarrow> (js_error + unit) \<times> roles_page" where
  "roles_loadRoles_from E cl candidates s =
     (case read_loop E cl candidates None s of
        (Inr d, s') \<Rightarrow> (Inr (), s'\<lparr>rp_roles := elems (normalizeList d)\<rparr>)
      | (Inl lastErr, s') \<Rightarrow>
          (Inl (case lastErr of Some e \<Rightarrow> e | None \<Rightarrow> newError ''Unable to load roles.''), s'))"

definition roles_loadRoles :: "env \<Rightarrow> client \<Rightarrow> roles_page \<Rightarrow> (js_error + unit) \<times> roles_page" where
  "roles_loadRoles E cl s = roles_loadRoles_from E cl [''/roles'', ''/api/roles''] s"

text \<open>\<^verbatim>\<open>loadUsers()\<close> of the roles view, with an empty \<^verbatim>\<open>catch\<close>.\<close>

definition roles_loadUsers_from :: "env \<Rightarrow> client \<Rightarrow> string list \<Rightarrow> roles_page \<Rightarrow> roles_page" where
  "roles_loadUsers_from E cl candidates s =
     (case read_loop E cl candidates None s of
        (Inr d, s') \<Rightarrow> s'\<lparr>rp_users := elems (normalizeList d)\<rparr>
      | (Inl lastErr, s') \<Rightarrow> s')"

definition roles_loadUsers :: "env \<Rightarrow> client \<Rightarrow> roles_page \<Rightarrow> roles_page" where
  "roles_loadUsers E cl s = roles_loadUsers_from E cl [''/users'', ''/api/users''] s"

text \<open>
  Property keys that are array indices (canonical decimal numbers below \<open>2\<^sup>3\<^sup>2 - 1\<close>) come
  first in an object, in ascending order; the other keys follow in the order of their
  creation.
\<close>

definition parse_nat :: "string \<Rightarrow> nat" where
  "parse_nat k = foldl (\<lambda>n c. 10 * n + (of_char c - 48)) 0 k"

definition array_index :: "string \<Rightarrow> nat option" where
  "array_index k =
     (if decimal (parse_nat k) = k \<and> parse_nat k < 4294967295 then Some (parse_nat k) else None)"

fun insert_key :: "string \<Rightarrow> bool \<Rightarrow> (string \<times> bool) list \<Rightarrow> (string \<times> bool) list" where
  "insert_key k v [] = [(k, v)]"
| "insert_key k v ((k', v') # kvs) =
     (case array_index k of
        None \<Rightarrow> (k', v') # insert_key k v kvs
      | Some n \<Rightarrow>
          (case array_index k' of
             None \<Rightarrow> (k, v) # (k', v') # kvs
           | Some n' \<Rightarrow> if n < n' then (k, v) # (k', v') # kvs else (k', v') # insert_key k v kvs))"

text \<open>\<^verbatim>\<open>obj[k] = v\<close>.\<close>

definition put_key :: "string \<Rightarrow> bool \<Rightarrow> (string \<times> bool) list \<Rightarrow> (string \<times> bool) list" where
  "put_key k v kvs =
     (if k \<in> set (map fst kvs) then map (\<lambda>(k', v'). if k' = k then (k', v) else (k', v')) kvs
      else insert_key k v kvs)"

text \<open>
  The key \<^verbatim>\<open>typeof p === "string" ? p : p.key || p.name\<close> of a permission; \<open>None\<close> is the
  TypeError of reading a property of null or undefined.
\<close>

fun perm_key :: "jsval \<Rightarrow> string option" where
  "perm_key (JStr k) = Some k"
| "perm_key JNull = None"
| "perm_key JUndef = None"
| "perm_key p = Some (toString (js_or (getField p ''key'') (getField p ''name'')))"

text \<open>\<^verbatim>\<open>for (const p of list) next[...] = true\<close>, starting from \<open>acc\<close>.\<close>

fun collect_perms :: "jsval list \<Rightarrow> (string \<times> bool) list \<Rightarrow> (string \<times> bool) list option" where
  "collect_perms [] acc = Some acc"
| "collect_perms (p # ps) acc =
     (case perm_key p of None \<Rightarrow> None | Some k \<Rightarrow> collect_perms ps (put_key k True acc))"

text \<open>
  What \<^verbatim>\<open>selectRole\<close> makes of an answer, inside its \<^verbatim>\<open>try\<close>:
  \<^verbatim>\<open>data?.permissions || data?.perms || data\<close>, normalized to a list and turned into the object
  \<^verbatim>\<open>next\<close>.
\<close>

definition role_perms :: "jsval \<Rightarrow> (string \<times> bool) list option" where
  "role_perms d =
     collect_perms
       (elems (normalizeList (js_or (js_or (getField d ''permissions'') (getField d ''perms'')) d)))
       []"

text \<open>
  The loop of \<^verbatim>\<open>selectRole\<close>: an answer whose permissions cannot be read throws inside the
  \<^verbatim>\<open>try\<close>, and the empty \<^verbatim>\<open>catch\<close> goes on to the next path.
\<close>

fun perms_loop :: "env \<Rightarrow> client \<Rightarrow> string list \<Rightarrow> roles_page \<Rightarrow> roles_page" where
  "perms_loop E cl [] s = s"
| "perms_loop E cl (path # rest) s =
     (case api E cl GET path no_opts s of
        (Inr d, s') \<Rightarrow>
          (case role_perms d of
             Some next \<Rightarrow> s'\<lparr>rolePerms := next\<rparr>
           | None \<Rightarrow> perms_loop E cl rest s')
      | (Inl e, s') \<Rightarrow> perms_loop E cl rest s')"

definition selectRole_from :: "env \<Rightarrow> client \<Rightarrow> string list \<Rightarrow> jsval \<Rightarrow> roles_page \<Rightarrow> roles_page" where
  "selectRole_from E cl candidates role s =
     perms_loop E cl candidates (s\<lparr>selectedRole := role, rolePerms := []\<rparr>)"

definition perms_candidates :: "jsval \<Rightarrow> string list" where
  "perms_candidates role =
     [''/roles/'' @ toString (getField role ''id'') @ ''/permissions'',
      ''/roles/'' @ toString (getField role ''id''),
      ''/api/roles/'' @ toString (getField role ''id'') @ ''/permissions'']"

text \<open>\<^verbatim>\<open>selectRole(role)\<close>.\<close>

definition selectRole :: "env \<Rightarrow> client \<Rightarrow> jsval \<Rightarrow> roles_page \<Rightarrow> roles_page" where
  "selectRole E cl role s = selectRole_from E cl (perms_candidates role) role s"

text \<open>
  The candidate loop shared by \<^verbatim>\<open>savePermissions\<close> and \<^verbatim>\<open>assignRoleToUser\<close>: the flag \<^verbatim>\<open>ok\<close>
  and \<^verbatim>\<open>lastErr\<close>, with \<^verbatim>\<open>break\<close> after the first call that does not throw.
\<close>

fun ok_loop ::
  "env \<Rightarrow> client \<Rightarrow> (http_method \<times> string \<times> jsval) list \<Rightarrow> bool \<Rightarrow> js_error option \<Rightarrow>
   roles_page \<Rightarrow> (bool \<times> js_error option) \<times> roles_page" where
  "ok_loop E cl [] ok lastErr s = ((ok, lastErr), s)"
| "ok_loop E cl ((m, path, body) # rest) ok lastErr s =
     (case api E cl m path (with_body body) s of
        (Inr d, s') \<Rightarrow> ((True, lastErr), s')
      | (Inl e, s') \<Rightarrow> ok_loop E cl rest ok (Some e) s')"

text \<open>
  What follows the loop: \<^verbatim>\<open>if (!ok) throw lastErr || new Error(generic)\<close>, caught by the
  outer \<^verbatim>\<open>catch\<close> that notifies the error under \<open>failed\<close>, or the notification \<open>done\<close>.
\<close>

definition ok_finish ::
  "string \<Rightarrow> string \<Rightarrow> string \<Rightarrow> bool \<times> js_error option \<Rightarrow> roles_page \<Rightarrow> roles_page" where
  "ok_finish done failed generic r s =
     (case r of (ok, lastErr) \<Rightarrow>
        if \<not> ok then
          pushToast (notice_with ''error'' failed
            (err_message (case lastErr of Some e \<Rightarrow> e | None \<Rightarrow> newError generic))) s
        else pushToast (notice ''success'' done) s)"

text \<open>The keys of \<^verbatim>\<open>rolePerms\<close> whose value is true.\<close>

definition granted_keys :: "(string \<times> bool) list \<Rightarrow> string list" where
  "granted_keys perms = map fst (filter snd perms)"

definition savePermissions_from ::
  "env \<Rightarrow> client \<Rightarrow> (http_method \<times> string \<times> jsval) list \<Rightarrow> roles_page \<Rightarrow> roles_page" where
  "savePermissions_from E cl candidates s =
     (if \<not> truthy (getField (selectedRole s) ''id'') then s
      else case ok_loop E cl candidates False None s of
             (r, s1) \<Rightarrow> ok_finish ''Permissions saved'' ''Save failed'' ''Save failed.'' r s1)"

definition save_candidates :: "roles_page \<Rightarrow> (http_method \<times> string \<times> jsval) list" where
  "save_candidates s =
     [(PUT, ''/roles/'' @ toString (getField (selectedRole s) ''id'') @ ''/permissions'',
       JObj [(''permissions'', JArr (map JStr (granted_keys (rolePerms s))))]),
      (PATCH, ''/roles/'' @ toString (getField (selectedRole s) ''id''),
       JObj [(''permissions'', JArr (map JStr (granted_keys (rolePerms s))))])]"

text \<open>\<^verbatim>\<open>savePermissions()\<close>.\<close>

definition savePermissions :: "env \<Rightarrow> client \<Rightarrow> roles_page \<Rightarrow> roles_page" where
  "savePermissions E cl s = savePermissions_from E cl (save_candidates s) s"

definition assignRoleToUser_from ::
  "env \<Rightarrow> client \<Rightarrow> (http_method \<times> string \<times> jsval) list \<Rightarrow> roles_page \<Rightarrow> roles_page" where
  "assignRoleToUser_from E cl candidates s =
     (if \<not> truthy (getField (selectedRole s) ''id'') \<or> assignUserId s = [] then s
      else case ok_loop E cl candidates False None s of
             (r, s1) \<Rightarrow> ok_finish ''Role assigned'' ''Assign failed'' ''Assign failed.'' r s1)"

definition assign_candidates :: "roles_page \<Rightarrow> (http_method \<times> string \<times> jsval) list" where
  "assign_candidates s =
     [(POST, ''/users/'' @ assignUserId s @ ''/roles'',
       JObj [(''roleId'', getField (selectedRole s) ''id'')]),
      (PUT, ''/users/'' @ assignUserId s @ ''/role'',
       JObj [(''roleId'', getField (selectedRole s) ''id'')]),
      (PATCH, ''/users/'' @ assignUserId s,
       JObj [(''roleId'', getField (selectedRole s) ''id'')])]"

text \<open>\<^verbatim>\<open>assignRoleToUser()\<close>.\<close>

definition assignRoleToUser :: "env \<Rightarrow> client \<Rightarrow> roles_page \<Rightarrow> roles_page" where
  "assignRoleToUser E cl s = assignRoleToUser_from E cl (assign_candidates s) s"

subsection \<open>Registration (context/AuthContext.js)\<close>

definition register_candidates :: "string \<Rightarrow> string \<Rightarrow> string \<Rightarrow> (string \<times> jsval) list" where
  "register_candidates name email password =
     [(''/auth/register'',
       JObj [(''name'', JStr name), (''email'', JStr email), (''password'', JStr password)]),
      (''/register'',
       JObj [(''name'', JStr name), (''email'', JStr email), (''password'', JStr password)]),
      (''/auth/signup'',
       JObj [(''name'', JStr name), (''email'', JStr email), (''password'', JStr password)])]"

text \<open>
  The loop of \<^verbatim>\<open>register\<close>; \<open>Inr (t, u)\<close> is the returned \<^verbatim>\<open>{ token: jwt || null, user: null }\<close>.
  An answer with a token also signs the session in.
\<close>

fun register_loop ::
  "env \<Rightarrow> client \<Rightarrow> (string \<times> jsval) list \<Rightarrow> js_error option \<Rightarrow> session \<Rightarrow>
   (js_error + jsval \<times> jsval) \<times> session" where
  "register_loop E cl [] lastErr s =
     (Inl (case lastErr of Some e \<Rightarrow> e | None \<Rightarrow> newError ''Registration failed.''), s)"
| "register_loop E cl ((path, body) # rest) lastErr s =
     (case request E cl POST path (with_body body) (auth_log s) of
        (Inl e, l1) \<Rightarrow> register_loop E cl rest (Some e) (s\<lparr>auth_log := l1\<rparr>)
      | (Inr d, l1) \<Rightarrow>
          (let jwt = normalizeAuthResponse d
           in if truthy jwt
              then (case bestEffortGetMe E \<lparr>cl_getToken = Some jwt, cl_onLoading = False\<rparr> l1 of
                      (me, l2) \<Rightarrow>
                        (Inr (jwt, JNull),
                         (setToken E jwt (s\<lparr>auth_log := l1\<rparr>))
                           \<lparr>token := jwt, user := me, auth_log := l2\<rparr>))
              else (Inr (JNull, JNull), s\<lparr>auth_log := l1\<rparr>)))"

text \<open>\<^verbatim>\<open>register({name, email, password})\<close>.\<close>

definition register ::
  "env \<Rightarrow> client \<Rightarrow> string \<Rightarrow> string \<Rightarrow> string \<Rightarrow> session \<Rightarrow>
   (js_error + jsval \<times> jsval) \<times> session" where
  "register E cl name email password s =
     register_loop E cl (register_candidates name email password) None s"

section \<open>Vocabulary of the statements\<close>

text \<open>The request that \<^verbatim>\<open>request\<close> hands to \<^verbatim>\<open>fetch\<close>.\<close>

definition build_request :: "env \<Rightarrow> client \<Rightarrow> http_method \<Rightarrow> string \<Rightarrow> opts \<Rightarrow> http_request" where
  "build_request E cl m path os =
     \<lparr>req_method = m,
      req_url = joinUrl (case API_BASE E of Some b \<Rightarrow> b | None \<Rightarrow> []) path,
      req_headers =
        spread
          (spread (if truthy (opt_body os) then [(''Content-Type'', ''application/json'')] else [])
                  (if truthy (case cl_getToken cl of Some t \<Rightarrow> t | None \<Rightarrow> JNull)
                   then [(''Authorization'', ''Bearer '' @
                            toString (case cl_getToken cl of Some t \<Rightarrow> t | None \<Rightarrow> JNull))]
                   else []))
          (case opt_headers os of Some h \<Rightarrow> h | None \<Rightarrow> []),
      req_body = (if truthy (opt_body os) then Some (JSON_stringify E (opt_body os)) else None)\<rparr>"

text \<open>The error with which \<^verbatim>\<open>request\<close> rejects on an outcome, if it does.\<close>

fun failure :: "env \<Rightarrow> fetch_outcome \<Rightarrow> js_error option" where
  "failure E (Rejected e) = Some e"
| "failure E (Responded st text) =
     (if res_ok st then None
      else Some \<lparr>err_message = errorMessage (safeJsonParse E text) st, err_status = Some st,
                 err_data = safeJsonParse E text\<rparr>)"

text \<open>The value with which \<^verbatim>\<open>request\<close> resolves on an outcome, if it does.\<close>

fun answer :: "env \<Rightarrow> fetch_outcome \<Rightarrow> jsval option" where
  "answer E (Rejected e) = None"
| "answer E (Responded st text) = (if res_ok st then Some (safeJsonParse E text) else None)"

text \<open>
  \<open>attempts E fl hist rs\<close>: the requests \<open>rs\<close> are sent one after the other to a backend that
  has received \<open>hist\<close>, and every one of them fails in the sense of \<open>fl\<close>, which gives the
  error of a failed candidate. The result is the list of these errors, \<open>None\<close> as soon as
  one candidate does not fail.
\<close>

fun attempts ::
  "env \<Rightarrow> (env \<Rightarrow> fetch_outcome \<Rightarrow> js_error option) \<Rightarrow> http_request list \<Rightarrow> http_request list \<Rightarrow>
   js_error list option" where
  "attempts E fl hist [] = Some []"
| "attempts E fl hist (r # rs) =
     (case fl E (backend E hist r) of
        None \<Rightarrow> None
      | Some e \<Rightarrow> map_option (\<lambda>es. e # es) (attempts E fl (hist @ [r]) rs))"

text \<open>The events of issuing the requests \<open>rs\<close> one after the other through a client.\<close>

fun issued :: "client \<Rightarrow> http_request list \<Rightarrow> event list" where
  "issued cl [] = []"
| "issued cl (r # rs) = onLoading cl True @ [Fetch r] @ onLoading cl False @ issued cl rs"

text \<open>The requests of the candidates: of a path read with GET, of a write, of a login.\<close>

definition get_request :: "env \<Rightarrow> client \<Rightarrow> string \<Rightarrow> http_request" where
  "get_request E cl path = build_request E cl GET path no_opts"

definition write_request :: "env \<Rightarrow> client \<Rightarrow> http_method \<times> string \<times> jsval \<Rightarrow> http_request" where
  "write_request E cl c = (case c of (m, path, body) \<Rightarrow> build_request E cl m path (with_body body))"

definition post_request :: "env \<Rightarrow> client \<Rightarrow> string \<times> jsval \<Rightarrow> http_request" where
  "post_request E cl c = (case c of (path, body) \<Rightarrow> build_request E cl POST path (with_body body))"

text \<open>The error thrown after a loop whose candidates failed with the errors \<open>es\<close>.\<close>

definition last_error :: "js_error list \<Rightarrow> string \<Rightarrow> js_error" where
  "last_error es generic = (if es = [] then newError generic else last es)"

text \<open>A candidate of \<^verbatim>\<open>login\<close> also fails when its answer holds no token.\<close>

definition login_failure :: "env \<Rightarrow> fetch_outcome \<Rightarrow> js_error option" where
  "login_failure E out =
     (case failure E out of
        Some e \<Rightarrow> Some e
      | None \<Rightarrow>
          (case answer E out of
             Some d \<Rightarrow> if truthy (normalizeAuthResponse d) then None
                       else Some (newError ''Login response did not include a token.'')
           | None \<Rightarrow> None))"

text \<open>The fetches of a log, loading signals left out, and the loading signals alone.\<close>

fun signals :: "event list \<Rightarrow> bool list" where
  "signals [] = []"
| "signals (Loading b # evs) = b # signals evs"
| "signals (Fetch r # evs) = signals evs"

text \<open>
  The message of a failed request as the specification words it: the body's \<^verbatim>\<open>detail\<close>
  field, else its \<^verbatim>\<open>message\<close> field, else its \<^verbatim>\<open>error\<close> field, else the raw text when the
  body was not JSON, else the generic string.
\<close>

definition claimed_message :: "env \<Rightarrow> string \<Rightarrow> nat \<Rightarrow> string" where
  "claimed_message E text st =
     (let d = safeJsonParse E text
      in if truthy (getField d ''detail'') then toString (getField d ''detail'')
         else if truthy (getField d ''message'') then toString (getField d ''message'')
         else if truthy (getField d ''error'') then toString (getField d ''error'')
         else if text \<noteq> [] \<and> JSON_parse E text = None then text
         else ''Request failed ('' @ decimal st @ '')'')"

text \<open>The two requests of \<^verbatim>\<open>archiveOrDelete\<close>.\<close>

definition patch_request :: "env \<Rightarrow> client \<Rightarrow> jsval \<Rightarrow> http_request" where
  "patch_request E cl p =
     build_request E cl PATCH (''/projects/'' @ toString (getField p ''id''))
       (with_body (JObj [(''status'', JStr ''archived'')]))"

definition delete_request :: "env \<Rightarrow> client \<Rightarrow> jsval \<Rightarrow> http_request" where
  "delete_request E cl p =
     build_request E cl DELETE (''/projects/'' @ toString (getField p ''id'')) no_opts"

text \<open>The client that \<^verbatim>\<open>login\<close> and \<^verbatim>\<open>register\<close> create for the profile, with the new token.\<close>

definition token_client :: "jsval \<Rightarrow> client" where
  "token_client jwt = \<lparr>cl_getToken = Some jwt, cl_onLoading = False\<rparr>"

text \<open>
  \<open>rejected E rj hist rs\<close>: the requests \<open>rs\<close> are sent one after the other to a backend that
  has received \<open>hist\<close>, and the loop passes over every one of them in the sense of \<open>rj\<close>.
\<close>

fun rejected ::
  "env \<Rightarrow> (env \<Rightarrow> fetch_outcome \<Rightarrow> bool) \<Rightarrow> http_request list \<Rightarrow> http_request list \<Rightarrow> bool" where
  "rejected E rj hist [] = True"
| "rejected E rj hist (r # rs) = (rj E (backend E hist r) \<and> rejected E rj (hist @ [r]) rs)"

text \<open>
  The loop of the profile passes over a candidate that fails or answers with a falsy
  value, the loop of the role permissions over one that fails or whose permissions cannot
  be read.
\<close>

definition me_passes :: "env \<Rightarrow> fetch_outcome \<Rightarrow> bool" where
  "me_passes E out = (case answer E out of None \<Rightarrow> True | Some d \<Rightarrow> \<not> truthy d)"

definition perms_passes :: "env \<Rightarrow> fetch_outcome \<Rightarrow> bool" where
  "perms_passes E out = (case answer E out of None \<Rightarrow> True | Some d \<Rightarrow> role_perms d = None)"

section \<open>Sample surroundings\<close>

text \<open>A parser that knows the bodies used in the examples below.\<close>

definition sample_parse :: "string \<Rightarrow> jsval option" where
  \<open>sample_parse t =
     (if t = ''[]'' then Some (JArr [])
      else if t = ''null'' then Some JNull
      else if t = ''[null]'' then Some (JArr [JNull])
      else if t = ''["a","b"]'' then Some (JArr [JStr ''a'', JStr ''b''])
      else if t = ''{"id":7}'' then Some (JObj [(''id'', JNum 7)])
      else if t = ''[{"id":7}]'' then Some (JArr [JObj [(''id'', JNum 7)]])
      else if t = ''"boom"'' then Some (JStr ''boom'')
      else if t = ''{"detail":"denied"}'' then Some (JObj [(''detail'', JStr ''denied'')])
      else if t = ''{"access_token":"abc"}'' then Some (JObj [(''access_token'', JStr ''abc'')])
      else if t = ''{"ok":true}'' then Some (JObj [(''ok'', JBool True)])
      else None)\<close>

text \<open>
  Backends for the examples: one that answers every request with the same outcome, and
  one that answers by the path of the request, failing with status 404 elsewhere.
\<close>

definition always :: "fetch_outcome \<Rightarrow> http_request list \<Rightarrow> http_request \<Rightarrow> fetch_outcome" where
  "always out hist r = out"

definition routes ::
  "(string \<times> fetch_outcome) list \<Rightarrow> http_request list \<Rightarrow> http_request \<Rightarrow> fetch_outcome" where
  "routes table hist r =
     (case map_of table (req_url r) of Some out \<Rightarrow> out | None \<Rightarrow> Responded 404 [])"

definition sample_env ::
  "(http_request list \<Rightarrow> http_request \<Rightarrow> fetch_outcome) \<Rightarrow> env" where
  "sample_env b =
     \<lparr>API_BASE = None, JSON_parse = sample_parse, JSON_stringify = toString,
      storage_writable = True, backend = b\<rparr>"

definition page_client :: client where
  "page_client = \<lparr>cl_getToken = Some (JStr ''t0''), cl_onLoading = True\<rparr>"

definition auth_client :: client where
  "auth_client = \<lparr>cl_getToken = Some JNull, cl_onLoading = False\<rparr>"

definition empty_projects :: projects_page where
  "empty_projects =
     \<lparr>toasts = [], toastId = 0, log = [], projects = [], selected = JNull, mode = ModeNone,
      form = \<lparr>form_name = [], form_description = [], form_status = ''active''\<rparr>,
      errors = []\<rparr>"

definition empty_users :: users_page where
  "empty_users =
     \<lparr>toasts = [], toastId = 0, log = [], users = [], roles = [], inviteOpen = True,
      inviteForm = \<lparr>inv_email = ''a@b.c'', inv_name = ''Ann'', inv_roleId = []\<rparr>,
      user_errors = []\<rparr>"

definition anonymous :: session where
  "anonymous =
     \<lparr>token = JNull, user = JNull, initializing = False, stored = None, auth_log = []\<rparr>"

definition empty_roles :: roles_page where
  "empty_roles =
     \<lparr>toasts = [], toastId = 0, log = [], rp_roles = [], rp_users = [],
      selectedRole = JObj [(''id'', JNum 3)], rolePerms = [(''users.read'', True)],
      assignUserId = ''7''\<rparr>"

section \<open>Properties\<close>

subsection \<open>The client\<close>

lemma requests_append: "requests (xs @ ys) = requests xs @ requests ys"
  by (induction xs rule: requests.induct) simp_all

lemma signals_append: "signals (xs @ ys) = signals xs @ signals ys"
  by (induction xs rule: signals.induct) simp_all

lemma requests_onLoading: "requests (onLoading cl b) = []"
  by (simp add: onLoading_def)

lemma failure_or_answer: "(failure E out = None) = (answer E out \<noteq> None)"
  by (cases out) simp_all

lemma request_log:
  "snd (request E cl m path os l) =
     l @ onLoading cl True @ [Fetch (build_request E cl m path os)] @ onLoading cl False"
  by (simp add: request_def Let_def build_request_def)

lemma request_result:
  "fst (request E cl m path os l) =
     (case failure E (backend E (requests l) (build_request E cl m path os)) of
        Some e \<Rightarrow> Inl e
      | None \<Rightarrow> Inr (the (answer E (backend E (requests l) (build_request E cl m path os)))))"
  by (simp add: request_def Let_def build_request_def requests_append requests_onLoading
      split: fetch_outcome.splits)

lemma request_failure:
  assumes "failure E (backend E (requests l) (build_request E cl m path os)) = Some e"
  shows "request E cl m path os l =
     (Inl e, l @ onLoading cl True @ [Fetch (build_request E cl m path os)] @ onLoading cl False)"
  using assms request_result [of E cl m path os l] request_log [of E cl m path os l]
  by (simp add: prod_eq_iff)

lemma request_answer:
  assumes "answer E (backend E (requests l) (build_request E cl m path os)) = Some d"
  shows "request E cl m path os l =
     (Inr d, l @ onLoading cl True @ [Fetch (build_request E cl m path os)] @ onLoading cl False)"
proof -
  have "failure E (backend E (requests l) (build_request E cl m path os)) = None"
    using assms by (simp add: failure_or_answer)
  then show ?thesis
    using assms request_result [of E cl m path os l] request_log [of E cl m path os l]
    by (simp add: prod_eq_iff)
qed

subsection \<open>List normalization\<close>

text \<open>
  Claim C3. For every input value, list normalization returns the value itself when it is
  an array; the inner array when the value has an \<^verbatim>\<open>items\<close> array field or, failing that, a
  \<^verbatim>\<open>data\<close> array field; and the empty list for any other input: an object without either
  array field, null, a scalar, a string.
\<close>

theorem normalizeList_spec:
  "normalizeList (JArr xs) = JArr xs \<and>
   (map_of kvs ''items'' = Some (JArr xs) \<longrightarrow> normalizeList (JObj kvs) = JArr xs) \<and>
   ((\<forall>zs. map_of kvs ''items'' \<noteq> Some (JArr zs)) \<and> map_of kvs ''data'' = Some (JArr ys) \<longrightarrow>
      normalizeList (JObj kvs) = JArr ys) \<and>
   ((\<forall>zs. map_of kvs ''items'' \<noteq> Some (JArr zs)) \<and> (\<forall>zs. map_of kvs ''data'' \<noteq> Some (JArr zs)) \<longrightarrow>
      normalizeList (JObj kvs) = JArr []) \<and>
   ((\<forall>zs. d \<noteq> JArr zs) \<and> (\<forall>ps. d \<noteq> JObj ps) \<longrightarrow> normalizeList d = JArr [])"
proof -
  have arr: "isArray v = (\<exists>zs. v = JArr zs)" for v
    by (cases v) simp_all
  have a: "normalizeList (JArr xs) = JArr xs"
    by (simp add: normalizeList_def)
  have b: "normalizeList (JObj kvs) = JArr xs" if "map_of kvs ''items'' = Some (JArr xs)"
    using that by (simp add: normalizeList_def getField_def)
  have c: "normalizeList (JObj kvs) = JArr ys"
    if "\<forall>zs. map_of kvs ''items'' \<noteq> Some (JArr zs)" "map_of kvs ''data'' = Some (JArr ys)"
    using that by (auto simp add: normalizeList_def getField_def arr split: option.splits)
  have d: "normalizeList (JObj kvs) = JArr []"
    if "\<forall>zs. map_of kvs ''items'' \<noteq> Some (JArr zs)" "\<forall>zs. map_of kvs ''data'' \<noteq> Some (JArr zs)"
    using that by (auto simp add: normalizeList_def getField_def arr split: option.splits)
  have e: "normalizeList d = JArr []" if "\<forall>zs. d \<noteq> JArr zs" "\<forall>ps. d \<noteq> JObj ps"
    using that by (cases d) (simp_all add: normalizeList_def getField_def)
  from a b c d e show ?thesis by blast
qed

theorem normalizeList_spec_witness:
  "normalizeList (JObj [(''items'', JArr [JNum 1]), (''data'', JArr [])]) = JArr [JNum 1] \<and>
   normalizeList (JObj [(''items'', JStr ''x''), (''data'', JArr [JNum 2])]) = JArr [JNum 2] \<and>
   normalizeList (JObj [(''total'', JNum 3)]) = JArr [] \<and>
   normalizeList (JStr ''abc'') = JArr []"
  using normalizeList_spec [of "[JNum 1]" "[(''items'', JArr [JNum 1]), (''data'', JArr [])]" "[]" JNull]
    normalizeList_spec [of "[]" "[(''items'', JStr ''x''), (''data'', JArr [JNum 2])]" "[JNum 2]" "JNull"]
    normalizeList_spec [of "[]" "[(''total'', JNum 3)]" "[]" "JStr ''abc''"]
  by simp

lemma falsy_getField: "\<not> truthy d \<Longrightarrow> getField d k = JUndef"
  by (cases d) (simp_all add: getField_def)

lemma errorMessage_priority:
  "errorMessage d st =
     (if truthy (getField d ''detail'') then toString (getField d ''detail'')
      else if truthy (getField d ''message'') then toString (getField d ''message'')
      else if truthy (getField d ''error'') then toString (getField d ''error'')
      else case d of JStr s \<Rightarrow> if s = [] then ''Request failed ('' @ decimal st @ '')'' else s
           | _ \<Rightarrow> ''Request failed ('' @ decimal st @ '')'')"
proof (cases "truthy d")
  case False
  then show ?thesis
    by (cases d) (simp_all add: errorMessage_def js_or_def js_and_def getField_def)
next
  case True
  then show ?thesis
    by (cases d) (simp_all add: errorMessage_def js_or_def js_and_def getField_def)
qed

subsection \<open>Failed responses\<close>

text \<open>
  Claim C6, amended. For every HTTP response with a status outside 200..299, \<^verbatim>\<open>request\<close>
  fails with an error carrying the status code, the parsed-or-raw body, and a message
  chosen by this priority: the body's \<^verbatim>\<open>detail\<close> field when truthy, else its \<^verbatim>\<open>message\<close>
  field when truthy, else its \<^verbatim>\<open>error\<close> field when truthy (each converted to a string),
  else the parsed-or-raw body itself when that is a non-empty string, else the generic
  string \<^verbatim>\<open>Request failed (<status>)\<close>. The body is the raw text when the text was not
  JSON. Unless the parsed-or-raw body is a string, the message is the one the
  specification names.
\<close>

theorem request_error:
  assumes "backend E (requests l) (build_request E cl m path os) = Responded st text"
    and "st < 200 \<or> 299 < st"
  shows "fst (request E cl m path os l) =
           Inl \<lparr>err_message =
                  (let d = safeJsonParse E text
                   in if truthy (getField d ''detail'') then toString (getField d ''detail'')
                      else if truthy (getField d ''message'') then toString (getField d ''message'')
                      else if truthy (getField d ''error'') then toString (getField d ''error'')
                      else case d of
                             JStr s \<Rightarrow> if s = [] then ''Request failed ('' @ decimal st @ '')'' else s
                           | _ \<Rightarrow> ''Request failed ('' @ decimal st @ '')''),
                err_status = Some st,
                err_data = safeJsonParse E text\<rparr> \<and>
         (text \<noteq> [] \<and> JSON_parse E text = None \<longrightarrow> safeJsonParse E text = JStr text) \<and>
         (\<not> isString (safeJsonParse E text) \<longrightarrow>
            err_message (projl (fst (request E cl m path os l))) = claimed_message E text st)"
proof -
  have nok: "\<not> res_ok st"
    using assms(2) by (auto simp add: res_ok_def)
  have res: "fst (request E cl m path os l) =
      Inl \<lparr>err_message = errorMessage (safeJsonParse E text) st, err_status = Some st,
           err_data = safeJsonParse E text\<rparr>"
    using assms(1) nok by (simp add: request_result)
  have raw: "text \<noteq> [] \<and> JSON_parse E text = None \<longrightarrow> safeJsonParse E text = JStr text"
    by (simp add: safeJsonParse_def)
  have cl: "errorMessage (safeJsonParse E text) st = claimed_message E text st"
    if "\<not> isString (safeJsonParse E text)"
  proof -
    have "\<not> (text \<noteq> [] \<and> JSON_parse E text = None)"
      using that raw by auto
    then show ?thesis
      using that
      by (cases "safeJsonParse E text")
        (auto simp add: errorMessage_priority claimed_message_def Let_def)
  qed
  have msg: "err_message (projl (fst (request E cl m path os l))) =
      errorMessage (safeJsonParse E text) st"
    by (simp add: res)
  show ?thesis
  proof (intro conjI)
    show "fst (request E cl m path os l) =
           Inl \<lparr>err_message =
                  (let d = safeJsonParse E text
                   in if truthy (getField d ''detail'') then toString (getField d ''detail'')
                      else if truthy (getField d ''message'') then toString (getField d ''message'')
                      else if truthy (getField d ''error'') then toString (getField d ''error'')
                      else case d of
                             JStr s \<Rightarrow> if s = [] then ''Request failed ('' @ decimal st @ '')'' else s
                           | _ \<Rightarrow> ''Request failed ('' @ decimal st @ '')''),
                err_status = Some st,
                err_data = safeJsonParse E text\<rparr>"
      unfolding res Let_def errorMessage_priority [symmetric] by (rule refl)
    show "text \<noteq> [] \<and> JSON_parse E text = None \<longrightarrow> safeJsonParse E text = JStr text"
      by (rule raw)
    show "\<not> isString (safeJsonParse E text) \<longrightarrow>
            err_message (projl (fst (request E cl m path os l))) = claimed_message E text st"
      using cl msg by simp
  qed
qed

theorem request_error_witness:
  "fst (request (sample_env (always (Responded 403 ''{\"detail\":\"denied\"}''))) page_client GET
         ''/projects'' no_opts []) =
     Inl \<lparr>err_message = ''denied'', err_status = Some 403,
          err_data = JObj [(''detail'', JStr ''denied'')]\<rparr> \<and>
   fst (request (sample_env (always (Responded 502 ''Bad Gateway''))) page_client GET
         ''/projects'' no_opts []) =
     Inl \<lparr>err_message = ''Bad Gateway'', err_status = Some 502, err_data = JStr ''Bad Gateway''\<rparr> \<and>
   fst (request (sample_env (always (Responded 500 []))) page_client GET
         ''/projects'' no_opts []) =
     Inl \<lparr>err_message = ''Request failed (500)'', err_status = Some 500, err_data = JNull\<rparr>"
proof -
  have d: "decimal 500 = ''500''"
    by code_simp
  show ?thesis
    using
      request_error [of "sample_env (always (Responded 403 ''{\"detail\":\"denied\"}''))" "[]"
        page_client GET "''/projects''" no_opts 403 "''{\"detail\":\"denied\"}''"]
      request_error [of "sample_env (always (Responded 502 ''Bad Gateway''))" "[]"
        page_client GET "''/projects''" no_opts 502 "''Bad Gateway''"]
      request_error [of "sample_env (always (Responded 500 []))" "[]"
        page_client GET "''/projects''" no_opts 500 "[]"]
    by (simp add: sample_env_def always_def sample_parse_def safeJsonParse_def getField_def d)
qed

text \<open>
  The claim as worded fails on a body that is a JSON string literal: the body is JSON and
  has none of the three fields, so the specification's message is the generic one, but
  the message is the decoded string.
\<close>

theorem request_error_counterexample:
  "JSON_parse (sample_env (always (Responded 500 ''\"boom\"''))) ''\"boom\"'' = Some (JStr ''boom'') \<and>
   fst (request (sample_env (always (Responded 500 ''\"boom\"''))) page_client GET ''/projects''
         no_opts []) =
     Inl \<lparr>err_message = ''boom'', err_status = Some 500, err_data = JStr ''boom''\<rparr> \<and>
   claimed_message (sample_env (always (Responded 500 ''\"boom\"''))) ''\"boom\"'' 500 =
     ''Request failed (500)''"
proof -
  have d: "decimal 500 = ''500''"
    by code_simp
  show ?thesis
    by (simp add: request_result sample_env_def always_def sample_parse_def safeJsonParse_def
        getField_def d res_ok_def errorMessage_priority claimed_message_def)
qed

subsection \<open>Loading signals of a request\<close>

text \<open>
  Claim C9, amended. For every call of \<^verbatim>\<open>request\<close> on a client that was given an
  \<^verbatim>\<open>onLoading\<close> hook, the busy signal is emitted exactly once, immediately before the
  request is issued, and the idle signal exactly once after it settles, whether the
  request succeeds or fails. On a client without the hook the request is issued and no
  signal is emitted.
\<close>

theorem request_signals:
  "(cl_onLoading cl \<longrightarrow>
      snd (request E cl m path os l) =
        l @ [Loading True, Fetch (build_request E cl m path os), Loading False]) \<and>
   (\<not> cl_onLoading cl \<longrightarrow>
      snd (request E cl m path os l) = l @ [Fetch (build_request E cl m path os)])"
  by (simp add: request_log onLoading_def)

theorem request_signals_witness:
  "snd (request (sample_env (always (Responded 200 ''[]''))) page_client GET ''/projects'' no_opts []) =
     [Loading True,
      Fetch \<lparr>req_method = GET, req_url = ''/projects'',
             req_headers = [(''Authorization'', ''Bearer t0'')], req_body = None\<rparr>,
      Loading False] \<and>
   snd (request (sample_env (always (Rejected (newError ''Failed to fetch'')))) page_client GET
         ''/projects'' no_opts []) =
     [Loading True,
      Fetch \<lparr>req_method = GET, req_url = ''/projects'',
             req_headers = [(''Authorization'', ''Bearer t0'')], req_body = None\<rparr>,
      Loading False] \<and>
   snd (request (sample_env (always (Responded 200 ''[]''))) auth_client GET ''/auth/me'' no_opts []) =
     [Fetch \<lparr>req_method = GET, req_url = ''/auth/me'', req_headers = [], req_body = None\<rparr>]"
  using
    request_signals [of page_client "sample_env (always (Responded 200 ''[]''))" GET "''/projects''"
      no_opts "[]"]
    request_signals [of page_client "sample_env (always (Rejected (newError ''Failed to fetch'')))"
      GET "''/projects''" no_opts "[]"]
    request_signals [of auth_client "sample_env (always (Responded 200 ''[]''))" GET "''/auth/me''"
      no_opts "[]"]
  by (simp add: page_client_def auth_client_def build_request_def sample_env_def no_opts_def
      joinUrl_def spread_def)

text \<open>
  The claim as worded fails for the clients the session manager creates, which have no
  hook: their requests emit no signal at all.
\<close>

theorem request_signals_counterexample:
  "signals (snd (request (sample_env (always (Responded 200 ''[]''))) auth_client GET ''/auth/me''
      no_opts [])) = []"
  by (simp add: request_log onLoading_def auth_client_def)

subsection \<open>The candidate loops\<close>

lemma requests_issued: "requests (issued cl rs) = rs"
  by (induction rs) (simp_all add: requests_append requests_onLoading)

lemma issued_append: "issued cl (rs @ qs) = issued cl rs @ issued cl qs"
  by (induction rs) simp_all

lemma api_failure:
  assumes "failure E (backend E (requests (log s)) (build_request E cl m path os)) = Some e"
  shows "api E cl m path os s =
     (Inl e, s\<lparr>log := log s @ issued cl [build_request E cl m path os]\<rparr>)"
  using request_failure [OF assms] by (simp add: api_def)

lemma api_answer:
  assumes "answer E (backend E (requests (log s)) (build_request E cl m path os)) = Some d"
  shows "api E cl m path os s =
     (Inr d, s\<lparr>log := log s @ issued cl [build_request E cl m path os]\<rparr>)"
  using request_answer [OF assms] by (simp add: api_def)

lemma attempts_last:
  "attempts E fl hist (rs @ [r]) = Some es \<Longrightarrow>
     \<exists>e. fl E (backend E (hist @ rs) r) = Some e \<and> last es = e \<and> es \<noteq> []"
proof (induction rs arbitrary: hist es)
  case Nil
  then show ?case by (auto split: option.splits)
next
  case (Cons q qs)
  from Cons.prems obtain e es' where e: "fl E (backend E hist q) = Some e"
    and es': "attempts E fl (hist @ [q]) (qs @ [r]) = Some es'" and es: "es = e # es'"
    by (auto split: option.splits)
  from Cons.IH [OF es'] es show ?case by auto
qed

lemma load_loop_success:
  assumes "attempts E failure (requests (log s)) (map (get_request E cl) pre) = Some es"
    and "answer E (backend E (requests (log s) @ map (get_request E cl) pre) (get_request E cl c)) = Some d"
  shows "load_loop E cl (pre @ c # post) le s =
     (Inr (), s\<lparr>log := log s @ issued cl (map (get_request E cl) (pre @ [c])),
               projects := elems (normalizeList d)\<rparr>)"
  using assms
proof (induction pre arbitrary: s le es)
  case Nil
  then show ?case
    by (simp add: get_request_def api_answer)
next
  case (Cons p ps)
  from Cons.prems(1) obtain e es' where e: "failure E (backend E (requests (log s)) (get_request E cl p)) = Some e"
    and es': "attempts E failure (requests (log s) @ [get_request E cl p]) (map (get_request E cl) ps) = Some es'"
    by (auto split: option.splits)
  let ?s1 = "s\<lparr>log := log s @ issued cl [get_request E cl p]\<rparr>"
  have step: "api E cl GET p no_opts s = (Inl e, ?s1)"
    using e by (simp add: get_request_def api_failure)
  have h: "requests (log ?s1) = requests (log s) @ [get_request E cl p]"
    by (simp add: requests_append requests_onLoading)
  have "load_loop E cl (ps @ c # post) (Some e) ?s1 =
     (Inr (), ?s1\<lparr>log := log ?s1 @ issued cl (map (get_request E cl) (ps @ [c])),
               projects := elems (normalizeList d)\<rparr>)"
    using Cons.IH [of ?s1 es' "Some e"] es' Cons.prems(2) h by simp
  then show ?case
    using step by simp
qed

lemma load_loop_failure:
  assumes "attempts E failure (requests (log s)) (map (get_request E cl) cands) = Some es"
  shows "load_loop E cl cands le s =
     (Inl (if es = [] then (case le of Some e \<Rightarrow> e | None \<Rightarrow> newError ''Unable to load projects.'')
           else last es),
      s\<lparr>log := log s @ issued cl (map (get_request E cl) cands)\<rparr>)"
  using assms
proof (induction cands arbitrary: s le es)
  case Nil
  then show ?case by simp
next
  case (Cons p ps)
  from Cons.prems(1) obtain e es' where e: "failure E (backend E (requests (log s)) (get_request E cl p)) = Some e"
    and es': "attempts E failure (requests (log s) @ [get_request E cl p]) (map (get_request E cl) ps) = Some es'"
    and es: "es = e # es'"
    by (auto split: option.splits)
  let ?s1 = "s\<lparr>log := log s @ issued cl [get_request E cl p]\<rparr>"
  have step: "api E cl GET p no_opts s = (Inl e, ?s1)"
    using e by (simp add: get_request_def api_failure)
  have h: "requests (log ?s1) = requests (log s) @ [get_request E cl p]"
    by (simp add: requests_append requests_onLoading)
  have "load_loop E cl ps (Some e) ?s1 =
     (Inl (if es' = [] then e else last es'),
      ?s1\<lparr>log := log ?s1 @ issued cl (map (get_request E cl) ps)\<rparr>)"
    using Cons.IH [of ?s1 es' "Some e"] es' h by simp
  then show ?case
    using step es by simp
qed

lemma write_loop_stop:
  assumes "attempts E failure (requests (log s)) (map (write_request E cl) pre) = Some es"
    and "answer E (backend E (requests (log s) @ map (write_request E cl) pre)
           (write_request E cl c)) = Some d"
  shows "write_loop E cl (pre @ c # post) r le s =
     ((d, if es = [] then le else Some (last es)),
      s\<lparr>log := log s @ issued cl (map (write_request E cl) (pre @ [c]))\<rparr>)"
  using assms
proof (induction pre arbitrary: s le es)
  case Nil
  obtain m path body where c: "c = (m, path, body)"
    by (cases c) auto
  from Nil show ?case
    by (simp add: c write_request_def api_answer)
next
  case (Cons p ps)
  obtain m path body where p: "p = (m, path, body)"
    by (cases p) auto
  from Cons.prems(1) obtain e es' where e: "failure E (backend E (requests (log s)) (write_request E cl p)) = Some e"
    and es': "attempts E failure (requests (log s) @ [write_request E cl p]) (map (write_request E cl) ps) = Some es'"
    and es: "es = e # es'"
    by (auto split: option.splits)
  let ?s1 = "s\<lparr>log := log s @ issued cl [write_request E cl p]\<rparr>"
  have step: "api E cl m path (with_body body) s = (Inl e, ?s1)"
    using e by (simp add: p write_request_def api_failure)
  have h: "requests (log ?s1) = requests (log s) @ [write_request E cl p]"
    by (simp add: requests_append requests_onLoading)
  have "write_loop E cl (ps @ c # post) r (Some e) ?s1 =
     ((d, if es' = [] then Some e else Some (last es')),
      ?s1\<lparr>log := log ?s1 @ issued cl (map (write_request E cl) (ps @ [c]))\<rparr>)"
    using Cons.IH [of ?s1 es' "Some e"] es' Cons.prems(2) h by simp
  then show ?case
    using step es by (simp add: p)
qed

lemma write_loop_failure:
  assumes "attempts E failure (requests (log s)) (map (write_request E cl) cands) = Some es"
  shows "write_loop E cl cands r le s =
     ((r, if es = [] then le else Some (last es)),
      s\<lparr>log := log s @ issued cl (map (write_request E cl) cands)\<rparr>)"
  using assms
proof (induction cands arbitrary: s le es)
  case Nil
  then show ?case by simp
next
  case (Cons p ps)
  obtain m path body where p: "p = (m, path, body)"
    by (cases p) auto
  from Cons.prems(1) obtain e es' where e: "failure E (backend E (requests (log s)) (write_request E cl p)) = Some e"
    and es': "attempts E failure (requests (log s) @ [write_request E cl p]) (map (write_request E cl) ps) = Some es'"
    and es: "es = e # es'"
    by (auto split: option.splits)
  let ?s1 = "s\<lparr>log := log s @ issued cl [write_request E cl p]\<rparr>"
  have step: "api E cl m path (with_body body) s = (Inl e, ?s1)"
    using e by (simp add: p write_request_def api_failure)
  have h: "requests (log ?s1) = requests (log s) @ [write_request E cl p]"
    by (simp add: requests_append requests_onLoading)
  have "write_loop E cl ps r (Some e) ?s1 =
     ((r, if es' = [] then Some e else Some (last es')),
      ?s1\<lparr>log := log ?s1 @ issued cl (map (write_request E cl) ps)\<rparr>)"
    using Cons.IH [of ?s1 es' "Some e"] es' h by simp
  then show ?case
    using step es by (simp add: p)
qed

lemma login_step_failure:
  assumes "login_failure E (backend E (requests (auth_log s)) (post_request E cl (path, body))) = Some e"
  shows "login_loop E cl ((path, body) # rest) le s =
     login_loop E cl rest (Some e)
       (s\<lparr>auth_log := auth_log s @ issued cl [post_request E cl (path, body)]\<rparr>)"
proof (cases "failure E (backend E (requests (auth_log s)) (post_request E cl (path, body)))")
  case (Some e')
  then have "e' = e"
    using assms by (simp add: login_failure_def)
  then show ?thesis
    using Some request_failure [of E "auth_log s" cl POST path "with_body body" e]
    by (simp add: post_request_def)
next
  case None
  then obtain d where d: "answer E (backend E (requests (auth_log s)) (post_request E cl (path, body))) = Some d"
    by (auto simp add: failure_or_answer)
  then have "\<not> truthy (normalizeAuthResponse d)"
    and "e = newError ''Login response did not include a token.''"
    using assms None by (auto simp add: login_failure_def split: if_splits)
  then show ?thesis
    using d request_answer [of E "auth_log s" cl POST path "with_body body" d]
    by (simp add: post_request_def)
qed

lemma login_loop_failure:
  assumes "attempts E login_failure (requests (auth_log s)) (map (post_request E cl) cands) = Some es"
  shows "login_loop E cl cands le s =
     (Inl (if es = [] then (case le of Some e \<Rightarrow> e | None \<Rightarrow> newError ''Login failed.'')
           else last es),
      s\<lparr>auth_log := auth_log s @ issued cl (map (post_request E cl) cands)\<rparr>)"
  using assms
proof (induction cands arbitrary: s le es)
  case Nil
  then show ?case by simp
next
  case (Cons p ps)
  obtain path body where p: "p = (path, body)"
    by (cases p) auto
  from Cons.prems(1) obtain e es' where e: "login_failure E (backend E (requests (auth_log s)) (post_request E cl p)) = Some e"
    and es': "attempts E login_failure (requests (auth_log s) @ [post_request E cl p]) (map (post_request E cl) ps) = Some es'"
    and es: "es = e # es'"
    by (auto split: option.splits)
  let ?s1 = "s\<lparr>auth_log := auth_log s @ issued cl [post_request E cl p]\<rparr>"
  have h: "requests (auth_log ?s1) = requests (auth_log s) @ [post_request E cl p]"
    by (simp add: requests_append requests_onLoading)
  have "login_loop E cl ps (Some e) ?s1 =
     (Inl (if es' = [] then e else last es'),
      ?s1\<lparr>auth_log := auth_log ?s1 @ issued cl (map (post_request E cl) ps)\<rparr>)"
    using Cons.IH [of ?s1 es' "Some e"] es' h by simp
  then show ?case
    using login_step_failure [of E s cl path body e "ps" le] e es by (simp add: p)
qed

lemma login_loop_success:
  assumes "attempts E login_failure (requests (auth_log s)) (map (post_request E cl) pre) = Some es"
    and "answer E (backend E (requests (auth_log s) @ map (post_request E cl) pre)
           (post_request E cl c)) = Some d"
    and "truthy (normalizeAuthResponse d)"
  shows "login_loop E cl (pre @ c # post) le s =
     (case bestEffortGetMe E \<lparr>cl_getToken = Some (normalizeAuthResponse d), cl_onLoading = False\<rparr>
             (auth_log s @ issued cl (map (post_request E cl) (pre @ [c]))) of
        (me, l2) \<Rightarrow>
          (Inr (normalizeAuthResponse d, me),
           (setToken E (normalizeAuthResponse d) s)
             \<lparr>token := normalizeAuthResponse d, user := me, auth_log := l2\<rparr>))"
  using assms
proof (induction pre arbitrary: s le es)
  case Nil
  obtain path body where c: "c = (path, body)"
    by (cases c) auto
  from Nil show ?case
    using request_answer [of E "auth_log s" cl POST path "with_body body" d]
    by (simp add: c post_request_def setToken_def Let_def split: prod.splits)
next
  case (Cons p ps)
  obtain path body where p: "p = (path, body)"
    by (cases p) auto
  from Cons.prems(1) obtain e es' where e: "login_failure E (backend E (requests (auth_log s)) (post_request E cl p)) = Some e"
    and es': "attempts E login_failure (requests (auth_log s) @ [post_request E cl p]) (map (post_request E cl) ps) = Some es'"
    by (auto split: option.splits)
  let ?s1 = "s\<lparr>auth_log := auth_log s @ issued cl [post_request E cl p]\<rparr>"
  have h: "requests (auth_log ?s1) = requests (auth_log s) @ [post_request E cl p]"
    by (simp add: requests_append requests_onLoading)
  have "login_loop E cl (ps @ c # post) (Some e) ?s1 =
     (case bestEffortGetMe E \<lparr>cl_getToken = Some (normalizeAuthResponse d), cl_onLoading = False\<rparr>
             (auth_log ?s1 @ issued cl (map (post_request E cl) (ps @ [c]))) of
        (me, l2) \<Rightarrow>
          (Inr (normalizeAuthResponse d, me),
           (setToken E (normalizeAuthResponse d) ?s1)
             \<lparr>token := normalizeAuthResponse d, user := me, auth_log := l2\<rparr>))"
    using Cons.IH [of ?s1 es' "Some e"] es' Cons.prems(2,3) h by simp
  then show ?case
    using login_step_failure [of E s cl path body e "ps @ c # post" le] e
    by (simp add: p setToken_def Let_def split: prod.splits)
qed

subsection \<open>Evaluating the examples\<close>

lemma decimal_404: "decimal 404 = ''404''"
  by code_simp

lemma decimal_500: "decimal 500 = ''500''"
  by code_simp

lemmas sample_defs =
  sample_env_def routes_def always_def sample_parse_def page_client_def auth_client_def
  build_request_def get_request_def write_request_def post_request_def joinUrl_def spread_def
  no_opts_def with_body_def safeJsonParse_def res_ok_def errorMessage_priority getField_def
  newError_def decimal_404 decimal_500

lemma sample_invite_valid: "validateUser (inviteForm empty_users) = []"
  by code_simp

subsection \<open>A write probe whose candidate answers without a body\<close>

text \<open>
  Claim C10. For the operations that invite or create a user and that update a user's
  role, a candidate whose call succeeds but whose response body is null or empty (or any
  other falsy value) stops the candidate loop, yet the whole operation fails: it notifies
  the error of the last candidate that failed before, or a generic error if none had
  failed, and leaves the list of users unchanged. A successful response with an empty
  text is such a candidate.
\<close>

theorem write_probe_falsy_body:
  "(validateUser (inviteForm u) = [] \<and>
    attempts E failure (requests (log u)) (map (write_request E cl) pre) = Some es \<and>
    answer E (backend E (requests (log u) @ map (write_request E cl) pre) (write_request E cl c)) =
      Some d \<and>
    \<not> truthy d \<longrightarrow>
      submitInvite_from E cl (pre @ c # post) u =
        pushToast (notice_with ''error'' ''Invite failed''
                     (err_message (last_error es ''Invite failed.'')))
          (u\<lparr>user_errors := [],
             log := log u @ issued cl (map (write_request E cl) (pre @ [c]))\<rparr>)) \<and>
   (attempts E failure (requests (log u)) (map (write_request E cl) pre) = Some es \<and>
    answer E (backend E (requests (log u) @ map (write_request E cl) pre) (write_request E cl c)) =
      Some d \<and>
    \<not> truthy d \<longrightarrow>
      updateUserRole_from E cl (pre @ c # post) userId u =
        pushToast (notice_with ''error'' ''Update failed''
                     (err_message (last_error es ''Role update failed.'')))
          (u\<lparr>log := log u @ issued cl (map (write_request E cl) (pre @ [c]))\<rparr>)) \<and>
   (res_ok st \<longrightarrow> answer E (Responded st []) = Some JNull) \<and>
   \<not> truthy JNull"
proof (intro conjI impI)
  assume h: "validateUser (inviteForm u) = [] \<and>
    attempts E failure (requests (log u)) (map (write_request E cl) pre) = Some es \<and>
    answer E (backend E (requests (log u) @ map (write_request E cl) pre) (write_request E cl c)) =
      Some d \<and>
    \<not> truthy d"
  let ?u1 = "u\<lparr>user_errors := []\<rparr>"
  have "write_loop E cl (pre @ c # post) JNull None ?u1 =
     ((d, if es = [] then None else Some (last es)),
      ?u1\<lparr>log := log ?u1 @ issued cl (map (write_request E cl) (pre @ [c]))\<rparr>)"
    using h write_loop_stop [of E ?u1 cl pre es c d post JNull None] by simp
  then show "submitInvite_from E cl (pre @ c # post) u =
        pushToast (notice_with ''error'' ''Invite failed''
                     (err_message (last_error es ''Invite failed.'')))
          (u\<lparr>user_errors := [],
             log := log u @ issued cl (map (write_request E cl) (pre @ [c]))\<rparr>)"
    using h by (simp add: submitInvite_from_def invite_finish_def last_error_def Let_def)
next
  assume h: "attempts E failure (requests (log u)) (map (write_request E cl) pre) = Some es \<and>
    answer E (backend E (requests (log u) @ map (write_request E cl) pre) (write_request E cl c)) =
      Some d \<and>
    \<not> truthy d"
  have "write_loop E cl (pre @ c # post) JNull None u =
     ((d, if es = [] then None else Some (last es)),
      u\<lparr>log := log u @ issued cl (map (write_request E cl) (pre @ [c]))\<rparr>)"
    using h write_loop_stop [of E u cl pre es c d post JNull None] by simp
  then show "updateUserRole_from E cl (pre @ c # post) userId u =
        pushToast (notice_with ''error'' ''Update failed''
                     (err_message (last_error es ''Role update failed.'')))
          (u\<lparr>log := log u @ issued cl (map (write_request E cl) (pre @ [c]))\<rparr>)"
    using h by (simp add: updateUserRole_from_def role_finish_def last_error_def Let_def)
next
  assume "res_ok st"
  then show "answer E (Responded st []) = Some JNull"
    by (simp add: safeJsonParse_def)
next
  show "\<not> truthy JNull"
    by simp
qed


theorem write_probe_falsy_body_witness:
  "submitInvite (sample_env (routes [(''/users/invite'', Responded 200 ''null'')])) page_client
     empty_users =
     empty_users
       \<lparr>toasts := [\<lparr>toast_id = 1, toast_type = ''error'', toast_title = ''Invite failed'',
                     toast_description = ''Invite failed.'', toast_timeoutMs = 4500\<rparr>],
        toastId := 1,
        log := issued page_client
                 [write_request (sample_env (routes [(''/users/invite'', Responded 200 ''null'')]))
                    page_client (POST, ''/users/invite'', invite_json (inviteForm empty_users))]\<rparr> \<and>
   updateUserRole
     (sample_env (routes [(''/users/7/role'', Responded 500 ''{\"detail\":\"denied\"}''),
                          (''/users/7'', Responded 204 [])]))
     page_client (JNum 7) ''2'' empty_users =
     empty_users
       \<lparr>toasts := [\<lparr>toast_id = 1, toast_type = ''error'', toast_title = ''Update failed'',
                     toast_description = ''denied'', toast_timeoutMs = 4500\<rparr>],
        toastId := 1,
        log := issued page_client
                 [write_request
                    (sample_env (routes [(''/users/7/role'', Responded 500 ''{\"detail\":\"denied\"}''),
                                         (''/users/7'', Responded 204 [])]))
                    page_client (PUT, ''/users/7/role'', JObj [(''roleId'', JStr ''2'')]),
                  write_request
                    (sample_env (routes [(''/users/7/role'', Responded 500 ''{\"detail\":\"denied\"}''),
                                         (''/users/7'', Responded 204 [])]))
                    page_client (PATCH, ''/users/7'', JObj [(''roleId'', JStr ''2'')])]\<rparr>"
proof -
  let ?F = "sample_env (routes [(''/users/invite'', Responded 200 ''null'')])"
  let ?G = "sample_env (routes [(''/users/7/role'', Responded 500 ''{\"detail\":\"denied\"}''),
                                (''/users/7'', Responded 204 [])])"
  let ?j = "invite_json (inviteForm empty_users)"
  let ?r = "JObj [(''roleId'', JStr ''2'')]"
  let ?e = "\<lparr>err_message = ''denied'', err_status = Some 500,
             err_data = JObj [(''detail'', JStr ''denied'')]\<rparr>"
  have b1: "attempts ?F failure (requests (log empty_users)) (map (write_request ?F page_client) []) =
      Some []"
    by simp
  have b2: "answer ?F (backend ?F (requests (log empty_users) @ map (write_request ?F page_client) [])
      (write_request ?F page_client (POST, ''/users/invite'', ?j))) = Some JNull"
    by (simp add: sample_defs empty_users_def)
  have c1: "attempts ?G failure (requests (log empty_users))
      (map (write_request ?G page_client) [(PUT, ''/users/7/role'', ?r)]) = Some [?e]"
    by (simp add: sample_defs empty_users_def)
  have c2: "answer ?G (backend ?G (requests (log empty_users) @
      map (write_request ?G page_client) [(PUT, ''/users/7/role'', ?r)])
      (write_request ?G page_client (PATCH, ''/users/7'', ?r))) = Some JNull"
    by (simp add: sample_defs empty_users_def)
  have b: "submitInvite_from ?F page_client
       ([] @ (POST, ''/users/invite'', ?j) # [(POST, ''/invite'', ?j), (POST, ''/users'', ?j)])
       empty_users =
      pushToast (notice_with ''error'' ''Invite failed''
                   (err_message (last_error [] ''Invite failed.'')))
        (empty_users\<lparr>user_errors := [],
           log := log empty_users @ issued page_client (map (write_request ?F page_client)
                    ([] @ [(POST, ''/users/invite'', ?j)]))\<rparr>)"
    using b1 b2 sample_invite_valid
      write_probe_falsy_body [of empty_users ?F page_client "[]" "[]" "(POST, ''/users/invite'', ?j)"
        JNull "[(POST, ''/invite'', ?j), (POST, ''/users'', ?j)]"]
    by simp
  have c: "updateUserRole_from ?G page_client
       ([(PUT, ''/users/7/role'', ?r)] @ (PATCH, ''/users/7'', ?r) # [(POST, ''/users/7/roles'', ?r)])
       (JNum 7) empty_users =
      pushToast (notice_with ''error'' ''Update failed''
                   (err_message (last_error [?e] ''Role update failed.'')))
        (empty_users\<lparr>log := log empty_users @ issued page_client (map (write_request ?G page_client)
                     ([(PUT, ''/users/7/role'', ?r)] @ [(PATCH, ''/users/7'', ?r)]))\<rparr>)"
    using c1 c2
      write_probe_falsy_body [of empty_users ?G page_client "[(PUT, ''/users/7/role'', ?r)]" "[?e]"
        "(PATCH, ''/users/7'', ?r)" JNull "[(POST, ''/users/7/roles'', ?r)]" "JNum 7"]
    by simp
  have d7: "decimal 7 = ''7''"
    by code_simp
  have b': "submitInvite ?F page_client empty_users =
      pushToast (notice_with ''error'' ''Invite failed''
                   (err_message (last_error [] ''Invite failed.'')))
        (empty_users\<lparr>user_errors := [],
           log := log empty_users @ issued page_client (map (write_request ?F page_client)
                    ([] @ [(POST, ''/users/invite'', ?j)]))\<rparr>)"
    unfolding submitInvite_def invite_candidates_def using b by simp
  have c': "updateUserRole ?G page_client (JNum 7) ''2'' empty_users =
      pushToast (notice_with ''error'' ''Update failed''
                   (err_message (last_error [?e] ''Role update failed.'')))
        (empty_users\<lparr>log := log empty_users @ issued page_client (map (write_request ?G page_client)
                     ([(PUT, ''/users/7/role'', ?r)] @ [(PATCH, ''/users/7'', ?r)]))\<rparr>)"
    unfolding updateUserRole_def role_candidates_def using c by (simp add: d7)
  show ?thesis
    unfolding b' c'
    by (simp add: pushToast_def notice_with_def str_or_def last_error_def newError_def
        empty_users_def)
qed

subsection \<open>Login and the token of a response\<close>

lemma normalizeAuthResponse_abc:
  "normalizeAuthResponse (JObj [(''access_token'', JStr ''abc'')]) = JStr ''abc''"
  by (simp add: normalizeAuthResponse_def getField_def)

lemma normalizeAuthResponse_no_fields:
  assumes "getField d ''access_token'' = JUndef" "getField d ''token'' = JUndef"
    "getField d ''jwt'' = JUndef"
  shows "normalizeAuthResponse d = JNull"
  using assms by (simp add: normalizeAuthResponse_def)

text \<open>
  Claim C5. For every login, when the candidates before one have failed and that candidate
  answers with the body \<^verbatim>\<open>{access_token: "abc"}\<close>, the session is authenticated with the
  credential \<^verbatim>\<open>abc\<close>, which is also what the token storage holds when it accepts writes. A
  successful answer with none of the fields \<^verbatim>\<open>access_token\<close>, \<^verbatim>\<open>token\<close>, \<^verbatim>\<open>jwt\<close> makes the
  candidate a failed one, and the next candidate is tried. The token is taken from
  \<^verbatim>\<open>access_token\<close>, then \<^verbatim>\<open>token\<close>, then \<^verbatim>\<open>jwt\<close>, in that order.
\<close>

theorem login_token:
  "(login_candidates email password = pre @ c # post \<and>
    attempts E login_failure (requests (auth_log s)) (map (post_request E cl) pre) = Some es \<and>
    answer E (backend E (requests (auth_log s) @ map (post_request E cl) pre) (post_request E cl c)) =
      Some (JObj [(''access_token'', JStr ''abc'')]) \<longrightarrow>
      (\<exists>me. fst (login E cl email password s) = Inr (JStr ''abc'', me)) \<and>
      token (snd (login E cl email password s)) = JStr ''abc'' \<and>
      isAuthenticated (snd (login E cl email password s)) \<and>
      (storage_writable E \<longrightarrow> stored (snd (login E cl email password s)) = Some ''abc'')) \<and>
   (answer E (backend E (requests (auth_log s)) (post_request E cl (path, body))) = Some d \<and>
    getField d ''access_token'' = JUndef \<and> getField d ''token'' = JUndef \<and>
    getField d ''jwt'' = JUndef \<longrightarrow>
      login_loop E cl ((path, body) # rest) lastErr s =
        login_loop E cl rest (Some (newError ''Login response did not include a token.''))
          (s\<lparr>auth_log := auth_log s @ issued cl [post_request E cl (path, body)]\<rparr>)) \<and>
   (truthy (getField (JObj kvs) ''access_token'') \<longrightarrow>
      normalizeAuthResponse (JObj kvs) = getField (JObj kvs) ''access_token'') \<and>
   (\<not> truthy (getField (JObj kvs) ''access_token'') \<and> truthy (getField (JObj kvs) ''token'') \<longrightarrow>
      normalizeAuthResponse (JObj kvs) = getField (JObj kvs) ''token'') \<and>
   (\<not> truthy (getField (JObj kvs) ''access_token'') \<and> \<not> truthy (getField (JObj kvs) ''token'') \<and>
    truthy (getField (JObj kvs) ''jwt'') \<longrightarrow>
      normalizeAuthResponse (JObj kvs) = getField (JObj kvs) ''jwt'') \<and>
   (\<not> truthy (getField v ''access_token'') \<and> \<not> truthy (getField v ''token'') \<and>
    \<not> truthy (getField v ''jwt'') \<longrightarrow>
      normalizeAuthResponse v = JNull)"
proof (intro conjI impI)
  assume h: "login_candidates email password = pre @ c # post \<and>
    attempts E login_failure (requests (auth_log s)) (map (post_request E cl) pre) = Some es \<and>
    answer E (backend E (requests (auth_log s) @ map (post_request E cl) pre) (post_request E cl c)) =
      Some (JObj [(''access_token'', JStr ''abc'')])"
  let ?cl = "\<lparr>cl_getToken = Some (JStr ''abc''), cl_onLoading = False\<rparr>"
  let ?l1 = "auth_log s @ issued cl (map (post_request E cl) (pre @ [c]))"
  obtain me l2 where me: "bestEffortGetMe E ?cl ?l1 = (me, l2)"
    by (cases "bestEffortGetMe E ?cl ?l1") auto
  have r: "login E cl email password s =
      (Inr (JStr ''abc'', me),
       (setToken E (JStr ''abc'') s)\<lparr>token := JStr ''abc'', user := me, auth_log := l2\<rparr>)"
    using h me
      login_loop_success [of E s cl pre es c "JObj [(''access_token'', JStr ''abc'')]" post None]
    by (simp add: login_def normalizeAuthResponse_abc)
  show "\<exists>me. fst (login E cl email password s) = Inr (JStr ''abc'', me)"
    using r by simp
  show "token (snd (login E cl email password s)) = JStr ''abc''"
    using r by simp
  show "isAuthenticated (snd (login E cl email password s))"
    using r by (simp add: isAuthenticated_def)
  show "stored (snd (login E cl email password s)) = Some ''abc''" if "storage_writable E"
    using r that by (simp add: setToken_def)
next
  assume h: "answer E (backend E (requests (auth_log s)) (post_request E cl (path, body))) = Some d \<and>
    getField d ''access_token'' = JUndef \<and> getField d ''token'' = JUndef \<and>
    getField d ''jwt'' = JUndef"
  then have "failure E (backend E (requests (auth_log s)) (post_request E cl (path, body))) = None"
    by (simp add: failure_or_answer)
  then have "login_failure E (backend E (requests (auth_log s)) (post_request E cl (path, body))) =
      Some (newError ''Login response did not include a token.'')"
    using h by (simp add: login_failure_def normalizeAuthResponse_no_fields)
  then show "login_loop E cl ((path, body) # rest) lastErr s =
        login_loop E cl rest (Some (newError ''Login response did not include a token.''))
          (s\<lparr>auth_log := auth_log s @ issued cl [post_request E cl (path, body)]\<rparr>)"
    by (rule login_step_failure)
next
  assume "truthy (getField (JObj kvs) ''access_token'')"
  then show "normalizeAuthResponse (JObj kvs) = getField (JObj kvs) ''access_token''"
    by (simp add: normalizeAuthResponse_def)
next
  assume "\<not> truthy (getField (JObj kvs) ''access_token'') \<and> truthy (getField (JObj kvs) ''token'')"
  then show "normalizeAuthResponse (JObj kvs) = getField (JObj kvs) ''token''"
    by (simp add: normalizeAuthResponse_def)
next
  assume "\<not> truthy (getField (JObj kvs) ''access_token'') \<and> \<not> truthy (getField (JObj kvs) ''token'') \<and>
    truthy (getField (JObj kvs) ''jwt'')"
  then show "normalizeAuthResponse (JObj kvs) = getField (JObj kvs) ''jwt''"
    by (simp add: normalizeAuthResponse_def)
next
  assume "\<not> truthy (getField v ''access_token'') \<and> \<not> truthy (getField v ''token'') \<and>
    \<not> truthy (getField v ''jwt'')"
  then show "normalizeAuthResponse v = JNull"
    by (simp add: normalizeAuthResponse_def)
qed

theorem login_token_witness:
  "token (snd (login (sample_env (routes [(''/login'', Responded 200 ''{\"access_token\":\"abc\"}'')]))
                 auth_client ''a@b.c'' ''secret'' anonymous)) = JStr ''abc'' \<and>
   isAuthenticated
     (snd (login (sample_env (routes [(''/login'', Responded 200 ''{\"access_token\":\"abc\"}'')]))
             auth_client ''a@b.c'' ''secret'' anonymous)) \<and>
   stored (snd (login (sample_env (routes [(''/login'', Responded 200 ''{\"access_token\":\"abc\"}'')]))
                  auth_client ''a@b.c'' ''secret'' anonymous)) = Some ''abc'' \<and>
   normalizeAuthResponse (JObj [(''jwt'', JStr ''j''), (''token'', JStr ''t'')]) = JStr ''t''"
proof -
  let ?E = "sample_env (routes [(''/login'', Responded 200 ''{\"access_token\":\"abc\"}'')])"
  let ?c1 = "(''/auth/login'', JObj [(''email'', JStr ''a@b.c''), (''password'', JStr ''secret'')])"
  let ?c2 = "(''/login'', JObj [(''email'', JStr ''a@b.c''), (''password'', JStr ''secret'')])"
  let ?c3 = "(''/token'', JObj [(''username'', JStr ''a@b.c''), (''password'', JStr ''secret'')])"
  let ?e = "\<lparr>err_message = ''Request failed (404)'', err_status = Some 404, err_data = JNull\<rparr>"
  let ?kvs = "[(''jwt'', JStr ''j''), (''token'', JStr ''t'')]"
  note t = login_token [of "''a@b.c''" "''secret''" "[?c1]" ?c2 "[?c3]" ?E anonymous auth_client "[?e]"
      "[]" JNull JNull "[]" None ?kvs JNull]
  have a: "login_candidates ''a@b.c'' ''secret'' = [?c1] @ ?c2 # [?c3]"
    by (simp add: login_candidates_def)
  have b: "attempts ?E login_failure (requests (auth_log anonymous))
      (map (post_request ?E auth_client) [?c1]) = Some [?e]"
    by (simp add: sample_defs anonymous_def login_failure_def)
  have c: "answer ?E (backend ?E (requests (auth_log anonymous) @ map (post_request ?E auth_client) [?c1])
      (post_request ?E auth_client ?c2)) = Some (JObj [(''access_token'', JStr ''abc'')])"
    by (simp add: sample_defs anonymous_def)
  have d: "storage_writable ?E"
    by (simp add: sample_env_def)
  have e: "\<not> truthy (getField (JObj ?kvs) ''access_token'') \<and> truthy (getField (JObj ?kvs) ''token'')"
    by (simp add: getField_def)
  have f: "getField (JObj ?kvs) ''token'' = JStr ''t''"
    by (simp add: getField_def)
  show ?thesis
    using t a b c d e unfolding f by blast
qed

subsection \<open>Archiving a project\<close>

text \<open>
  Claim C7. For every archive action on a project: if the PATCH to \<^verbatim>\<open>archived\<close> fails, a
  DELETE of the project is attempted next; if the DELETE fails as well, exactly one error
  notification is pushed and the list of projects (and the selection) is unchanged.
\<close>

theorem archive_falls_back_to_delete:
  "(failure E (backend E (requests (log s))
      (build_request E cl PATCH (''/projects/'' @ toString (getField p ''id''))
         (with_body (JObj [(''status'', JStr ''archived'')])))) = Some e1 \<longrightarrow>
      requests (log (archiveOrDelete E cl p s)) =
        requests (log s) @
          [build_request E cl PATCH (''/projects/'' @ toString (getField p ''id''))
             (with_body (JObj [(''status'', JStr ''archived'')])),
           build_request E cl DELETE (''/projects/'' @ toString (getField p ''id'')) no_opts]) \<and>
   (failure E (backend E (requests (log s))
      (build_request E cl PATCH (''/projects/'' @ toString (getField p ''id''))
         (with_body (JObj [(''status'', JStr ''archived'')])))) = Some e1 \<and>
    failure E (backend E
      (requests (log s) @
         [build_request E cl PATCH (''/projects/'' @ toString (getField p ''id''))
            (with_body (JObj [(''status'', JStr ''archived'')]))])
      (build_request E cl DELETE (''/projects/'' @ toString (getField p ''id'')) no_opts)) = Some e2 \<longrightarrow>
      toasts (archiveOrDelete E cl p s) =
        \<lparr>toast_id = toastId s + 1, toast_type = ''error'', toast_title = ''Action failed'',
         toast_description = err_message e2, toast_timeoutMs = 4500\<rparr> # toasts s \<and>
      projects (archiveOrDelete E cl p s) = projects s \<and>
      selected (archiveOrDelete E cl p s) = selected s)"
proof -
  let ?path = "''/projects/'' @ toString (getField p ''id'')"
  let ?R1 = "build_request E cl PATCH ?path (with_body (JObj [(''status'', JStr ''archived'')]))"
  let ?R2 = "build_request E cl DELETE ?path no_opts"
  let ?s1 = "s\<lparr>log := log s @ issued cl [?R1]\<rparr>"
  let ?s2 = "?s1\<lparr>log := log ?s1 @ issued cl [?R2]\<rparr>"
  have h1: "requests (log ?s1) = requests (log s) @ [?R1]"
    by (simp add: requests_append requests_onLoading)
  have first: "api E cl PATCH ?path (with_body (JObj [(''status'', JStr ''archived'')])) s = (Inl e1, ?s1)"
    if "failure E (backend E (requests (log s)) ?R1) = Some e1"
    using that by (rule api_failure)
  have second_log: "log (snd (api E cl DELETE ?path no_opts ?s1)) = log ?s2"
    by (simp add: api_def case_prod_beta request_log)
  have a: "requests (log (archiveOrDelete E cl p s)) = requests (log s) @ [?R1, ?R2]"
    if f1: "failure E (backend E (requests (log s)) ?R1) = Some e1"
  proof (cases "api E cl DELETE ?path no_opts ?s1")
    case (Pair r s2)
    then have l: "log s2 = log ?s2"
      using second_log by simp
    show ?thesis
      using first [OF f1] Pair l
      by (cases r)
        (simp_all add: archiveOrDelete_def pushToast_def Let_def requests_append
          requests_onLoading)
  qed
  have b: "archiveOrDelete E cl p s =
      pushToast (notice_with ''error'' ''Action failed'' (err_message e2)) ?s2"
    if f1: "failure E (backend E (requests (log s)) ?R1) = Some e1"
      and f2: "failure E (backend E (requests (log s) @ [?R1]) ?R2) = Some e2"
  proof -
    have "failure E (backend E (requests (log ?s1)) ?R2) = Some e2"
      using f2 h1 by simp
    then have "api E cl DELETE ?path no_opts ?s1 = (Inl e2, ?s2)"
      by (rule api_failure)
    then show ?thesis
      using first [OF f1] by (simp add: archiveOrDelete_def)
  qed
  show ?thesis
  proof (intro conjI impI)
    assume "failure E (backend E (requests (log s)) ?R1) = Some e1"
    then show "requests (log (archiveOrDelete E cl p s)) = requests (log s) @ [?R1, ?R2]"
      by (rule a)
  next
    assume h: "failure E (backend E (requests (log s)) ?R1) = Some e1 \<and>
      failure E (backend E (requests (log s) @ [?R1]) ?R2) = Some e2"
    then have r: "archiveOrDelete E cl p s =
        pushToast (notice_with ''error'' ''Action failed'' (err_message e2)) ?s2"
      using b by blast
    show "toasts (archiveOrDelete E cl p s) =
        \<lparr>toast_id = toastId s + 1, toast_type = ''error'', toast_title = ''Action failed'',
         toast_description = err_message e2, toast_timeoutMs = 4500\<rparr> # toasts s"
      unfolding r by (simp add: pushToast_def notice_with_def str_or_def)
    show "projects (archiveOrDelete E cl p s) = projects s"
      unfolding r by (simp add: pushToast_def)
    show "selected (archiveOrDelete E cl p s) = selected s"
      unfolding r by (simp add: pushToast_def)
  qed
qed


theorem archive_falls_back_to_delete_witness:
  "map req_method (requests (log (archiveOrDelete (sample_env (routes [])) page_client
      (JObj [(''id'', JNum 7), (''status'', JStr ''active'')])
      (empty_projects\<lparr>projects := [JObj [(''id'', JNum 7), (''status'', JStr ''active'')]]\<rparr>)))) =
     [PATCH, DELETE] \<and>
   map req_url (requests (log (archiveOrDelete (sample_env (routes [])) page_client
      (JObj [(''id'', JNum 7), (''status'', JStr ''active'')])
      (empty_projects\<lparr>projects := [JObj [(''id'', JNum 7), (''status'', JStr ''active'')]]\<rparr>)))) =
     [''/projects/7'', ''/projects/7''] \<and>
   toasts (archiveOrDelete (sample_env (routes [])) page_client
      (JObj [(''id'', JNum 7), (''status'', JStr ''active'')])
      (empty_projects\<lparr>projects := [JObj [(''id'', JNum 7), (''status'', JStr ''active'')]]\<rparr>)) =
     [\<lparr>toast_id = 1, toast_type = ''error'', toast_title = ''Action failed'',
       toast_description = ''Request failed (404)'', toast_timeoutMs = 4500\<rparr>] \<and>
   projects (archiveOrDelete (sample_env (routes [])) page_client
      (JObj [(''id'', JNum 7), (''status'', JStr ''active'')])
      (empty_projects\<lparr>projects := [JObj [(''id'', JNum 7), (''status'', JStr ''active'')]]\<rparr>)) =
     [JObj [(''id'', JNum 7), (''status'', JStr ''active'')]]"
proof -
  let ?E = "sample_env (routes [])"
  let ?p = "JObj [(''id'', JNum 7), (''status'', JStr ''active'')]"
  let ?s = "empty_projects\<lparr>projects := [?p]\<rparr>"
  let ?e = "\<lparr>err_message = ''Request failed (404)'', err_status = Some 404, err_data = JNull\<rparr>"
  let ?path = "''/projects/'' @ toString (getField ?p ''id'')"
  let ?R1 = "build_request ?E page_client PATCH ?path (with_body (JObj [(''status'', JStr ''archived'')]))"
  let ?R2 = "build_request ?E page_client DELETE ?path no_opts"
  have d7: "decimal 7 = ''7''"
    by code_simp
  have f1: "failure ?E (backend ?E (requests (log ?s)) ?R1) = Some ?e"
    by (simp add: sample_env_def routes_def safeJsonParse_def res_ok_def errorMessage_priority
        getField_def decimal_404)
  have f2: "failure ?E (backend ?E (requests (log ?s) @ [?R1]) ?R2) = Some ?e"
    by (simp add: sample_env_def routes_def safeJsonParse_def res_ok_def errorMessage_priority
        getField_def decimal_404)
  note t = archive_falls_back_to_delete [of ?E ?s page_client ?p ?e ?e]
  have a: "requests (log (archiveOrDelete ?E page_client ?p ?s)) = requests (log ?s) @ [?R1, ?R2]"
    using t f1 by blast
  have b: "toasts (archiveOrDelete ?E page_client ?p ?s) =
      \<lparr>toast_id = toastId ?s + 1, toast_type = ''error'', toast_title = ''Action failed'',
       toast_description = err_message ?e, toast_timeoutMs = 4500\<rparr> # toasts ?s"
    using t f1 f2 by blast
  have c: "projects (archiveOrDelete ?E page_client ?p ?s) = projects ?s"
    using t f1 f2 by blast
  show ?thesis
    unfolding a b c
    by (simp add: empty_projects_def build_request_def sample_env_def joinUrl_def getField_def d7)
qed

subsection \<open>Validation of a project\<close>

lemma length_trim: "length (trim s) \<le> length s"
proof -
  have "length (dropWhile js_space (rev (dropWhile js_space s))) \<le>
      length (rev (dropWhile js_space s))"
    by (rule length_dropWhile_le)
  also have "\<dots> \<le> length s"
    by (simp add: length_dropWhile_le)
  finally show ?thesis
    by (simp add: trim_def)
qed

lemma trim_Q2: "trim ''Q2'' = ''Q2''"
  by (simp add: trim_def js_space_def)

lemma validateProject_trimmed:
  "(validateProject f = []) = (2 \<le> length (trim (form_name f)))"
proof (cases "form_name f = []")
  case True
  then show ?thesis
    by (simp add: validateProject_def trim_def)
next
  case False
  then show ?thesis
    by (auto simp add: validateProject_def)
qed

text \<open>
  Claim C8, amended. For every submission that creates or updates a project, the
  validation runs before any network call. A name passes exactly when it has at least two
  characters after the white space around it is trimmed, as \<^verbatim>\<open>Q2\<close> has. Every name of length
  1 and the empty name fail. A failed validation attaches the message for the field
  \<^verbatim>\<open>name\<close> to the state and issues no network call; a passed one clears the field errors
  and issues the one call of the submission.
\<close>

theorem project_validation:
  "(validateProject f = []) = (2 \<le> length (trim (form_name f))) \<and>
   validateProject (f\<lparr>form_name := ''Q2''\<rparr>) = [] \<and>
   (length (form_name f) < 2 \<longrightarrow>
      validateProject f = [(''name'', ''Name must be at least 2 characters.'')]) \<and>
   (validateProject (form s) \<noteq> [] \<longrightarrow>
      save E cl s = s\<lparr>errors := [(''name'', ''Name must be at least 2 characters.'')]\<rparr>) \<and>
   (validateProject (form s) = [] \<and> mode s = ModeCreate \<longrightarrow>
      errors (save E cl s) = [] \<and>
      requests (log (save E cl s)) =
        requests (log s) @
          [build_request E cl POST ''/projects'' (with_body (form_json (form s)))]) \<and>
   (validateProject (form s) = [] \<and> mode s = ModeEdit \<and>
    not_nullish (getField (selected s) ''id'') \<longrightarrow>
      errors (save E cl s) = [] \<and>
      requests (log (save E cl s)) =
        requests (log s) @
          [build_request E cl PUT (''/projects/'' @ toString (getField (selected s) ''id''))
             (with_body (form_json (form s)))])"
proof (intro conjI impI)
  show "(validateProject f = []) = (2 \<le> length (trim (form_name f)))"
    by (rule validateProject_trimmed)
  show "validateProject (f\<lparr>form_name := ''Q2''\<rparr>) = []"
    by (simp add: validateProject_trimmed trim_Q2)
next
  assume "length (form_name f) < 2"
  then have "length (trim (form_name f)) < 2"
    using length_trim [of "form_name f"] by simp
  then show "validateProject f = [(''name'', ''Name must be at least 2 characters.'')]"
    by (simp add: validateProject_def)
next
  assume h: "validateProject (form s) \<noteq> []"
  then have "validateProject (form s) = [(''name'', ''Name must be at least 2 characters.'')]"
    by (simp add: validateProject_def split: if_splits)
  then show "save E cl s = s\<lparr>errors := [(''name'', ''Name must be at least 2 characters.'')]\<rparr>"
    by (simp add: save_def)
next
  assume h: "validateProject (form s) = [] \<and> mode s = ModeCreate"
  let ?s1 = "s\<lparr>errors := []\<rparr>"
  let ?R = "build_request E cl POST ''/projects'' (with_body (form_json (form s)))"
  obtain r s2 where a: "api E cl POST ''/projects'' (with_body (form_json (form s))) ?s1 = (r, s2)"
    by (cases "api E cl POST ''/projects'' (with_body (form_json (form s))) ?s1") auto
  then have s2: "s2 = ?s1\<lparr>log := log s @ onLoading cl True @ [Fetch ?R] @ onLoading cl False\<rparr>"
    using request_log [of E cl POST "''/projects''" "with_body (form_json (form s))" "log s"]
    by (auto simp add: api_def case_prod_beta)
  show "errors (save E cl s) = []"
    using h a s2 by (cases r) (simp_all add: save_def pushToast_def)
  show "requests (log (save E cl s)) = requests (log s) @ [?R]"
    using h a s2
    by (cases r) (simp_all add: save_def pushToast_def requests_append requests_onLoading)
next
  assume h: "validateProject (form s) = [] \<and> mode s = ModeEdit \<and>
    not_nullish (getField (selected s) ''id'')"
  let ?s1 = "s\<lparr>errors := []\<rparr>"
  let ?path = "''/projects/'' @ toString (getField (selected s) ''id'')"
  let ?R = "build_request E cl PUT ?path (with_body (form_json (form s)))"
  obtain r s2 where a: "api E cl PUT ?path (with_body (form_json (form s))) ?s1 = (r, s2)"
    by (cases "api E cl PUT ?path (with_body (form_json (form s))) ?s1") auto
  then have s2: "s2 = ?s1\<lparr>log := log s @ onLoading cl True @ [Fetch ?R] @ onLoading cl False\<rparr>"
    using request_log [of E cl PUT ?path "with_body (form_json (form s))" "log s"]
    by (auto simp add: api_def case_prod_beta)
  show "errors (save E cl s) = []"
    using h a s2 by (cases r) (simp_all add: save_def pushToast_def)
  show "requests (log (save E cl s)) = requests (log s) @ [?R]"
    using h a s2
    by (cases r) (simp_all add: save_def pushToast_def requests_append requests_onLoading)
qed

theorem project_validation_witness:
  "validateProject \<lparr>form_name = ''Q'', form_description = [], form_status = ''active''\<rparr> =
     [(''name'', ''Name must be at least 2 characters.'')] \<and>
   save (sample_env (routes [(''/projects'', Responded 201 ''{\"id\":7}'')])) page_client
     (empty_projects\<lparr>mode := ModeCreate\<rparr>) =
     empty_projects\<lparr>mode := ModeCreate,
       errors := [(''name'', ''Name must be at least 2 characters.'')]\<rparr> \<and>
   map req_url (requests (log
     (save (sample_env (routes [(''/projects'', Responded 201 ''{\"id\":7}'')])) page_client
        (empty_projects\<lparr>mode := ModeCreate,
           form := \<lparr>form_name = ''Q2'', form_description = [], form_status = ''active''\<rparr>\<rparr>)))) =
     [''/projects'']"
proof -
  let ?E = "sample_env (routes [(''/projects'', Responded 201 ''{\"id\":7}'')])"
  let ?q = "\<lparr>form_name = ''Q'', form_description = [], form_status = ''active''\<rparr>"
  let ?q2 = "\<lparr>form_name = ''Q2'', form_description = [], form_status = ''active''\<rparr>"
  let ?s = "empty_projects\<lparr>mode := ModeCreate\<rparr>"
  let ?s2 = "empty_projects\<lparr>mode := ModeCreate, form := ?q2\<rparr>"
  have a: "validateProject ?q = [(''name'', ''Name must be at least 2 characters.'')]"
    using project_validation [of ?q ?s ?E page_client] by simp
  have "validateProject (form ?s) \<noteq> []"
    by (simp add: validateProject_def empty_projects_def)
  then have b: "save ?E page_client ?s =
      ?s\<lparr>errors := [(''name'', ''Name must be at least 2 characters.'')]\<rparr>"
    using project_validation [of ?q ?s ?E page_client] by blast
  have "validateProject (form ?s2) = [] \<and> mode ?s2 = ModeCreate"
    using project_validation [of ?q ?s2 ?E page_client] by simp
  then have c: "requests (log (save ?E page_client ?s2)) =
      requests (log ?s2) @
        [build_request ?E page_client POST ''/projects'' (with_body (form_json (form ?s2)))]"
    using project_validation [of ?q ?s2 ?E page_client] by blast
  show ?thesis
    unfolding a b c
    by (simp add: empty_projects_def build_request_def sample_env_def joinUrl_def)
qed

text \<open>
  The claim as worded fails for a name of length 2 made of two blanks: it is trimmed to the
  empty string and rejected.
\<close>

theorem project_validation_counterexample:
  "length (form_name \<lparr>form_name = ''  '', form_description = [], form_status = ''active''\<rparr>) = 2 \<and>
   validateProject \<lparr>form_name = ''  '', form_description = [], form_status = ''active''\<rparr> =
     [(''name'', ''Name must be at least 2 characters.'')]"
  by (simp add: validateProject_def trim_def js_space_def)

subsection \<open>The loading indicator\<close>









subsection \<open>The remaining candidate loops\<close>

lemma read_loop_success:
  assumes "attempts E failure (requests (log s)) (map (get_request E cl) pre) = Some es"
    and "answer E (backend E (requests (log s) @ map (get_request E cl) pre) (get_request E cl c)) = Some d"
  shows "read_loop E cl (pre @ c # post) le s =
     (Inr d, s\<lparr>log := log s @ issued cl (map (get_request E cl) (pre @ [c]))\<rparr>)"
  using assms
proof (induction pre arbitrary: s le es)
  case Nil
  then show ?case
    by (simp add: get_request_def api_answer)
next
  case (Cons p ps)
  from Cons.prems(1) obtain e es' where e: "failure E (backend E (requests (log s)) (get_request E cl p)) = Some e"
    and es': "attempts E failure (requests (log s) @ [get_request E cl p]) (map (get_request E cl) ps) = Some es'"
    by (auto split: option.splits)
  let ?s1 = "s\<lparr>log := log s @ issued cl [get_request E cl p]\<rparr>"
  have step: "api E cl GET p no_opts s = (Inl e, ?s1)"
    using e by (simp add: get_request_def api_failure)
  have h: "requests (log ?s1) = requests (log s) @ [get_request E cl p]"
    by (simp add: requests_append requests_onLoading)
  have "read_loop E cl (ps @ c # post) (Some e) ?s1 =
     (Inr d, ?s1\<lparr>log := log ?s1 @ issued cl (map (get_request E cl) (ps @ [c]))\<rparr>)"
    using Cons.IH [of ?s1 es' "Some e"] es' Cons.prems(2) h by simp
  then show ?case
    using step by simp
qed

lemma read_loop_failure:
  assumes "attempts E failure (requests (log s)) (map (get_request E cl) cands) = Some es"
  shows "read_loop E cl cands le s =
     (Inl (if es = [] then le else Some (last es)),
      s\<lparr>log := log s @ issued cl (map (get_request E cl) cands)\<rparr>)"
  using assms
proof (induction cands arbitrary: s le es)
  case Nil
  then show ?case by simp
next
  case (Cons p ps)
  from Cons.prems(1) obtain e es' where e: "failure E (backend E (requests (log s)) (get_request E cl p)) = Some e"
    and es': "attempts E failure (requests (log s) @ [get_request E cl p]) (map (get_request E cl) ps) = Some es'"
    and es: "es = e # es'"
    by (auto split: option.splits)
  let ?s1 = "s\<lparr>log := log s @ issued cl [get_request E cl p]\<rparr>"
  have step: "api E cl GET p no_opts s = (Inl e, ?s1)"
    using e by (simp add: get_request_def api_failure)
  have h: "requests (log ?s1) = requests (log s) @ [get_request E cl p]"
    by (simp add: requests_append requests_onLoading)
  have "read_loop E cl ps (Some e) ?s1 =
     (Inl (if es' = [] then Some e else Some (last es')),
      ?s1\<lparr>log := log ?s1 @ issued cl (map (get_request E cl) ps)\<rparr>)"
    using Cons.IH [of ?s1 es' "Some e"] es' h by simp
  then show ?case
    using step es by simp
qed

lemma ok_loop_stop:
  assumes "attempts E failure (requests (log s)) (map (write_request E cl) pre) = Some es"
    and "answer E (backend E (requests (log s) @ map (write_request E cl) pre)
           (write_request E cl c)) = Some d"
  shows "ok_loop E cl (pre @ c # post) ok le s =
     ((True, if es = [] then le else Some (last es)),
      s\<lparr>log := log s @ issued cl (map (write_request E cl) (pre @ [c]))\<rparr>)"
  using assms
proof (induction pre arbitrary: s le es)
  case Nil
  obtain m path body where c: "c = (m, path, body)"
    by (cases c) auto
  from Nil show ?case
    by (simp add: c write_request_def api_answer)
next
  case (Cons p ps)
  obtain m path body where p: "p = (m, path, body)"
    by (cases p) auto
  from Cons.prems(1) obtain e es' where e: "failure E (backend E (requests (log s)) (write_request E cl p)) = Some e"
    and es': "attempts E failure (requests (log s) @ [write_request E cl p]) (map (write_request E cl) ps) = Some es'"
    and es: "es = e # es'"
    by (auto split: option.splits)
  let ?s1 = "s\<lparr>log := log s @ issued cl [write_request E cl p]\<rparr>"
  have step: "api E cl m path (with_body body) s = (Inl e, ?s1)"
    using e by (simp add: p write_request_def api_failure)
  have h: "requests (log ?s1) = requests (log s) @ [write_request E cl p]"
    by (simp add: requests_append requests_onLoading)
  have "ok_loop E cl (ps @ c # post) ok (Some e) ?s1 =
     ((True, if es' = [] then Some e else Some (last es')),
      ?s1\<lparr>log := log ?s1 @ issued cl (map (write_request E cl) (ps @ [c]))\<rparr>)"
    using Cons.IH [of ?s1 es' "Some e"] es' Cons.prems(2) h by simp
  then show ?case
    using step es by (simp add: p)
qed

lemma ok_loop_failure:
  assumes "attempts E failure (requests (log s)) (map (write_request E cl) cands) = Some es"
  shows "ok_loop E cl cands ok le s =
     ((ok, if es = [] then le else Some (last es)),
      s\<lparr>log := log s @ issued cl (map (write_request E cl) cands)\<rparr>)"
  using assms
proof (induction cands arbitrary: s le es)
  case Nil
  then show ?case by simp
next
  case (Cons p ps)
  obtain m path body where p: "p = (m, path, body)"
    by (cases p) auto
  from Cons.prems(1) obtain e es' where e: "failure E (backend E (requests (log s)) (write_request E cl p)) = Some e"
    and es': "attempts E failure (requests (log s) @ [write_request E cl p]) (map (write_request E cl) ps) = Some es'"
    and es: "es = e # es'"
    by (auto split: option.splits)
  let ?s1 = "s\<lparr>log := log s @ issued cl [write_request E cl p]\<rparr>"
  have step: "api E cl m path (with_body body) s = (Inl e, ?s1)"
    using e by (simp add: p write_request_def api_failure)
  have h: "requests (log ?s1) = requests (log s) @ [write_request E cl p]"
    by (simp add: requests_append requests_onLoading)
  have "ok_loop E cl ps ok (Some e) ?s1 =
     ((ok, if es' = [] then Some e else Some (last es')),
      ?s1\<lparr>log := log ?s1 @ issued cl (map (write_request E cl) ps)\<rparr>)"
    using Cons.IH [of ?s1 es' "Some e"] es' h by simp
  then show ?case
    using step es by (simp add: p)
qed

lemma perms_loop_step:
  assumes "perms_passes E (backend E (requests (log s)) (get_request E cl p))"
  shows "perms_loop E cl (p # rest) s =
     perms_loop E cl rest (s\<lparr>log := log s @ issued cl [get_request E cl p]\<rparr>)"
proof (cases "failure E (backend E (requests (log s)) (get_request E cl p))")
  case (Some e)
  then show ?thesis
    by (simp add: get_request_def api_failure)
next
  case None
  then obtain d where d: "answer E (backend E (requests (log s)) (get_request E cl p)) = Some d"
    by (auto simp add: failure_or_answer)
  then have "role_perms d = None"
    using assms by (simp add: perms_passes_def)
  then show ?thesis
    using d by (simp add: get_request_def api_answer)
qed

lemma perms_loop_success:
  assumes "rejected E perms_passes (requests (log s)) (map (get_request E cl) pre)"
    and "answer E (backend E (requests (log s) @ map (get_request E cl) pre) (get_request E cl c)) = Some d"
    and "role_perms d = Some next"
  shows "perms_loop E cl (pre @ c # post) s =
     s\<lparr>log := log s @ issued cl (map (get_request E cl) (pre @ [c])), rolePerms := next\<rparr>"
  using assms
proof (induction pre arbitrary: s)
  case Nil
  then show ?case
    by (simp add: get_request_def api_answer)
next
  case (Cons p ps)
  let ?s1 = "s\<lparr>log := log s @ issued cl [get_request E cl p]\<rparr>"
  have h: "requests (log ?s1) = requests (log s) @ [get_request E cl p]"
    by (simp add: requests_append requests_onLoading)
  have "perms_loop E cl (ps @ c # post) ?s1 =
     ?s1\<lparr>log := log ?s1 @ issued cl (map (get_request E cl) (ps @ [c])), rolePerms := next\<rparr>"
    using Cons.IH [of ?s1] Cons.prems h by simp
  then show ?case
    using perms_loop_step [of E s cl p "ps @ c # post"] Cons.prems(1) by simp
qed

lemma perms_loop_failure:
  assumes "rejected E perms_passes (requests (log s)) (map (get_request E cl) cands)"
  shows "perms_loop E cl cands s =
     s\<lparr>log := log s @ issued cl (map (get_request E cl) cands)\<rparr>"
  using assms
proof (induction cands arbitrary: s)
  case Nil
  then show ?case by simp
next
  case (Cons p ps)
  let ?s1 = "s\<lparr>log := log s @ issued cl [get_request E cl p]\<rparr>"
  have h: "requests (log ?s1) = requests (log s) @ [get_request E cl p]"
    by (simp add: requests_append requests_onLoading)
  have "perms_loop E cl ps ?s1 = ?s1\<lparr>log := log ?s1 @ issued cl (map (get_request E cl) ps)\<rparr>"
    using Cons.IH [of ?s1] Cons.prems h by simp
  then show ?case
    using perms_loop_step [of E s cl p ps] Cons.prems(1) by simp
qed

lemma getMe_loop_step:
  assumes "me_passes E (backend E (requests l) (get_request E cl p))"
  shows "getMe_loop E cl (p # rest) l = getMe_loop E cl rest (l @ issued cl [get_request E cl p])"
proof (cases "failure E (backend E (requests l) (get_request E cl p))")
  case (Some e)
  then show ?thesis
    using request_failure [of E l cl GET p no_opts e] by (simp add: get_request_def)
next
  case None
  then obtain d where d: "answer E (backend E (requests l) (get_request E cl p)) = Some d"
    by (auto simp add: failure_or_answer)
  then have "\<not> truthy d"
    using assms by (simp add: me_passes_def)
  then show ?thesis
    using d request_answer [of E l cl GET p no_opts d] by (simp add: get_request_def)
qed

lemma getMe_loop_success:
  assumes "rejected E me_passes (requests l) (map (get_request E cl) pre)"
    and "answer E (backend E (requests l @ map (get_request E cl) pre) (get_request E cl c)) = Some d"
    and "truthy d"
  shows "getMe_loop E cl (pre @ c # post) l = (d, l @ issued cl (map (get_request E cl) (pre @ [c])))"
  using assms
proof (induction pre arbitrary: l)
  case Nil
  then show ?case
    using request_answer [of E l cl GET c no_opts d] by (simp add: get_request_def)
next
  case (Cons p ps)
  let ?l1 = "l @ issued cl [get_request E cl p]"
  have h: "requests ?l1 = requests l @ [get_request E cl p]"
    by (simp add: requests_append requests_onLoading)
  have "getMe_loop E cl (ps @ c # post) ?l1 =
      (d, ?l1 @ issued cl (map (get_request E cl) (ps @ [c])))"
    using Cons.IH [of ?l1] Cons.prems h by simp
  then show ?case
    using getMe_loop_step [of E l cl p "ps @ c # post"] Cons.prems(1) by simp
qed

lemma getMe_loop_failure:
  assumes "rejected E me_passes (requests l) (map (get_request E cl) cands)"
  shows "getMe_loop E cl cands l = (JNull, l @ issued cl (map (get_request E cl) cands))"
  using assms
proof (induction cands arbitrary: l)
  case Nil
  then show ?case by simp
next
  case (Cons p ps)
  let ?l1 = "l @ issued cl [get_request E cl p]"
  have h: "requests ?l1 = requests l @ [get_request E cl p]"
    by (simp add: requests_append requests_onLoading)
  have "getMe_loop E cl ps ?l1 = (JNull, ?l1 @ issued cl (map (get_request E cl) ps))"
    using Cons.IH [of ?l1] Cons.prems h by simp
  then show ?case
    using getMe_loop_step [of E l cl p ps] Cons.prems(1) by simp
qed

lemma register_loop_success:
  assumes "attempts E failure (requests (auth_log s)) (map (post_request E cl) pre) = Some es"
    and "answer E (backend E (requests (auth_log s) @ map (post_request E cl) pre)
           (post_request E cl c)) = Some d"
  shows "register_loop E cl (pre @ c # post) le s =
     (if truthy (normalizeAuthResponse d)
      then (case bestEffortGetMe E \<lparr>cl_getToken = Some (normalizeAuthResponse d), cl_onLoading = False\<rparr>
                   (auth_log s @ issued cl (map (post_request E cl) (pre @ [c]))) of
              (me, l2) \<Rightarrow>
                (Inr (normalizeAuthResponse d, JNull),
                 (setToken E (normalizeAuthResponse d) s)
                   \<lparr>token := normalizeAuthResponse d, user := me, auth_log := l2\<rparr>))
      else (Inr (JNull, JNull),
            s\<lparr>auth_log := auth_log s @ issued cl (map (post_request E cl) (pre @ [c]))\<rparr>))"
  using assms
proof (induction pre arbitrary: s le es)
  case Nil
  obtain path body where c: "c = (path, body)"
    by (cases c) auto
  from Nil show ?case
    using request_answer [of E "auth_log s" cl POST path "with_body body" d]
    by (simp add: c post_request_def setToken_def Let_def split: prod.splits)
next
  case (Cons p ps)
  obtain path body where p: "p = (path, body)"
    by (cases p) auto
  from Cons.prems(1) obtain e es' where e: "failure E (backend E (requests (auth_log s)) (post_request E cl p)) = Some e"
    and es': "attempts E failure (requests (auth_log s) @ [post_request E cl p]) (map (post_request E cl) ps) = Some es'"
    by (auto split: option.splits)
  let ?s1 = "s\<lparr>auth_log := auth_log s @ issued cl [post_request E cl p]\<rparr>"
  have h: "requests (auth_log ?s1) = requests (auth_log s) @ [post_request E cl p]"
    by (simp add: requests_append requests_onLoading)
  have step: "register_loop E cl (p # ps @ c # post) le s =
      register_loop E cl (ps @ c # post) (Some e) ?s1"
    using e request_failure [of E "auth_log s" cl POST path "with_body body" e]
    by (simp add: p post_request_def)
  have "register_loop E cl (ps @ c # post) (Some e) ?s1 =
     (if truthy (normalizeAuthResponse d)
      then (case bestEffortGetMe E \<lparr>cl_getToken = Some (normalizeAuthResponse d), cl_onLoading = False\<rparr>
                   (auth_log ?s1 @ issued cl (map (post_request E cl) (ps @ [c]))) of
              (me, l2) \<Rightarrow>
                (Inr (normalizeAuthResponse d, JNull),
                 (setToken E (normalizeAuthResponse d) ?s1)
                   \<lparr>token := normalizeAuthResponse d, user := me, auth_log := l2\<rparr>))
      else (Inr (JNull, JNull),
            ?s1\<lparr>auth_log := auth_log ?s1 @ issued cl (map (post_request E cl) (ps @ [c]))\<rparr>))"
    using Cons.IH [of ?s1 es' "Some e"] es' Cons.prems(2) h by simp
  then show ?case
    using step by (simp add: setToken_def split: prod.splits)
qed

lemma register_loop_failure:
  assumes "attempts E failure (requests (auth_log s)) (map (post_request E cl) cands) = Some es"
  shows "register_loop E cl cands le s =
     (Inl (if es = [] then (case le of Some e \<Rightarrow> e | None \<Rightarrow> newError ''Registration failed.'')
           else last es),
      s\<lparr>auth_log := auth_log s @ issued cl (map (post_request E cl) cands)\<rparr>)"
  using assms
proof (induction cands arbitrary: s le es)
  case Nil
  then show ?case by simp
next
  case (Cons p ps)
  obtain path body where p: "p = (path, body)"
    by (cases p) auto
  from Cons.prems(1) obtain e es' where e: "failure E (backend E (requests (auth_log s)) (post_request E cl p)) = Some e"
    and es': "attempts E failure (requests (auth_log s) @ [post_request E cl p]) (map (post_request E cl) ps) = Some es'"
    and es: "es = e # es'"
    by (auto split: option.splits)
  let ?s1 = "s\<lparr>auth_log := auth_log s @ issued cl [post_request E cl p]\<rparr>"
  have h: "requests (auth_log ?s1) = requests (auth_log s) @ [post_request E cl p]"
    by (simp add: requests_append requests_onLoading)
  have step: "register_loop E cl (p # ps) le s = register_loop E cl ps (Some e) ?s1"
    using e request_failure [of E "auth_log s" cl POST path "with_body body" e]
    by (simp add: p post_request_def)
  have "register_loop E cl ps (Some e) ?s1 =
     (Inl (if es' = [] then e else last es'),
      ?s1\<lparr>auth_log := auth_log ?s1 @ issued cl (map (post_request E cl) ps)\<rparr>)"
    using Cons.IH [of ?s1 es' "Some e"] es' h by simp
  then show ?case
    using step es by simp
qed

lemma archive_patch_ok:
  assumes "answer E (backend E (requests (log s))
      (build_request E cl PATCH (''/projects/'' @ toString (getField p ''id''))
         (with_body (JObj [(''status'', JStr ''archived'')])))) = Some d"
  shows "archiveOrDelete E cl p s =
     (pushToast (notice ''success'' ''Project archived'')
        (s\<lparr>log := log s @ issued cl
            [build_request E cl PATCH (''/projects/'' @ toString (getField p ''id''))
               (with_body (JObj [(''status'', JStr ''archived'')]))]\<rparr>))
       \<lparr>projects :=
          map (\<lambda>x. if strict_eq (getField x ''id'') (getField p ''id'')
                   then with_status_archived x else x) (projects s)\<rparr>"
  using api_answer [OF assms] by (simp add: archiveOrDelete_def pushToast_def Let_def)

lemma archive_delete_ok:
  assumes "failure E (backend E (requests (log s))
      (build_request E cl PATCH (''/projects/'' @ toString (getField p ''id''))
         (with_body (JObj [(''status'', JStr ''archived'')])))) = Some e1"
    and "answer E (backend E
      (requests (log s) @
         [build_request E cl PATCH (''/projects/'' @ toString (getField p ''id''))
            (with_body (JObj [(''status'', JStr ''archived'')]))])
      (build_request E cl DELETE (''/projects/'' @ toString (getField p ''id'')) no_opts)) = Some d"
  shows "archiveOrDelete E cl p s =
     (pushToast (notice ''success'' ''Project deleted'')
        (s\<lparr>log := log s @ issued cl
            [build_request E cl PATCH (''/projects/'' @ toString (getField p ''id''))
               (with_body (JObj [(''status'', JStr ''archived'')])),
             build_request E cl DELETE (''/projects/'' @ toString (getField p ''id'')) no_opts]\<rparr>))
       \<lparr>projects :=
          filter (\<lambda>x. \<not> strict_eq (getField x ''id'') (getField p ''id'')) (projects s),
        selected :=
          (if strict_eq (getField (selected s) ''id'') (getField p ''id'') then JNull
           else selected s)\<rparr>"
proof -
  let ?path = "''/projects/'' @ toString (getField p ''id'')"
  let ?R1 = "build_request E cl PATCH ?path (with_body (JObj [(''status'', JStr ''archived'')]))"
  let ?R2 = "build_request E cl DELETE ?path no_opts"
  let ?s1 = "s\<lparr>log := log s @ issued cl [?R1]\<rparr>"
  have first: "api E cl PATCH ?path (with_body (JObj [(''status'', JStr ''archived'')])) s = (Inl e1, ?s1)"
    using assms(1) by (rule api_failure)
  have "answer E (backend E (requests (log ?s1)) ?R2) = Some d"
    using assms(2) by (simp add: requests_append requests_onLoading)
  then have second: "api E cl DELETE ?path no_opts ?s1 =
      (Inr d, ?s1\<lparr>log := log ?s1 @ issued cl [?R2]\<rparr>)"
    by (rule api_answer)
  show ?thesis
    using first second by (simp add: archiveOrDelete_def pushToast_def Let_def)
qed

lemma archive_both_fail:
  assumes "failure E (backend E (requests (log s))
      (build_request E cl PATCH (''/projects/'' @ toString (getField p ''id''))
         (with_body (JObj [(''status'', JStr ''archived'')])))) = Some e1"
    and "failure E (backend E
      (requests (log s) @
         [build_request E cl PATCH (''/projects/'' @ toString (getField p ''id''))
            (with_body (JObj [(''status'', JStr ''archived'')]))])
      (build_request E cl DELETE (''/projects/'' @ toString (getField p ''id'')) no_opts)) = Some e2"
  shows "archiveOrDelete E cl p s =
     pushToast (notice_with ''error'' ''Action failed'' (err_message e2))
       (s\<lparr>log := log s @ issued cl
           [build_request E cl PATCH (''/projects/'' @ toString (getField p ''id''))
              (with_body (JObj [(''status'', JStr ''archived'')])),
            build_request E cl DELETE (''/projects/'' @ toString (getField p ''id'')) no_opts]\<rparr>)"
proof -
  let ?path = "''/projects/'' @ toString (getField p ''id'')"
  let ?R1 = "build_request E cl PATCH ?path (with_body (JObj [(''status'', JStr ''archived'')]))"
  let ?R2 = "build_request E cl DELETE ?path no_opts"
  let ?s1 = "s\<lparr>log := log s @ issued cl [?R1]\<rparr>"
  have first: "api E cl PATCH ?path (with_body (JObj [(''status'', JStr ''archived'')])) s = (Inl e1, ?s1)"
    using assms(1) by (rule api_failure)
  have "failure E (backend E (requests (log ?s1)) ?R2) = Some e2"
    using assms(2) by (simp add: requests_append requests_onLoading)
  then have second: "api E cl DELETE ?path no_opts ?s1 =
      (Inl e2, ?s1\<lparr>log := log ?s1 @ issued cl [?R2]\<rparr>)"
    by (rule api_failure)
  show ?thesis
    using first second by (simp add: archiveOrDelete_def)
qed

subsection \<open>A probe with a succeeding candidate\<close>

text \<open>
  Claim C1, amended. For every probing operation (loading the projects, archiving a
  project, loading the users and the roles in either view, inviting or creating a user,
  updating a user's role, fetching the permissions of a role, saving them, assigning a
  role, logging in, registering, fetching the profile), the candidates are attempted
  strictly in order, each at most once per invocation; if the candidates before
  candidate N fail and candidate N succeeds, no candidate after N is attempted and the
  operation ends with candidate N's result. Four operations ask more of a candidate than
  a call that does not fail: inviting or creating a user and updating a user's role end
  with candidate N's result only when that result is truthy; a candidate of the login
  succeeds only when its answer holds a token; a candidate of the profile only when its
  answer is truthy; a candidate of the permissions of a role only when the permissions in
  its answer can be read. Each loop is stated for any list of candidates; the operations
  run it on their own routes.
\<close>

theorem prober_first_success:
  "(attempts E failure (requests (log s)) (map (get_request E cl) pre) = Some es \<and>
    answer E (backend E (requests (log s) @ map (get_request E cl) pre) (get_request E cl c)) = Some d \<longrightarrow>
      load_loop E cl (pre @ c # post) None s =
        (Inr (), s\<lparr>log := log s @ issued cl (map (get_request E cl) (pre @ [c])),
                  projects := elems (normalizeList d)\<rparr>)) \<and>
   (attempts E failure (requests (log u)) (map (get_request E cl) pre) = Some es \<and>
    answer E (backend E (requests (log u) @ map (get_request E cl) pre) (get_request E cl c)) = Some d \<longrightarrow>
      users_loadUsers_from E cl (pre @ c # post) u =
        (Inr (), u\<lparr>log := log u @ issued cl (map (get_request E cl) (pre @ [c])),
                  users := elems (normalizeList d)\<rparr>)) \<and>
   (attempts E failure (requests (log u)) (map (get_request E cl) pre) = Some es \<and>
    answer E (backend E (requests (log u) @ map (get_request E cl) pre) (get_request E cl c)) = Some d \<longrightarrow>
      users_loadRoles_from E cl (pre @ c # post) u =
        u\<lparr>log := log u @ issued cl (map (get_request E cl) (pre @ [c])),
          roles := elems (normalizeList d)\<rparr>) \<and>
   (attempts E failure (requests (log r)) (map (get_request E cl) pre) = Some es \<and>
    answer E (backend E (requests (log r) @ map (get_request E cl) pre) (get_request E cl c)) = Some d \<longrightarrow>
      roles_loadRoles_from E cl (pre @ c # post) r =
        (Inr (), r\<lparr>log := log r @ issued cl (map (get_request E cl) (pre @ [c])),
                  rp_roles := elems (normalizeList d)\<rparr>)) \<and>
   (attempts E failure (requests (log r)) (map (get_request E cl) pre) = Some es \<and>
    answer E (backend E (requests (log r) @ map (get_request E cl) pre) (get_request E cl c)) = Some d \<longrightarrow>
      roles_loadUsers_from E cl (pre @ c # post) r =
        r\<lparr>log := log r @ issued cl (map (get_request E cl) (pre @ [c])),
          rp_users := elems (normalizeList d)\<rparr>) \<and>
   (rejected E perms_passes (requests (log r)) (map (get_request E cl) pre) \<and>
    answer E (backend E (requests (log r) @ map (get_request E cl) pre) (get_request E cl c)) = Some d \<and>
    role_perms d = Some perms \<longrightarrow>
      selectRole_from E cl (pre @ c # post) role r =
        r\<lparr>log := log r @ issued cl (map (get_request E cl) (pre @ [c])),
          selectedRole := role, rolePerms := perms\<rparr>) \<and>
   (validateUser (inviteForm u) = [] \<and>
    attempts E failure (requests (log u)) (map (write_request E cl) wpre) = Some es \<and>
    answer E (backend E (requests (log u) @ map (write_request E cl) wpre) (write_request E cl wc)) = Some d \<and>
    truthy d \<longrightarrow>
      submitInvite_from E cl (wpre @ wc # wpost) u =
        (pushToast (notice ''success'' ''User invited/created'')
           (u\<lparr>user_errors := [],
              log := log u @ issued cl (map (write_request E cl) (wpre @ [wc]))\<rparr>))
          \<lparr>users := d # filter truthy (users u), inviteOpen := False\<rparr>) \<and>
   (attempts E failure (requests (log u)) (map (write_request E cl) wpre) = Some es \<and>
    answer E (backend E (requests (log u) @ map (write_request E cl) wpre) (write_request E cl wc)) = Some d \<and>
    truthy d \<longrightarrow>
      updateUserRole_from E cl (wpre @ wc # wpost) userId u =
        (pushToast (notice ''success'' ''Role updated'')
           (u\<lparr>log := log u @ issued cl (map (write_request E cl) (wpre @ [wc]))\<rparr>))
          \<lparr>users := map (\<lambda>x. if strict_eq (getField x ''id'') userId then d else x) (users u)\<rparr>) \<and>
   (truthy (getField (selectedRole r) ''id'') \<and>
    attempts E failure (requests (log r)) (map (write_request E cl) wpre) = Some es \<and>
    answer E (backend E (requests (log r) @ map (write_request E cl) wpre) (write_request E cl wc)) = Some d \<longrightarrow>
      savePermissions_from E cl (wpre @ wc # wpost) r =
        pushToast (notice ''success'' ''Permissions saved'')
          (r\<lparr>log := log r @ issued cl (map (write_request E cl) (wpre @ [wc]))\<rparr>)) \<and>
   (truthy (getField (selectedRole r) ''id'') \<and>
    assignUserId r \<noteq> [] \<and>
    attempts E failure (requests (log r)) (map (write_request E cl) wpre) = Some es \<and>
    answer E (backend E (requests (log r) @ map (write_request E cl) wpre) (write_request E cl wc)) = Some d \<longrightarrow>
      assignRoleToUser_from E cl (wpre @ wc # wpost) r =
        pushToast (notice ''success'' ''Role assigned'')
          (r\<lparr>log := log r @ issued cl (map (write_request E cl) (wpre @ [wc]))\<rparr>)) \<and>
   (attempts E login_failure (requests (auth_log a)) (map (post_request E cl) lpre) = Some es \<and>
    answer E (backend E (requests (auth_log a) @ map (post_request E cl) lpre) (post_request E cl lc)) = Some d \<and>
    truthy (normalizeAuthResponse d) \<longrightarrow>
      login_loop E cl (lpre @ lc # lpost) None a =
        (case bestEffortGetMe E (token_client (normalizeAuthResponse d))
                (auth_log a @ issued cl (map (post_request E cl) (lpre @ [lc]))) of
           (me, l2) \<Rightarrow>
             (Inr (normalizeAuthResponse d, me),
              (setToken E (normalizeAuthResponse d) a)
                \<lparr>token := normalizeAuthResponse d, user := me, auth_log := l2\<rparr>))) \<and>
   (attempts E failure (requests (auth_log a)) (map (post_request E cl) lpre) = Some es \<and>
    answer E (backend E (requests (auth_log a) @ map (post_request E cl) lpre) (post_request E cl lc)) = Some d \<and>
    truthy (normalizeAuthResponse d) \<longrightarrow>
      register_loop E cl (lpre @ lc # lpost) None a =
        (case bestEffortGetMe E (token_client (normalizeAuthResponse d))
                (auth_log a @ issued cl (map (post_request E cl) (lpre @ [lc]))) of
           (me, l2) \<Rightarrow>
             (Inr (normalizeAuthResponse d, JNull),
              (setToken E (normalizeAuthResponse d) a)
                \<lparr>token := normalizeAuthResponse d, user := me, auth_log := l2\<rparr>))) \<and>
   (attempts E failure (requests (auth_log a)) (map (post_request E cl) lpre) = Some es \<and>
    answer E (backend E (requests (auth_log a) @ map (post_request E cl) lpre) (post_request E cl lc)) = Some d \<and>
    \<not> truthy (normalizeAuthResponse d) \<longrightarrow>
      register_loop E cl (lpre @ lc # lpost) None a =
        (Inr (JNull, JNull),
         a\<lparr>auth_log := auth_log a @ issued cl (map (post_request E cl) (lpre @ [lc]))\<rparr>)) \<and>
   (rejected E me_passes (requests l) (map (get_request E cl) pre) \<and>
    answer E (backend E (requests l @ map (get_request E cl) pre) (get_request E cl c)) = Some d \<and>
    truthy d \<longrightarrow>
      getMe_loop E cl (pre @ c # post) l =
        (d, l @ issued cl (map (get_request E cl) (pre @ [c])))) \<and>
   (answer E (backend E (requests (log s)) (patch_request E cl p)) = Some d \<longrightarrow>
      archiveOrDelete E cl p s =
        (pushToast (notice ''success'' ''Project archived'')
           (s\<lparr>log := log s @ issued cl [patch_request E cl p]\<rparr>))
          \<lparr>projects :=
             map (\<lambda>x. if strict_eq (getField x ''id'') (getField p ''id'')
                      then with_status_archived x else x) (projects s)\<rparr>) \<and>
   (failure E (backend E (requests (log s)) (patch_request E cl p)) = Some ep \<and>
    answer E (backend E (requests (log s) @ [patch_request E cl p]) (delete_request E cl p)) = Some d \<longrightarrow>
      archiveOrDelete E cl p s =
        (pushToast (notice ''success'' ''Project deleted'')
           (s\<lparr>log := log s @ issued cl [patch_request E cl p, delete_request E cl p]\<rparr>))
          \<lparr>projects :=
             filter (\<lambda>x. \<not> strict_eq (getField x ''id'') (getField p ''id'')) (projects s),
           selected :=
             (if strict_eq (getField (selected s) ''id'') (getField p ''id'') then JNull
              else selected s)\<rparr>)"
proof (intro conjI impI)
  assume h: "attempts E failure (requests (log s)) (map (get_request E cl) pre) = Some es \<and>
    answer E (backend E (requests (log s) @ map (get_request E cl) pre) (get_request E cl c)) = Some d"
  show "load_loop E cl (pre @ c # post) None s =
        (Inr (), s\<lparr>log := log s @ issued cl (map (get_request E cl) (pre @ [c])),
                  projects := elems (normalizeList d)\<rparr>)"
    using h load_loop_success [of E s cl pre es c d post None] by blast
next
  assume h: "attempts E failure (requests (log u)) (map (get_request E cl) pre) = Some es \<and>
    answer E (backend E (requests (log u) @ map (get_request E cl) pre) (get_request E cl c)) = Some d"
  show "users_loadUsers_from E cl (pre @ c # post) u =
        (Inr (), u\<lparr>log := log u @ issued cl (map (get_request E cl) (pre @ [c])),
                  users := elems (normalizeList d)\<rparr>)"
    using h read_loop_success [of E u cl pre es c d post None]
    by (simp add: users_loadUsers_from_def)
next
  assume h: "attempts E failure (requests (log u)) (map (get_request E cl) pre) = Some es \<and>
    answer E (backend E (requests (log u) @ map (get_request E cl) pre) (get_request E cl c)) = Some d"
  show "users_loadRoles_from E cl (pre @ c # post) u =
        u\<lparr>log := log u @ issued cl (map (get_request E cl) (pre @ [c])),
          roles := elems (normalizeList d)\<rparr>"
    using h read_loop_success [of E u cl pre es c d post None]
    by (simp add: users_loadRoles_from_def)
next
  assume h: "attempts E failure (requests (log r)) (map (get_request E cl) pre) = Some es \<and>
    answer E (backend E (requests (log r) @ map (get_request E cl) pre) (get_request E cl c)) = Some d"
  show "roles_loadRoles_from E cl (pre @ c # post) r =
        (Inr (), r\<lparr>log := log r @ issued cl (map (get_request E cl) (pre @ [c])),
                  rp_roles := elems (normalizeList d)\<rparr>)"
    using h read_loop_success [of E r cl pre es c d post None]
    by (simp add: roles_loadRoles_from_def)
next
  assume h: "attempts E failure (requests (log r)) (map (get_request E cl) pre) = Some es \<and>
    answer E (backend E (requests (log r) @ map (get_request E cl) pre) (get_request E cl c)) = Some d"
  show "roles_loadUsers_from E cl (pre @ c # post) r =
        r\<lparr>log := log r @ issued cl (map (get_request E cl) (pre @ [c])),
          rp_users := elems (normalizeList d)\<rparr>"
    using h read_loop_success [of E r cl pre es c d post None]
    by (simp add: roles_loadUsers_from_def)
next
  assume h: "rejected E perms_passes (requests (log r)) (map (get_request E cl) pre) \<and>
    answer E (backend E (requests (log r) @ map (get_request E cl) pre) (get_request E cl c)) = Some d \<and>
    role_perms d = Some perms"
  show "selectRole_from E cl (pre @ c # post) role r =
        r\<lparr>log := log r @ issued cl (map (get_request E cl) (pre @ [c])),
          selectedRole := role, rolePerms := perms\<rparr>"
    using h
      perms_loop_success [of E "r\<lparr>selectedRole := role, rolePerms := []\<rparr>" cl pre c d perms post]
    by (simp add: selectRole_from_def)
next
  assume h: "validateUser (inviteForm u) = [] \<and>
    attempts E failure (requests (log u)) (map (write_request E cl) wpre) = Some es \<and>
    answer E (backend E (requests (log u) @ map (write_request E cl) wpre) (write_request E cl wc)) = Some d \<and>
    truthy d"
  show "submitInvite_from E cl (wpre @ wc # wpost) u =
        (pushToast (notice ''success'' ''User invited/created'')
           (u\<lparr>user_errors := [],
              log := log u @ issued cl (map (write_request E cl) (wpre @ [wc]))\<rparr>))
          \<lparr>users := d # filter truthy (users u), inviteOpen := False\<rparr>"
    using h write_loop_stop [of E "u\<lparr>user_errors := []\<rparr>" cl wpre es wc d wpost JNull None]
    by (simp add: submitInvite_from_def invite_finish_def pushToast_def Let_def)
next
  assume h: "attempts E failure (requests (log u)) (map (write_request E cl) wpre) = Some es \<and>
    answer E (backend E (requests (log u) @ map (write_request E cl) wpre) (write_request E cl wc)) = Some d \<and>
    truthy d"
  show "updateUserRole_from E cl (wpre @ wc # wpost) userId u =
        (pushToast (notice ''success'' ''Role updated'')
           (u\<lparr>log := log u @ issued cl (map (write_request E cl) (wpre @ [wc]))\<rparr>))
          \<lparr>users := map (\<lambda>x. if strict_eq (getField x ''id'') userId then d else x) (users u)\<rparr>"
    using h write_loop_stop [of E u cl wpre es wc d wpost JNull None]
    by (simp add: updateUserRole_from_def role_finish_def pushToast_def Let_def)
next
  assume h: "truthy (getField (selectedRole r) ''id'') \<and>
    attempts E failure (requests (log r)) (map (write_request E cl) wpre) = Some es \<and>
    answer E (backend E (requests (log r) @ map (write_request E cl) wpre) (write_request E cl wc)) = Some d"
  show "savePermissions_from E cl (wpre @ wc # wpost) r =
        pushToast (notice ''success'' ''Permissions saved'')
          (r\<lparr>log := log r @ issued cl (map (write_request E cl) (wpre @ [wc]))\<rparr>)"
    using h ok_loop_stop [of E r cl wpre es wc d wpost False None]
    by (simp add: savePermissions_from_def ok_finish_def)
next
  assume h: "truthy (getField (selectedRole r) ''id'') \<and>
    assignUserId r \<noteq> [] \<and>
    attempts E failure (requests (log r)) (map (write_request E cl) wpre) = Some es \<and>
    answer E (backend E (requests (log r) @ map (write_request E cl) wpre) (write_request E cl wc)) = Some d"
  show "assignRoleToUser_from E cl (wpre @ wc # wpost) r =
        pushToast (notice ''success'' ''Role assigned'')
          (r\<lparr>log := log r @ issued cl (map (write_request E cl) (wpre @ [wc]))\<rparr>)"
    using h ok_loop_stop [of E r cl wpre es wc d wpost False None]
    by (simp add: assignRoleToUser_from_def ok_finish_def)
next
  assume h: "attempts E login_failure (requests (auth_log a)) (map (post_request E cl) lpre) = Some es \<and>
    answer E (backend E (requests (auth_log a) @ map (post_request E cl) lpre) (post_request E cl lc)) = Some d \<and>
    truthy (normalizeAuthResponse d)"
  show "login_loop E cl (lpre @ lc # lpost) None a =
        (case bestEffortGetMe E (token_client (normalizeAuthResponse d))
                (auth_log a @ issued cl (map (post_request E cl) (lpre @ [lc]))) of
           (me, l2) \<Rightarrow>
             (Inr (normalizeAuthResponse d, me),
              (setToken E (normalizeAuthResponse d) a)
                \<lparr>token := normalizeAuthResponse d, user := me, auth_log := l2\<rparr>))"
    using h login_loop_success [of E a cl lpre es lc d lpost None]
    by (simp add: token_client_def)
next
  assume h: "attempts E failure (requests (auth_log a)) (map (post_request E cl) lpre) = Some es \<and>
    answer E (backend E (requests (auth_log a) @ map (post_request E cl) lpre) (post_request E cl lc)) = Some d \<and>
    truthy (normalizeAuthResponse d)"
  show "register_loop E cl (lpre @ lc # lpost) None a =
        (case bestEffortGetMe E (token_client (normalizeAuthResponse d))
                (auth_log a @ issued cl (map (post_request E cl) (lpre @ [lc]))) of
           (me, l2) \<Rightarrow>
             (Inr (normalizeAuthResponse d, JNull),
              (setToken E (normalizeAuthResponse d) a)
                \<lparr>token := normalizeAuthResponse d, user := me, auth_log := l2\<rparr>))"
    using h register_loop_success [of E a cl lpre es lc d lpost None]
    by (simp add: token_client_def)
next
  assume h: "attempts E failure (requests (auth_log a)) (map (post_request E cl) lpre) = Some es \<and>
    answer E (backend E (requests (auth_log a) @ map (post_request E cl) lpre) (post_request E cl lc)) = Some d \<and>
    \<not> truthy (normalizeAuthResponse d)"
  show "register_loop E cl (lpre @ lc # lpost) None a =
        (Inr (JNull, JNull),
         a\<lparr>auth_log := auth_log a @ issued cl (map (post_request E cl) (lpre @ [lc]))\<rparr>)"
    using h register_loop_success [of E a cl lpre es lc d lpost None]
    by simp
next
  assume h: "rejected E me_passes (requests l) (map (get_request E cl) pre) \<and>
    answer E (backend E (requests l @ map (get_request E cl) pre) (get_request E cl c)) = Some d \<and>
    truthy d"
  show "getMe_loop E cl (pre @ c # post) l =
        (d, l @ issued cl (map (get_request E cl) (pre @ [c])))"
    using h getMe_loop_success [of E l cl pre c d post] by blast
next
  assume h: "answer E (backend E (requests (log s)) (patch_request E cl p)) = Some d"
  show "archiveOrDelete E cl p s =
        (pushToast (notice ''success'' ''Project archived'')
           (s\<lparr>log := log s @ issued cl [patch_request E cl p]\<rparr>))
          \<lparr>projects :=
             map (\<lambda>x. if strict_eq (getField x ''id'') (getField p ''id'')
                      then with_status_archived x else x) (projects s)\<rparr>"
    using h archive_patch_ok [of E s cl p d] by (simp add: patch_request_def)
next
  assume h: "failure E (backend E (requests (log s)) (patch_request E cl p)) = Some ep \<and>
    answer E (backend E (requests (log s) @ [patch_request E cl p]) (delete_request E cl p)) = Some d"
  show "archiveOrDelete E cl p s =
        (pushToast (notice ''success'' ''Project deleted'')
           (s\<lparr>log := log s @ issued cl [patch_request E cl p, delete_request E cl p]\<rparr>))
          \<lparr>projects :=
             filter (\<lambda>x. \<not> strict_eq (getField x ''id'') (getField p ''id'')) (projects s),
           selected :=
             (if strict_eq (getField (selected s) ''id'') (getField p ''id'') then JNull
              else selected s)\<rparr>"
    using h archive_delete_ok [of E s cl p ep d]
    by (simp add: patch_request_def delete_request_def)
qed

theorem prober_first_success_witness:
  "projects (snd (load (sample_env (routes [(''/projects'', Responded 200 ''[{\"id\":7}]'')]))
                    page_client empty_projects)) = [JObj [(''id'', JNum 7)]] \<and>
   map req_url (requests (log (snd (load
       (sample_env (routes [(''/projects'', Responded 200 ''[{\"id\":7}]'')])) page_client
       empty_projects)))) = [''/projects''] \<and>
   users (submitInvite (sample_env (routes [(''/invite'', Responded 200 ''{\"id\":7}'')])) page_client
            empty_users) = [JObj [(''id'', JNum 7)]] \<and>
   map req_url (requests (log (submitInvite
       (sample_env (routes [(''/invite'', Responded 200 ''{\"id\":7}'')])) page_client empty_users))) =
     [''/users/invite'', ''/invite''] \<and>
   map toast_title (toasts (savePermissions (sample_env (routes [(''/roles/3'', Responded 204 [])]))
                              page_client empty_roles)) = [''Permissions saved''] \<and>
   map req_method (requests (log (savePermissions
       (sample_env (routes [(''/roles/3'', Responded 204 [])])) page_client empty_roles))) =
     [PUT, PATCH] \<and>
   fst (bestEffortGetMe
          (sample_env (routes [(''/auth/me'', Responded 200 []),
                               (''/me'', Responded 200 ''{\"id\":7}'')]))
          auth_client []) = JObj [(''id'', JNum 7)] \<and>
   map req_url (requests (snd (bestEffortGetMe
          (sample_env (routes [(''/auth/me'', Responded 200 []),
                               (''/me'', Responded 200 ''{\"id\":7}'')]))
          auth_client []))) = [''/auth/me'', ''/me'']"
proof -
  let ?E = "sample_env (routes [(''/projects'', Responded 200 ''[{\"id\":7}]'')])"
  let ?F = "sample_env (routes [(''/invite'', Responded 200 ''{\"id\":7}'')])"
  let ?G = "sample_env (routes [(''/roles/3'', Responded 204 [])])"
  let ?H = "sample_env (routes [(''/auth/me'', Responded 200 []),
                                (''/me'', Responded 200 ''{\"id\":7}'')])"
  let ?j = "invite_json (inviteForm empty_users)"
  let ?b = "JObj [(''permissions'', JArr (map JStr (granted_keys (rolePerms empty_roles))))]"
  let ?e = "\<lparr>err_message = ''Request failed (404)'', err_status = Some 404, err_data = JNull\<rparr>"
  have d3: "decimal 3 = ''3''"
    by code_simp
  have a1: "attempts ?E failure (requests (log empty_projects))
      (map (get_request ?E page_client) []) = Some []"
    by simp
  have a2: "answer ?E (backend ?E (requests (log empty_projects) @ map (get_request ?E page_client) [])
      (get_request ?E page_client ''/projects'')) = Some (JArr [JObj [(''id'', JNum 7)]])"
    by (simp add: sample_defs empty_projects_def)
  note a =
      prober_first_success [where E = ?E and s = empty_projects and cl = page_client and pre = "[]" and es = "[]" and c = "''/projects''" and d = "JArr [JObj [(''id'', JNum 7)]]" and post = "[''/api/projects'']" and u = empty_users and r = empty_roles and perms = "[]" and role = JNull and wpre = "[]" and wc = "(GET, [], JNull)" and wpost = "[]" and userId = JNull and a = anonymous and lpre = "[]" and lc = "([], JNull)" and lpost = "[]" and l = "[]" and p = JNull and ep = "newError []", THEN conjunct1, THEN mp, OF conjI [OF a1 a2]]
  have b1: "attempts ?F failure (requests (log empty_users))
      (map (write_request ?F page_client) [(POST, ''/users/invite'', ?j)]) = Some [?e]"
    by (simp add: sample_defs empty_users_def)
  have b2: "answer ?F (backend ?F (requests (log empty_users) @
      map (write_request ?F page_client) [(POST, ''/users/invite'', ?j)])
      (write_request ?F page_client (POST, ''/invite'', ?j))) = Some (JObj [(''id'', JNum 7)])"
    by (simp add: sample_defs empty_users_def)
  have b3: "truthy (JObj [(''id'', JNum 7)])"
    by simp
  note b =
      prober_first_success [where E = ?F and s = empty_projects and cl = page_client and pre = "[]" and es = "[?e]" and c = "[]" and d = "JObj [(''id'', JNum 7)]" and post = "[]" and u = empty_users and r = empty_roles and perms = "[]" and role = JNull and wpre = "[(POST, ''/users/invite'', ?j)]" and wc = "(POST, ''/invite'', ?j)" and wpost = "[(POST, ''/users'', ?j)]" and userId = JNull and a = anonymous and lpre = "[]" and lc = "([], JNull)" and lpost = "[]" and l = "[]" and p = JNull and ep = "newError []", THEN conjunct2, THEN conjunct2, THEN conjunct2, THEN conjunct2, THEN conjunct2, THEN conjunct2, THEN conjunct1, THEN mp, OF conjI [OF sample_invite_valid conjI [OF b1 conjI [OF b2 b3]]]]
  have c0: "truthy (getField (selectedRole empty_roles) ''id'')"
    by (simp add: empty_roles_def getField_def)
  have c1: "attempts ?G failure (requests (log empty_roles))
      (map (write_request ?G page_client) [(PUT, ''/roles/3/permissions'', ?b)]) = Some [?e]"
    by (simp add: sample_defs empty_roles_def granted_keys_def)
  have c2: "answer ?G (backend ?G (requests (log empty_roles) @
      map (write_request ?G page_client) [(PUT, ''/roles/3/permissions'', ?b)])
      (write_request ?G page_client (PATCH, ''/roles/3'', ?b))) = Some JNull"
    by (simp add: sample_defs empty_roles_def granted_keys_def)
  note c =
      prober_first_success [where E = ?G and s = empty_projects and cl = page_client and pre = "[]" and es = "[?e]" and c = "[]" and d = JNull and post = "[]" and u = empty_users and r = empty_roles and perms = "[]" and role = JNull and wpre = "[(PUT, ''/roles/3/permissions'', ?b)]" and wc = "(PATCH, ''/roles/3'', ?b)" and wpost = "[]" and userId = JNull and a = anonymous and lpre = "[]" and lc = "([], JNull)" and lpost = "[]" and l = "[]" and p = JNull and ep = "newError []", THEN conjunct2, THEN conjunct2, THEN conjunct2, THEN conjunct2, THEN conjunct2, THEN conjunct2, THEN conjunct2, THEN conjunct2, THEN conjunct1, THEN mp, OF conjI [OF c0 conjI [OF c1 c2]]]
  have g1: "rejected ?H me_passes (requests []) (map (get_request ?H auth_client) [''/auth/me''])"
    by (simp add: sample_defs me_passes_def)
  have g2: "answer ?H (backend ?H (requests [] @ map (get_request ?H auth_client) [''/auth/me''])
      (get_request ?H auth_client ''/me'')) = Some (JObj [(''id'', JNum 7)])"
    by (simp add: sample_defs)
  note g =
      prober_first_success [where E = ?H and s = empty_projects and cl = auth_client and pre = "[''/auth/me'']" and es = "[]" and c = "''/me''" and d = "JObj [(''id'', JNum 7)]" and post = "[''/users/me'', ''/api/me'']" and u = empty_users and r = empty_roles and perms = "[]" and role = JNull and wpre = "[]" and wc = "(GET, [], JNull)" and wpost = "[]" and userId = JNull and a = anonymous and lpre = "[]" and lc = "([], JNull)" and lpost = "[]" and l = "[]" and p = JNull and ep = "newError []", THEN conjunct2, THEN conjunct2, THEN conjunct2, THEN conjunct2, THEN conjunct2, THEN conjunct2, THEN conjunct2, THEN conjunct2, THEN conjunct2, THEN conjunct2, THEN conjunct2, THEN conjunct2, THEN conjunct2, THEN conjunct1, THEN mp, OF conjI [OF g1 conjI [OF g2 b3]]]
  have a': "load ?E page_client empty_projects =
      (Inr (), empty_projects
         \<lparr>log := log empty_projects @
                   issued page_client (map (get_request ?E page_client) ([] @ [''/projects''])),
          projects := elems (normalizeList (JArr [JObj [(''id'', JNum 7)]]))\<rparr>)"
    unfolding load_def using a by simp
  have b': "submitInvite ?F page_client empty_users =
      (pushToast (notice ''success'' ''User invited/created'')
         (empty_users\<lparr>user_errors := [],
            log := log empty_users @ issued page_client (map (write_request ?F page_client)
                     ([(POST, ''/users/invite'', ?j)] @ [(POST, ''/invite'', ?j)]))\<rparr>))
        \<lparr>users := JObj [(''id'', JNum 7)] # filter truthy (users empty_users),
         inviteOpen := False\<rparr>"
    unfolding submitInvite_def invite_candidates_def using b by simp
  have c': "savePermissions ?G page_client empty_roles =
      pushToast (notice ''success'' ''Permissions saved'')
        (empty_roles\<lparr>log := log empty_roles @ issued page_client (map (write_request ?G page_client)
                     ([(PUT, ''/roles/3/permissions'', ?b)] @ [(PATCH, ''/roles/3'', ?b)]))\<rparr>)"
    unfolding savePermissions_def save_candidates_def using c
    by (simp add: empty_roles_def getField_def d3)
  have g': "bestEffortGetMe ?H auth_client [] =
      (JObj [(''id'', JNum 7)], [] @ issued auth_client (map (get_request ?H auth_client) ([''/auth/me''] @ [''/me''])))"
    unfolding bestEffortGetMe_def using g by simp
  show ?thesis
    unfolding a' b' c' g'
    by (simp add: normalizeList_def pushToast_def notice_def str_or_def empty_projects_def
        empty_users_def empty_roles_def requests_append requests_issued onLoading_def
        sample_defs invite_json_def)
qed

text \<open>
  The claim as worded fails in four places. The invitation whose first candidate succeeds
  with an empty body attempts no further candidate, yet reports a failure and leaves the
  users as they were. The profile, the permissions of a role and the login go on to the
  next candidate after a call that succeeded: with a falsy answer, with a permission
  that is null, and with an answer without a token.
\<close>

theorem prober_first_success_counterexample:
  "answer (sample_env (routes [(''/users/invite'', Responded 204 [])]))
     (backend (sample_env (routes [(''/users/invite'', Responded 204 [])])) []
        (write_request (sample_env (routes [(''/users/invite'', Responded 204 [])])) page_client
           (POST, ''/users/invite'', invite_json (inviteForm empty_users)))) = Some JNull \<and>
   users (submitInvite (sample_env (routes [(''/users/invite'', Responded 204 [])])) page_client
            empty_users) = [] \<and>
   toasts (submitInvite (sample_env (routes [(''/users/invite'', Responded 204 [])])) page_client
            empty_users) =
     [\<lparr>toast_id = 1, toast_type = ''error'', toast_title = ''Invite failed'',
       toast_description = ''Invite failed.'', toast_timeoutMs = 4500\<rparr>] \<and>
   map req_url (requests (log (submitInvite
       (sample_env (routes [(''/users/invite'', Responded 204 [])])) page_client empty_users))) =
     [''/users/invite''] \<and>
   answer (sample_env (routes [(''/auth/me'', Responded 200 []),
                               (''/me'', Responded 200 ''{\"id\":7}'')]))
     (backend (sample_env (routes [(''/auth/me'', Responded 200 []),
                                   (''/me'', Responded 200 ''{\"id\":7}'')])) []
        (get_request (sample_env (routes [(''/auth/me'', Responded 200 []),
                                          (''/me'', Responded 200 ''{\"id\":7}'')]))
           auth_client ''/auth/me'')) = Some JNull \<and>
   map req_url (requests (snd (bestEffortGetMe
          (sample_env (routes [(''/auth/me'', Responded 200 []),
                               (''/me'', Responded 200 ''{\"id\":7}'')]))
          auth_client []))) = [''/auth/me'', ''/me''] \<and>
   answer (sample_env (routes [(''/roles/3/permissions'', Responded 200 ''[null]''),
                               (''/roles/3'', Responded 200 ''[\"a\",\"b\"]'')]))
     (backend (sample_env (routes [(''/roles/3/permissions'', Responded 200 ''[null]''),
                                   (''/roles/3'', Responded 200 ''[\"a\",\"b\"]'')])) []
        (get_request (sample_env (routes [(''/roles/3/permissions'', Responded 200 ''[null]''),
                                          (''/roles/3'', Responded 200 ''[\"a\",\"b\"]'')]))
           page_client ''/roles/3/permissions'')) = Some (JArr [JNull]) \<and>
   map req_url (requests (log (selectRole
          (sample_env (routes [(''/roles/3/permissions'', Responded 200 ''[null]''),
                               (''/roles/3'', Responded 200 ''[\"a\",\"b\"]'')]))
          page_client (JObj [(''id'', JNum 3)]) empty_roles))) =
     [''/roles/3/permissions'', ''/roles/3''] \<and>
   answer (sample_env (routes [(''/auth/login'', Responded 200 ''{\"ok\":true}''),
                               (''/login'', Responded 200 ''{\"access_token\":\"abc\"}'')]))
     (backend (sample_env (routes [(''/auth/login'', Responded 200 ''{\"ok\":true}''),
                                   (''/login'', Responded 200 ''{\"access_token\":\"abc\"}'')])) []
        (post_request (sample_env (routes [(''/auth/login'', Responded 200 ''{\"ok\":true}''),
                                           (''/login'', Responded 200 ''{\"access_token\":\"abc\"}'')]))
           auth_client
           (''/auth/login'', JObj [(''email'', JStr ''a@b.c''), (''password'', JStr ''secret'')]))) =
     Some (JObj [(''ok'', JBool True)]) \<and>
   fst (login (sample_env (routes [(''/auth/login'', Responded 200 ''{\"ok\":true}''),
                                   (''/login'', Responded 200 ''{\"access_token\":\"abc\"}'')]))
          auth_client ''a@b.c'' ''secret'' anonymous) = Inr (JStr ''abc'', JNull)"
proof -
  let ?E = "sample_env (routes [(''/users/invite'', Responded 204 [])])"
  let ?H = "sample_env (routes [(''/auth/me'', Responded 200 []),
                                (''/me'', Responded 200 ''{\"id\":7}'')])"
  let ?K = "sample_env (routes [(''/roles/3/permissions'', Responded 200 ''[null]''),
                                (''/roles/3'', Responded 200 ''[\"a\",\"b\"]'')])"
  let ?L = "sample_env (routes [(''/auth/login'', Responded 200 ''{\"ok\":true}''),
                                (''/login'', Responded 200 ''{\"access_token\":\"abc\"}'')])"
  let ?j = "invite_json (inviteForm empty_users)"
  let ?role = "JObj [(''id'', JNum 3)]"
  let ?r0 = "empty_roles\<lparr>selectedRole := ?role, rolePerms := []\<rparr>"
  let ?c1 = "(''/auth/login'', JObj [(''email'', JStr ''a@b.c''), (''password'', JStr ''secret'')])"
  let ?c2 = "(''/login'', JObj [(''email'', JStr ''a@b.c''), (''password'', JStr ''secret'')])"
  let ?c3 = "(''/token'', JObj [(''username'', JStr ''a@b.c''), (''password'', JStr ''secret'')])"
  have d3: "decimal 3 = ''3''"
    by code_simp
  have a: "answer ?E (backend ?E [] (write_request ?E page_client (POST, ''/users/invite'', ?j))) =
      Some JNull"
    by (simp add: sample_defs)
  have "write_loop ?E page_client
      ([] @ (POST, ''/users/invite'', ?j) # [(POST, ''/invite'', ?j), (POST, ''/users'', ?j)])
      JNull None (empty_users\<lparr>user_errors := []\<rparr>) =
     ((JNull, None),
      empty_users\<lparr>user_errors := [],
        log := issued page_client [write_request ?E page_client (POST, ''/users/invite'', ?j)]\<rparr>)"
    using a
      write_loop_stop [of ?E "empty_users\<lparr>user_errors := []\<rparr>" page_client "[]" "[]"
        "(POST, ''/users/invite'', ?j)" JNull "[(POST, ''/invite'', ?j), (POST, ''/users'', ?j)]"
        JNull None]
    by (simp add: empty_users_def)
  then have b: "submitInvite ?E page_client empty_users =
      pushToast (notice_with ''error'' ''Invite failed'' ''Invite failed.'')
        (empty_users\<lparr>user_errors := [],
           log := issued page_client [write_request ?E page_client (POST, ''/users/invite'', ?j)]\<rparr>)"
    using sample_invite_valid
    by (simp add: submitInvite_def submitInvite_from_def invite_candidates_def invite_finish_def
        newError_def Let_def)
  have g0: "answer ?H (backend ?H [] (get_request ?H auth_client ''/auth/me'')) = Some JNull"
    by (simp add: sample_defs)
  have g1: "rejected ?H me_passes (requests []) (map (get_request ?H auth_client) [''/auth/me''])"
    by (simp add: sample_defs me_passes_def)
  have g2: "answer ?H (backend ?H (requests [] @ map (get_request ?H auth_client) [''/auth/me''])
      (get_request ?H auth_client ''/me'')) = Some (JObj [(''id'', JNum 7)])"
    by (simp add: sample_defs)
  have g: "bestEffortGetMe ?H auth_client [] =
      (JObj [(''id'', JNum 7)],
       [] @ issued auth_client (map (get_request ?H auth_client) ([''/auth/me''] @ [''/me''])))"
    unfolding bestEffortGetMe_def
    using getMe_loop_success [OF g1 g2, of "[''/users/me'', ''/api/me'']"] by simp
  have k0: "answer ?K (backend ?K [] (get_request ?K page_client ''/roles/3/permissions'')) =
      Some (JArr [JNull])"
    by (simp add: sample_defs)
  have k1: "rejected ?K perms_passes (requests (log ?r0))
      (map (get_request ?K page_client) [''/roles/3/permissions''])"
    by (simp add: sample_defs empty_roles_def perms_passes_def role_perms_def js_or_def
        normalizeList_def)
  have k2: "answer ?K (backend ?K (requests (log ?r0) @
      map (get_request ?K page_client) [''/roles/3/permissions''])
      (get_request ?K page_client ''/roles/3'')) = Some (JArr [JStr ''a'', JStr ''b''])"
    by (simp add: sample_defs empty_roles_def)
  have ai: "array_index ''a'' = None" "array_index ''b'' = None"
    by (simp_all add: array_index_def parse_nat_def decimal.simps)
  have k3: "role_perms (JArr [JStr ''a'', JStr ''b'']) = Some [(''a'', True), (''b'', True)]"
    by (simp add: role_perms_def js_or_def getField_def normalizeList_def put_key_def ai)
  have k: "selectRole ?K page_client ?role empty_roles =
      ?r0\<lparr>log := log ?r0 @ issued page_client
                 (map (get_request ?K page_client) ([''/roles/3/permissions''] @ [''/roles/3''])),
           rolePerms := [(''a'', True), (''b'', True)]\<rparr>"
    unfolding selectRole_def selectRole_from_def perms_candidates_def
    using perms_loop_success [OF k1 k2 k3, of "[''/api/roles/3/permissions'']"]
    by (simp add: getField_def d3)
  have l0: "answer ?L (backend ?L [] (post_request ?L auth_client ?c1)) =
      Some (JObj [(''ok'', JBool True)])"
    by (simp add: sample_defs)
  have l1: "attempts ?L login_failure (requests (auth_log anonymous))
      (map (post_request ?L auth_client) [?c1]) =
      Some [newError ''Login response did not include a token.'']"
    by (simp add: sample_defs anonymous_def login_failure_def normalizeAuthResponse_def)
  have l2: "answer ?L (backend ?L (requests (auth_log anonymous) @
      map (post_request ?L auth_client) [?c1]) (post_request ?L auth_client ?c2)) =
      Some (JObj [(''access_token'', JStr ''abc'')])"
    by (simp add: sample_defs anonymous_def)
  have l3: "truthy (normalizeAuthResponse (JObj [(''access_token'', JStr ''abc'')]))"
    by (simp add: normalizeAuthResponse_abc)
  let ?l1 = "auth_log anonymous @
      issued auth_client (map (post_request ?L auth_client) ([?c1] @ [?c2]))"
  let ?tc = "\<lparr>cl_getToken = Some (JStr ''abc''), cl_onLoading = False\<rparr>"
  have m1: "rejected ?L me_passes (requests ?l1)
      (map (get_request ?L ?tc) [''/auth/me'', ''/me'', ''/users/me'', ''/api/me''])"
    by (simp add: sample_defs me_passes_def)
  have m: "bestEffortGetMe ?L ?tc ?l1 =
      (JNull, ?l1 @ issued ?tc
         (map (get_request ?L ?tc) [''/auth/me'', ''/me'', ''/users/me'', ''/api/me'']))"
    unfolding bestEffortGetMe_def by (rule getMe_loop_failure [OF m1])
  have l: "fst (login ?L auth_client ''a@b.c'' ''secret'' anonymous) = Inr (JStr ''abc'', JNull)"
    unfolding login_def login_candidates_def
    using login_loop_success [OF l1 l2 l3, of "[?c3]" None] m
    by (simp add: normalizeAuthResponse_abc)
  show ?thesis
    unfolding b g k l
    using a g0 k0 l0
    by (simp add: pushToast_def notice_with_def str_or_def empty_users_def empty_roles_def
        requests_issued requests_append sample_defs invite_json_def onLoading_def)
qed

subsection \<open>A probe whose candidates all fail\<close>

text \<open>
  Claim C2, amended. For every probing operation that reports its failure (loading the
  projects, the users of the users view and the roles of the roles view, logging in,
  registering, inviting or creating a user, updating a user's role, saving the permissions
  of a role, assigning a role, archiving a project): if every candidate fails, the
  operation fails, and the error it throws or notifies is the error of the last candidate
  attempted; if the candidate list is empty, it fails with its generic error. A candidate
  of the login also fails when its answer holds no token. The other four probing
  operations (the roles of the users view, the users of the roles view, the permissions
  of a role, the profile) ignore the failure: when every candidate fails they end without
  an error, with the list untouched, the permissions empty and the profile null.
\<close>

theorem prober_all_fail:
  "(attempts E failure (requests (log s)) (map (get_request E cl) cands) = Some es \<longrightarrow>
      load_loop E cl cands None s =
        (Inl (last_error es ''Unable to load projects.''),
         s\<lparr>log := log s @ issued cl (map (get_request E cl) cands)\<rparr>)) \<and>
   (attempts E failure (requests (log u)) (map (get_request E cl) cands) = Some es \<longrightarrow>
      users_loadUsers_from E cl cands u =
        (Inl (last_error es ''Unable to load users.''),
         u\<lparr>log := log u @ issued cl (map (get_request E cl) cands)\<rparr>)) \<and>
   (attempts E failure (requests (log r)) (map (get_request E cl) cands) = Some es \<longrightarrow>
      roles_loadRoles_from E cl cands r =
        (Inl (last_error es ''Unable to load roles.''),
         r\<lparr>log := log r @ issued cl (map (get_request E cl) cands)\<rparr>)) \<and>
   (attempts E login_failure (requests (auth_log a)) (map (post_request E cl) lcands) = Some es \<longrightarrow>
      login_loop E cl lcands None a =
        (Inl (last_error es ''Login failed.''),
         a\<lparr>auth_log := auth_log a @ issued cl (map (post_request E cl) lcands)\<rparr>)) \<and>
   (attempts E failure (requests (auth_log a)) (map (post_request E cl) lcands) = Some es \<longrightarrow>
      register_loop E cl lcands None a =
        (Inl (last_error es ''Registration failed.''),
         a\<lparr>auth_log := auth_log a @ issued cl (map (post_request E cl) lcands)\<rparr>)) \<and>
   (validateUser (inviteForm u) = [] \<and>
    attempts E failure (requests (log u)) (map (write_request E cl) wcands) = Some es \<longrightarrow>
      submitInvite_from E cl wcands u =
        pushToast (notice_with ''error'' ''Invite failed'' (err_message (last_error es ''Invite failed.'')))
          (u\<lparr>user_errors := [],
             log := log u @ issued cl (map (write_request E cl) wcands)\<rparr>)) \<and>
   (attempts E failure (requests (log u)) (map (write_request E cl) wcands) = Some es \<longrightarrow>
      updateUserRole_from E cl wcands userId u =
        pushToast (notice_with ''error'' ''Update failed''
                     (err_message (last_error es ''Role update failed.'')))
          (u\<lparr>log := log u @ issued cl (map (write_request E cl) wcands)\<rparr>)) \<and>
   (truthy (getField (selectedRole r) ''id'') \<and>
    attempts E failure (requests (log r)) (map (write_request E cl) wcands) = Some es \<longrightarrow>
      savePermissions_from E cl wcands r =
        pushToast (notice_with ''error'' ''Save failed'' (err_message (last_error es ''Save failed.'')))
          (r\<lparr>log := log r @ issued cl (map (write_request E cl) wcands)\<rparr>)) \<and>
   (truthy (getField (selectedRole r) ''id'') \<and>
    assignUserId r \<noteq> [] \<and>
    attempts E failure (requests (log r)) (map (write_request E cl) wcands) = Some es \<longrightarrow>
      assignRoleToUser_from E cl wcands r =
        pushToast (notice_with ''error'' ''Assign failed'' (err_message (last_error es ''Assign failed.'')))
          (r\<lparr>log := log r @ issued cl (map (write_request E cl) wcands)\<rparr>)) \<and>
   (failure E (backend E (requests (log s)) (patch_request E cl p)) = Some ep \<and>
    failure E (backend E (requests (log s) @ [patch_request E cl p]) (delete_request E cl p)) = Some ed \<longrightarrow>
      archiveOrDelete E cl p s =
        pushToast (notice_with ''error'' ''Action failed'' (err_message ed))
          (s\<lparr>log := log s @ issued cl [patch_request E cl p, delete_request E cl p]\<rparr>)) \<and>
   (rs \<noteq> [] \<and>
    attempts E fl hist rs = Some es \<longrightarrow>
      fl E (backend E (hist @ butlast rs) (last rs)) = Some (last_error es generic)) \<and>
   last_error [] generic = newError generic \<and>
   (attempts E failure (requests (log u)) (map (get_request E cl) cands) = Some es \<longrightarrow>
      users_loadRoles_from E cl cands u =
        u\<lparr>log := log u @ issued cl (map (get_request E cl) cands)\<rparr>) \<and>
   (attempts E failure (requests (log r)) (map (get_request E cl) cands) = Some es \<longrightarrow>
      roles_loadUsers_from E cl cands r =
        r\<lparr>log := log r @ issued cl (map (get_request E cl) cands)\<rparr>) \<and>
   (rejected E perms_passes (requests (log r)) (map (get_request E cl) cands) \<longrightarrow>
      selectRole_from E cl cands role r =
        r\<lparr>log := log r @ issued cl (map (get_request E cl) cands),
          selectedRole := role, rolePerms := []\<rparr>) \<and>
   (rejected E me_passes (requests l) (map (get_request E cl) cands) \<longrightarrow>
      getMe_loop E cl cands l = (JNull, l @ issued cl (map (get_request E cl) cands)))"
proof (intro conjI impI)
  assume h: "attempts E failure (requests (log s)) (map (get_request E cl) cands) = Some es"
  show "load_loop E cl cands None s =
        (Inl (last_error es ''Unable to load projects.''),
         s\<lparr>log := log s @ issued cl (map (get_request E cl) cands)\<rparr>)"
    using h load_loop_failure [of E s cl cands es None] by (simp add: last_error_def)
next
  assume h: "attempts E failure (requests (log u)) (map (get_request E cl) cands) = Some es"
  show "users_loadUsers_from E cl cands u =
        (Inl (last_error es ''Unable to load users.''),
         u\<lparr>log := log u @ issued cl (map (get_request E cl) cands)\<rparr>)"
    using h read_loop_failure [of E u cl cands es None]
    by (simp add: users_loadUsers_from_def last_error_def)
next
  assume h: "attempts E failure (requests (log r)) (map (get_request E cl) cands) = Some es"
  show "roles_loadRoles_from E cl cands r =
        (Inl (last_error es ''Unable to load roles.''),
         r\<lparr>log := log r @ issued cl (map (get_request E cl) cands)\<rparr>)"
    using h read_loop_failure [of E r cl cands es None]
    by (simp add: roles_loadRoles_from_def last_error_def)
next
  assume h: "attempts E login_failure (requests (auth_log a)) (map (post_request E cl) lcands) = Some es"
  show "login_loop E cl lcands None a =
        (Inl (last_error es ''Login failed.''),
         a\<lparr>auth_log := auth_log a @ issued cl (map (post_request E cl) lcands)\<rparr>)"
    using h login_loop_failure [of E a cl lcands es None] by (simp add: last_error_def)
next
  assume h: "attempts E failure (requests (auth_log a)) (map (post_request E cl) lcands) = Some es"
  show "register_loop E cl lcands None a =
        (Inl (last_error es ''Registration failed.''),
         a\<lparr>auth_log := auth_log a @ issued cl (map (post_request E cl) lcands)\<rparr>)"
    using h register_loop_failure [of E a cl lcands es None] by (simp add: last_error_def)
next
  assume h: "validateUser (inviteForm u) = [] \<and>
    attempts E failure (requests (log u)) (map (write_request E cl) wcands) = Some es"
  show "submitInvite_from E cl wcands u =
        pushToast (notice_with ''error'' ''Invite failed'' (err_message (last_error es ''Invite failed.'')))
          (u\<lparr>user_errors := [],
             log := log u @ issued cl (map (write_request E cl) wcands)\<rparr>)"
    using h write_loop_failure [of E "u\<lparr>user_errors := []\<rparr>" cl wcands es JNull None]
    by (simp add: submitInvite_from_def invite_finish_def last_error_def Let_def)
next
  assume h: "attempts E failure (requests (log u)) (map (write_request E cl) wcands) = Some es"
  show "updateUserRole_from E cl wcands userId u =
        pushToast (notice_with ''error'' ''Update failed''
                     (err_message (last_error es ''Role update failed.'')))
          (u\<lparr>log := log u @ issued cl (map (write_request E cl) wcands)\<rparr>)"
    using h write_loop_failure [of E u cl wcands es JNull None]
    by (simp add: updateUserRole_from_def role_finish_def last_error_def Let_def)
next
  assume h: "truthy (getField (selectedRole r) ''id'') \<and>
    attempts E failure (requests (log r)) (map (write_request E cl) wcands) = Some es"
  show "savePermissions_from E cl wcands r =
        pushToast (notice_with ''error'' ''Save failed'' (err_message (last_error es ''Save failed.'')))
          (r\<lparr>log := log r @ issued cl (map (write_request E cl) wcands)\<rparr>)"
    using h ok_loop_failure [of E r cl wcands es False None]
    by (simp add: savePermissions_from_def ok_finish_def last_error_def)
next
  assume h: "truthy (getField (selectedRole r) ''id'') \<and>
    assignUserId r \<noteq> [] \<and>
    attempts E failure (requests (log r)) (map (write_request E cl) wcands) = Some es"
  show "assignRoleToUser_from E cl wcands r =
        pushToast (notice_with ''error'' ''Assign failed'' (err_message (last_error es ''Assign failed.'')))
          (r\<lparr>log := log r @ issued cl (map (write_request E cl) wcands)\<rparr>)"
    using h ok_loop_failure [of E r cl wcands es False None]
    by (simp add: assignRoleToUser_from_def ok_finish_def last_error_def)
next
  assume h: "failure E (backend E (requests (log s)) (patch_request E cl p)) = Some ep \<and>
    failure E (backend E (requests (log s) @ [patch_request E cl p]) (delete_request E cl p)) = Some ed"
  show "archiveOrDelete E cl p s =
        pushToast (notice_with ''error'' ''Action failed'' (err_message ed))
          (s\<lparr>log := log s @ issued cl [patch_request E cl p, delete_request E cl p]\<rparr>)"
    using h archive_both_fail [of E s cl p ep ed]
    by (simp add: patch_request_def delete_request_def)
next
  assume h: "rs \<noteq> [] \<and>
    attempts E fl hist rs = Some es"
  show "fl E (backend E (hist @ butlast rs) (last rs)) = Some (last_error es generic)"
    using h attempts_last [of E fl hist "butlast rs" "last rs" es]
    by (auto simp add: last_error_def)
next
  show "last_error [] generic = newError generic"
    by (simp add: last_error_def)
next
  assume h: "attempts E failure (requests (log u)) (map (get_request E cl) cands) = Some es"
  show "users_loadRoles_from E cl cands u =
        u\<lparr>log := log u @ issued cl (map (get_request E cl) cands)\<rparr>"
    using h read_loop_failure [of E u cl cands es None]
    by (simp add: users_loadRoles_from_def)
next
  assume h: "attempts E failure (requests (log r)) (map (get_request E cl) cands) = Some es"
  show "roles_loadUsers_from E cl cands r =
        r\<lparr>log := log r @ issued cl (map (get_request E cl) cands)\<rparr>"
    using h read_loop_failure [of E r cl cands es None]
    by (simp add: roles_loadUsers_from_def)
next
  assume h: "rejected E perms_passes (requests (log r)) (map (get_request E cl) cands)"
  show "selectRole_from E cl cands role r =
        r\<lparr>log := log r @ issued cl (map (get_request E cl) cands),
          selectedRole := role, rolePerms := []\<rparr>"
    using h perms_loop_failure [of E "r\<lparr>selectedRole := role, rolePerms := []\<rparr>" cl cands]
    by (simp add: selectRole_from_def)
next
  assume h: "rejected E me_passes (requests l) (map (get_request E cl) cands)"
  show "getMe_loop E cl cands l = (JNull, l @ issued cl (map (get_request E cl) cands))"
    using h getMe_loop_failure [of E l cl cands] by blast
qed

theorem prober_all_fail_witness:
  "fst (load (sample_env (routes [(''/api/projects'', Responded 500 ''{\"detail\":\"denied\"}'')]))
         page_client empty_projects) =
     Inl \<lparr>err_message = ''denied'', err_status = Some 500,
          err_data = JObj [(''detail'', JStr ''denied'')]\<rparr> \<and>
   fst (login (sample_env (routes [(''/login'', Responded 200 ''{\"ok\":true}''),
                                   (''/token'', Responded 200 ''{\"ok\":true}'')]))
         auth_client ''a@b.c'' ''secret'' anonymous) =
     Inl (newError ''Login response did not include a token.'') \<and>
   toasts (assignRoleToUser (sample_env (routes [(''/users/7/roles'', Responded 500 ''{\"detail\":\"denied\"}'')]))
             page_client empty_roles) =
     [\<lparr>toast_id = 1, toast_type = ''error'', toast_title = ''Assign failed'',
       toast_description = ''Request failed (404)'', toast_timeoutMs = 4500\<rparr>] \<and>
   fst (register (sample_env (routes [])) auth_client ''Ann'' ''a@b.c'' ''secret'' anonymous) =
     Inl \<lparr>err_message = ''Request failed (404)'', err_status = Some 404, err_data = JNull\<rparr> \<and>
   load_loop (sample_env (routes [])) page_client [] None empty_projects =
     (Inl (newError ''Unable to load projects.''), empty_projects)"
proof -
  let ?E = "sample_env (routes [(''/api/projects'', Responded 500 ''{\"detail\":\"denied\"}'')])"
  let ?F = "sample_env (routes [(''/login'', Responded 200 ''{\"ok\":true}''),
                                (''/token'', Responded 200 ''{\"ok\":true}'')])"
  let ?G = "sample_env (routes [(''/users/7/roles'', Responded 500 ''{\"detail\":\"denied\"}'')])"
  let ?Z = "sample_env (routes [])"
  let ?e = "\<lparr>err_message = ''Request failed (404)'', err_status = Some 404, err_data = JNull\<rparr>"
  let ?den = "\<lparr>err_message = ''denied'', err_status = Some 500,
               err_data = JObj [(''detail'', JStr ''denied'')]\<rparr>"
  let ?nt = "newError ''Login response did not include a token.''"
  let ?es = "[?e, ?den]"
  let ?les = "[?e, ?nt, ?nt]"
  let ?ws = "[?den, ?e, ?e]"
  let ?rs = "[?e, ?e, ?e]"
  have a1: "attempts ?E failure (requests (log empty_projects))
      (map (get_request ?E page_client) [''/projects'', ''/api/projects'']) = Some ?es"
    by (simp add: sample_defs empty_projects_def)
  note a =
      prober_all_fail [where E = ?E and s = empty_projects and cl = page_client and cands = "[''/projects'', ''/api/projects'']" and es = "?es" and u = empty_users and r = empty_roles and a = anonymous and lcands = "[]" and wcands = "[]" and userId = JNull and p = JNull and ep = "newError []" and ed = "newError []" and rs = "[]" and fl = failure and hist = "[]" and generic = "[]" and role = JNull and l = "[]", THEN conjunct1, THEN mp, OF a1]
  have b1: "attempts ?F login_failure (requests (auth_log anonymous))
      (map (post_request ?F auth_client) (login_candidates ''a@b.c'' ''secret'')) = Some ?les"
    by (simp add: sample_defs anonymous_def login_candidates_def login_failure_def
        normalizeAuthResponse_def)
  note b =
      prober_all_fail [where E = ?F and s = empty_projects and cl = auth_client and cands = "[]" and es = "?les" and u = empty_users and r = empty_roles and a = anonymous and lcands = "login_candidates ''a@b.c'' ''secret''" and wcands = "[]" and userId = JNull and p = JNull and ep = "newError []" and ed = "newError []" and rs = "[]" and fl = failure and hist = "[]" and generic = "[]" and role = JNull and l = "[]", THEN conjunct2, THEN conjunct2, THEN conjunct2, THEN conjunct1, THEN mp, OF b1]
  have c0: "truthy (getField (selectedRole empty_roles) ''id'')"
    by (simp add: empty_roles_def getField_def)
  have c00: "assignUserId empty_roles \<noteq> []"
    by (simp add: empty_roles_def)
  have c1: "attempts ?G failure (requests (log empty_roles))
      (map (write_request ?G page_client) (assign_candidates empty_roles)) = Some ?ws"
    by (simp add: sample_defs empty_roles_def assign_candidates_def getField_def)
  note c =
      prober_all_fail [where E = ?G and s = empty_projects and cl = page_client and cands = "[]" and es = "?ws" and u = empty_users and r = empty_roles and a = anonymous and lcands = "[]" and wcands = "assign_candidates empty_roles" and userId = JNull and p = JNull and ep = "newError []" and ed = "newError []" and rs = "[]" and fl = failure and hist = "[]" and generic = "[]" and role = JNull and l = "[]", THEN conjunct2, THEN conjunct2, THEN conjunct2, THEN conjunct2, THEN conjunct2, THEN conjunct2, THEN conjunct2, THEN conjunct2, THEN conjunct1, THEN mp, OF conjI [OF c0 conjI [OF c00 c1]]]
  have r1: "attempts ?Z failure (requests (auth_log anonymous))
      (map (post_request ?Z auth_client) (register_candidates ''Ann'' ''a@b.c'' ''secret'')) =
      Some ?rs"
    by (simp add: sample_defs anonymous_def register_candidates_def)
  note r =
      prober_all_fail [where E = ?Z and s = empty_projects and cl = auth_client and cands = "[]" and es = "?rs" and u = empty_users and r = empty_roles and a = anonymous and lcands = "register_candidates ''Ann'' ''a@b.c'' ''secret''" and wcands = "[]" and userId = JNull and p = JNull and ep = "newError []" and ed = "newError []" and rs = "[]" and fl = failure and hist = "[]" and generic = "[]" and role = JNull and l = "[]", THEN conjunct2, THEN conjunct2, THEN conjunct2, THEN conjunct2, THEN conjunct1, THEN mp, OF r1]
  have z1: "attempts ?Z failure (requests (log empty_projects))
      (map (get_request ?Z page_client) []) = Some []"
    by simp
  note z =
      prober_all_fail [where E = ?Z and s = empty_projects and cl = page_client and cands = "[]" and es = "[]" and u = empty_users and r = empty_roles and a = anonymous and lcands = "[]" and wcands = "[]" and userId = JNull and p = JNull and ep = "newError []" and ed = "newError []" and rs = "[]" and fl = failure and hist = "[]" and generic = "[]" and role = JNull and l = "[]", THEN conjunct1, THEN mp, OF z1]
  show ?thesis
    unfolding load_def login_def assignRoleToUser_def register_def a b c r z
    by (simp add: last_error_def newError_def pushToast_def notice_with_def str_or_def
        empty_roles_def empty_projects_def)
qed

text \<open>
  The claim as worded fails for the operations that ignore the failure: with every
  candidate answering 404, the profile fetch returns null and the users view loads its
  roles without raising or notifying anything.
\<close>

theorem prober_all_fail_counterexample:
  "attempts (sample_env (routes [])) failure []
     (map (get_request (sample_env (routes [])) auth_client)
        [''/auth/me'', ''/me'', ''/users/me'', ''/api/me'']) =
     Some [\<lparr>err_message = ''Request failed (404)'', err_status = Some 404, err_data = JNull\<rparr>, \<lparr>err_message = ''Request failed (404)'', err_status = Some 404, err_data = JNull\<rparr>, \<lparr>err_message = ''Request failed (404)'', err_status = Some 404, err_data = JNull\<rparr>, \<lparr>err_message = ''Request failed (404)'', err_status = Some 404, err_data = JNull\<rparr>] \<and>
   bestEffortGetMe (sample_env (routes [])) auth_client [] =
     (JNull,
      issued auth_client
        (map (get_request (sample_env (routes [])) auth_client)
           [''/auth/me'', ''/me'', ''/users/me'', ''/api/me''])) \<and>
   attempts (sample_env (routes [])) failure []
     (map (get_request (sample_env (routes [])) page_client) [''/roles'', ''/api/roles'']) =
     Some [\<lparr>err_message = ''Request failed (404)'', err_status = Some 404, err_data = JNull\<rparr>, \<lparr>err_message = ''Request failed (404)'', err_status = Some 404, err_data = JNull\<rparr>] \<and>
   users_loadRoles (sample_env (routes [])) page_client empty_users =
     empty_users
       \<lparr>log := issued page_client
                 (map (get_request (sample_env (routes [])) page_client)
                    [''/roles'', ''/api/roles''])\<rparr>"
proof -
  let ?Z = "sample_env (routes [])"
  let ?e = "\<lparr>err_message = ''Request failed (404)'', err_status = Some 404, err_data = JNull\<rparr>"
  have a: "attempts ?Z failure []
      (map (get_request ?Z auth_client) [''/auth/me'', ''/me'', ''/users/me'', ''/api/me'']) =
      Some [?e, ?e, ?e, ?e]"
    by (simp add: sample_defs)
  have g1: "rejected ?Z me_passes (requests [])
      (map (get_request ?Z auth_client) [''/auth/me'', ''/me'', ''/users/me'', ''/api/me''])"
    by (simp add: sample_defs me_passes_def)
  have g: "bestEffortGetMe ?Z auth_client [] =
      (JNull, [] @ issued auth_client
         (map (get_request ?Z auth_client) [''/auth/me'', ''/me'', ''/users/me'', ''/api/me'']))"
    unfolding bestEffortGetMe_def by (rule getMe_loop_failure [OF g1])
  have b: "attempts ?Z failure []
      (map (get_request ?Z page_client) [''/roles'', ''/api/roles'']) = Some [?e, ?e]"
    by (simp add: sample_defs)
  have b': "attempts ?Z failure (requests (log empty_users))
      (map (get_request ?Z page_client) [''/roles'', ''/api/roles'']) = Some [?e, ?e]"
    using b by (simp add: empty_users_def)
  have u: "users_loadRoles ?Z page_client empty_users =
      empty_users\<lparr>log := log empty_users @ issued page_client
         (map (get_request ?Z page_client) [''/roles'', ''/api/roles''])\<rparr>"
    unfolding users_loadRoles_def users_loadRoles_from_def
    using read_loop_failure [OF b', of None] by simp
  have l0: "log empty_users = []"
    by (simp add: empty_users_def)
  show ?thesis
    using a b g u unfolding l0 by simp
qed

end
